theory Spec2Isabelle
  imports Complex_Main "HOL-Library.Word"
begin

section \<open>Two browser 3D viewers: a shallow embedding\<close>

text \<open>
  The repository holds a satellite viewer (\<^verbatim>\<open>3D_WEB_VIEW/main.js\<close>, class
  \<^verbatim>\<open>SatelliteViewer\<close>) and a small generic model viewer (the \<^verbatim>\<open>scripts\<close>
  modules: \<^verbatim>\<open>initProject\<close>, \<^verbatim>\<open>load3dModel\<close>, \<^verbatim>\<open>handleDrop\<close>). Both are
  event handlers over a rendering library and the DOM. Each handler is embedded as a
  function from the state it reads to the state it leaves; a handler that can throw
  returns a sum with the error on the left; what a handler does to the outside world
  (dialogs, console lines, network requests, disposal of GPU resources, scene-graph
  insertions) is appended to an event trace, so that orderings can be stated.
  JavaScript numbers are read as real numbers.
\<close>

subsection \<open>Errors and DOM elements\<close>

datatype js_error = TypeError string

text \<open>
  An element is represented by the two properties the handlers touch: its class list
  (\<^verbatim>\<open>DOMTokenList\<close>, an ordered set of tokens) and its text content.
\<close>

record element =
  classList :: "string list"
  textContent :: string

definition classList_contains :: "string list \<Rightarrow> string \<Rightarrow> bool" where
  "classList_contains cl tok = (tok \<in> set cl)"

definition classList_add :: "string list \<Rightarrow> string \<Rightarrow> string list" where
  "classList_add cl tok = (if tok \<in> set cl then cl else cl @ [tok])"

definition classList_remove :: "string list \<Rightarrow> string \<Rightarrow> string list" where
  "classList_remove cl tok = removeAll tok cl"

text \<open>\<^verbatim>\<open>classList.toggle(tok)\<close> returns whether the token is present afterwards.\<close>

definition classList_toggle :: "string list \<Rightarrow> string \<Rightarrow> string list \<times> bool" where
  "classList_toggle cl tok =
     (if tok \<in> set cl then (removeAll tok cl, False) else (cl @ [tok], True))"

subsection \<open>The right side panel (\<^verbatim>\<open>setupEventListeners\<close>, \<^verbatim>\<open>toggleRightPanel\<close>)\<close>

text \<open>
  The two arrows the toggle button shows, as their UTF-8 bytes: U+25C4 (pointing left,
  panel collapsed) and U+25BA (pointing right, panel open).
\<close>

definition arrow_left :: string where
  "arrow_left = [CHR 0xE2, CHR 0x97, CHR 0x84]"

definition arrow_right :: string where
  "arrow_right = [CHR 0xE2, CHR 0x96, CHR 0xBA]"

text \<open>
  What the closure \<^verbatim>\<open>toggleRightPanel\<close> captures. \<^verbatim>\<open>rightPanel\<close> and
  \<^verbatim>\<open>presetButtons\<close> come from \<^verbatim>\<open>getElementById\<close> and may be null. The button
  \<^verbatim>\<open>rightPanelToggle\<close> is not optional here: the closure is only ever registered by
  \<^verbatim>\<open>rightPanelToggle.addEventListener\<close>, which throws on a null button before the
  keyboard shortcut is installed, so no call of the closure sees a null button.
\<close>

record panel_state =
  rightPanel :: "element option"
  rightPanelToggle :: element
  presetButtons :: "element option"
  presetButtonElements :: "element list"
  currentPreset :: "string option"

definition resetPartPreset :: "panel_state \<Rightarrow> panel_state" where
  "resetPartPreset s = s\<lparr>currentPreset := None\<rparr>"

definition toggleRightPanel :: "panel_state \<Rightarrow> js_error + panel_state" where
  "toggleRightPanel s =
     (case rightPanel s of
        None \<Rightarrow> Inl (TypeError ''rightPanel is null'')
      | Some panel \<Rightarrow>
          (let (cl, isCollapsed) = classList_toggle (classList panel) ''collapsed'';
               s1 = s\<lparr>rightPanel := Some (panel\<lparr>classList := cl\<rparr>)\<rparr>;
               s2 = s1\<lparr>rightPanelToggle := (rightPanelToggle s1)
                       \<lparr>textContent := (if isCollapsed then arrow_left else arrow_right)\<rparr>\<rparr>
           in if isCollapsed then
                (let s3 = s2\<lparr>rightPanelToggle := (rightPanelToggle s2)
                       \<lparr>classList := classList_add (classList (rightPanelToggle s2)) ''panel-collapsed''\<rparr>\<rparr>
                 in Inr (s3\<lparr>presetButtons :=
                       map_option (\<lambda>b. b\<lparr>classList := classList_remove (classList b) ''hidden''\<rparr>)
                         (presetButtons s3)\<rparr>))
              else
                (let s3 = s2\<lparr>rightPanelToggle := (rightPanelToggle s2)
                       \<lparr>classList := classList_remove (classList (rightPanelToggle s2)) ''panel-collapsed''\<rparr>\<rparr>;
                     s4 = s3\<lparr>presetButtons :=
                       map_option (\<lambda>b. b\<lparr>classList := classList_add (classList b) ''hidden''\<rparr>)
                         (presetButtons s3)\<rparr>;
                     s5 = resetPartPreset s4
                 in Inr (s5\<lparr>presetButtonElements :=
                       map (\<lambda>btn. btn\<lparr>classList := classList_remove (classList btn) ''active''\<rparr>)
                         (presetButtonElements s5)\<rparr>))))"

text \<open>The panel's collapsed flag: the presence of the class \<^verbatim>\<open>collapsed\<close>.\<close>

definition panel_collapsed :: "panel_state \<Rightarrow> bool option" where
  "panel_collapsed s = map_option (\<lambda>p. classList_contains (classList p) ''collapsed'') (rightPanel s)"

definition arrow_for :: "bool \<Rightarrow> string" where
  "arrow_for collapsed = (if collapsed then arrow_left else arrow_right)"

definition toggle_twice :: "panel_state \<Rightarrow> js_error + panel_state" where
  "toggle_twice s = (case toggleRightPanel s of Inl e \<Rightarrow> Inl e | Inr s1 \<Rightarrow> toggleRightPanel s1)"

subsection \<open>Strings (\<^verbatim>\<open>formatPartName\<close>)\<close>

text \<open>
  A name is a JavaScript string: a sequence of UTF-16 code units, here natural numbers.
  The literals of the source are written with \<open>units\<close>, which gives the code units of
  characters below 256. The character classes are those of the regular expressions in
  the source, which carry no flag \<^verbatim>\<open>u\<close>: \<^verbatim>\<open>\s\<close> (and the set that \<^verbatim>\<open>trim\<close> removes) is
  the white space and the line terminators of ECMAScript, that is TAB, LF, VT, FF, CR,
  space, U+00A0, U+1680, U+2000 to U+200A, U+2028, U+2029, U+202F, U+205F, U+3000 and
  U+FEFF; \<^verbatim>\<open>\w\<close> is \<^verbatim>\<open>[A-Za-z0-9_]\<close>; \<^verbatim>\<open>\d\<close> is \<^verbatim>\<open>[0-9]\<close>; the dot excludes the line
  terminators LF, CR, U+2028 and U+2029.
\<close>

type_synonym jsstring = "nat list"

definition units :: "string \<Rightarrow> jsstring" where
  "units s = map of_char s"

definition is_white_space :: "nat \<Rightarrow> bool" where
  "is_white_space n =
     ((0x09 \<le> n \<and> n \<le> 0x0D) \<or> n = 0x20 \<or> n = 0xA0 \<or> n = 0x1680 \<or>
      (0x2000 \<le> n \<and> n \<le> 0x200A) \<or> n = 0x2028 \<or> n = 0x2029 \<or> n = 0x202F \<or>
      n = 0x205F \<or> n = 0x3000 \<or> n = 0xFEFF)"

definition is_line_terminator :: "nat \<Rightarrow> bool" where
  "is_line_terminator n = (n = 0x0A \<or> n = 0x0D \<or> n = 0x2028 \<or> n = 0x2029)"

definition is_decimal_digit :: "nat \<Rightarrow> bool" where
  "is_decimal_digit n = (48 \<le> n \<and> n \<le> 57)"

definition is_word_char :: "nat \<Rightarrow> bool" where
  "is_word_char n = ((97 \<le> n \<and> n \<le> 122) \<or> (65 \<le> n \<and> n \<le> 90) \<or> (48 \<le> n \<and> n \<le> 57) \<or> n = 95)"

text \<open>
  The flag \<^verbatim>\<open>i\<close> compares canonicalised code units; against the ASCII letters and
  digits of the patterns below that is equality after mapping \<^verbatim>\<open>A-Z\<close> to \<^verbatim>\<open>a-z\<close> (no
  code unit above 127 canonicalises to an ASCII letter). The patterns are written in
  lower case.
\<close>

definition fold_ascii :: "nat \<Rightarrow> nat" where
  "fold_ascii n = (if 65 \<le> n \<and> n \<le> 90 then n + 32 else n)"

text \<open>
  \<^verbatim>\<open>String.prototype.toLowerCase\<close> follows the case tables of Unicode, which are not
  represented: the functions below take it as their argument \<open>lower\<close>. On strings whose
  code units are all below 256 it is the following function.
\<close>

definition toLowerCase_latin1 :: "jsstring \<Rightarrow> jsstring" where
  "toLowerCase_latin1 s =
     map (\<lambda>n. if (65 \<le> n \<and> n \<le> 90) \<or> (192 \<le> n \<and> n \<le> 222 \<and> n \<noteq> 215) then n + 32 else n) s"

text \<open>
  A literal under the flag \<^verbatim>\<open>i\<close>, matched at the head of the input; the result is the
  input that follows the match.
\<close>

fun match_ci :: "jsstring \<Rightarrow> jsstring \<Rightarrow> jsstring option" where
  "match_ci [] s = Some s"
| "match_ci (p # ps) [] = None"
| "match_ci (p # ps) (c # cs) = (if fold_ascii c = p then match_ci ps cs else None)"

text \<open>
  \<^verbatim>\<open>\b\<close> in front of a word character holds when the previous code unit of the subject
  (none at the start) is not a word character; \<^verbatim>\<open>\b\<close> behind a word character holds
  when the next one (none at the end) is not. Every literal below starts and ends with a
  word character.
\<close>

definition wb_before :: "nat option \<Rightarrow> bool" where
  "wb_before prev = (case prev of None \<Rightarrow> True | Some c \<Rightarrow> \<not> is_word_char c)"

definition wb_after :: "jsstring \<Rightarrow> bool" where
  "wb_after rest = (case rest of [] \<Rightarrow> True | c # _ \<Rightarrow> \<not> is_word_char c)"

text \<open>
  A regular expression is represented by what the engine does with it at one position:
  given the previous code unit of the subject and the input from this position on, the
  length of the match that starts here, if there is one.
\<close>

type_synonym matcher = "nat option \<Rightarrow> jsstring \<Rightarrow> nat option"

text \<open>\<^verbatim>\<open>/\bw\b/i\<close>\<close>

definition re_word :: "jsstring \<Rightarrow> matcher" where
  "re_word w prev s =
     (if wb_before prev then
        (case match_ci w s of
           None \<Rightarrow> None
         | Some rest \<Rightarrow> if wb_after rest then Some (length s - length rest) else None)
      else None)"

text \<open>
  \<^verbatim>\<open>/\bw1\s+w2\b/i\<close>: the greedy \<^verbatim>\<open>\s+\<close> takes the whole run of white space, and giving
  some of it back cannot help, since \<^verbatim>\<open>w2\<close> starts with a letter.
\<close>

definition re_two_words :: "jsstring \<Rightarrow> jsstring \<Rightarrow> matcher" where
  "re_two_words w1 w2 prev s =
     (if wb_before prev then
        (case match_ci w1 s of
           None \<Rightarrow> None
         | Some r1 \<Rightarrow>
             (let r2 = dropWhile is_white_space r1 in
              if length r2 = length r1 then None
              else (case match_ci w2 r2 of
                      None \<Rightarrow> None
                    | Some r3 \<Rightarrow> if wb_after r3 then Some (length s - length r3) else None)))
      else None)"

text \<open>
  \<^verbatim>\<open>/\bexhaust\s*\d+\s*.*$/i\<close>: after the literal, white space, at least one digit and
  white space again, the dot must reach the end of the subject (there is no flag
  \<^verbatim>\<open>m\<close>), which it does exactly when no line terminator is left; the match then
  extends to the end.
\<close>

definition re_exhaust_tail :: matcher where
  "re_exhaust_tail prev s =
     (if wb_before prev then
        (case match_ci (units ''exhaust'') s of
           None \<Rightarrow> None
         | Some r1 \<Rightarrow>
             (let r2 = dropWhile is_white_space r1; r3 = dropWhile is_decimal_digit r2 in
              if length r3 = length r2 then None
              else if list_ex is_line_terminator (dropWhile is_white_space r3) then None
              else Some (length s)))
      else None)"

text \<open>\<^verbatim>\<open>/\s+/\<close> and \<^verbatim>\<open>/[_-]/\<close> (the code units 95 and 45)\<close>

definition re_spaces :: matcher where
  "re_spaces prev s = (let n = length (takeWhile is_white_space s) in if n = 0 then None else Some n)"

definition re_underscore_hyphen :: matcher where
  "re_underscore_hyphen prev s =
     (case s of [] \<Rightarrow> None | c # _ \<Rightarrow> if c = 95 \<or> c = 45 then Some 1 else None)"

text \<open>
  \<^verbatim>\<open>subject.replace(re, rep)\<close> with the flag \<^verbatim>\<open>g\<close> and a replacement without
  \<^verbatim>\<open>$\<close>: scan from the left; at a match emit \<^verbatim>\<open>rep\<close> and continue behind it (one
  code unit further after an empty match), otherwise copy the code unit.
\<close>

fun replace_all :: "matcher \<Rightarrow> jsstring \<Rightarrow> nat option \<Rightarrow> jsstring \<Rightarrow> jsstring" where
  "replace_all m rep prev [] = (case m prev [] of None \<Rightarrow> [] | Some _ \<Rightarrow> rep)"
| "replace_all m rep prev (c # cs) =
     (case m prev (c # cs) of
        None \<Rightarrow> c # replace_all m rep (Some c) cs
      | Some 0 \<Rightarrow> rep @ c # replace_all m rep (Some c) cs
      | Some (Suc k) \<Rightarrow> rep @ replace_all m rep (Some ((c # cs) ! min k (length cs))) (drop k cs))"

definition replace :: "matcher \<Rightarrow> jsstring \<Rightarrow> jsstring \<Rightarrow> jsstring" where
  "replace m rep s = replace_all m rep None s"

definition trim :: "jsstring \<Rightarrow> jsstring" where
  "trim s = rev (dropWhile is_white_space (rev (dropWhile is_white_space s)))"

text \<open>\<^verbatim>\<open>s.split(d)\<close> for a separator of one code unit, and \<^verbatim>\<open>ws.join(d)\<close>.\<close>

fun split_on :: "nat \<Rightarrow> jsstring \<Rightarrow> jsstring list" where
  "split_on d [] = [[]]"
| "split_on d (c # cs) =
     (if c = d then [] # split_on d cs
      else (case split_on d cs of [] \<Rightarrow> [[c]] | w # ws \<Rightarrow> (c # w) # ws))"

fun join_with :: "jsstring \<Rightarrow> jsstring list \<Rightarrow> jsstring" where
  "join_with d [] = []"
| "join_with d [w] = w"
| "join_with d (w # ws) = w @ d @ join_with d ws"

text \<open>
  The loop over \<^verbatim>\<open>words\<close>, with its two accumulators \<^verbatim>\<open>uniqueWords\<close> and
  \<^verbatim>\<open>seen\<close>.
\<close>

fun unique_words ::
    "(jsstring \<Rightarrow> jsstring) \<Rightarrow> jsstring list \<Rightarrow> jsstring list \<Rightarrow> jsstring list \<Rightarrow> jsstring list" where
  "unique_words lower [] uniqueWords seen = uniqueWords"
| "unique_words lower (word # ws) uniqueWords seen =
     (let lowerWord = lower word in
      if lowerWord \<notin> set seen \<and>
         (length uniqueWords < 2 \<or>
          lowerWord \<notin> set [units ''uv'', units ''metal'', units ''texture'', units ''material''])
      then unique_words lower ws (uniqueWords @ [word]) (lowerWord # seen)
      else unique_words lower ws uniqueWords seen)"

text \<open>The twelve renames, in the order of the source.\<close>

definition rename_parts :: "jsstring \<Rightarrow> jsstring" where
  "rename_parts formatted0 =
     (let formatted = replace (re_word (units ''panel'')) (units ''Solar Arrays'') formatted0;
          formatted = replace (re_two_words (units ''heat'') (units ''shield'')) (units ''Crew Module'') formatted;
          formatted = replace (re_two_words (units ''mid12'') (units ''white'')) (units ''Crew Module Adapter'') formatted;
          formatted = replace (re_two_words (units ''mid02'') (units ''white'')) (units ''EUROPEAN SERVICE MODULE'') formatted;
          formatted = replace (re_two_words (units ''mid17'') (units ''white'')) (units ''EUROPEAN SERVICE MODULE'') formatted;
          formatted = replace (re_two_words (units ''mid'') (units ''white'')) (units ''Crew Module Adapter'') formatted;
          formatted = replace (re_two_words (units ''exhaust01'') (units ''exhaust'')) (units ''Exhaust'') formatted;
          formatted = replace (re_word (units ''exhaust02'')) (units ''Exhaust'') formatted;
          formatted = replace (re_word (units ''exhaust01'')) (units ''Exhaust'') formatted;
          formatted = replace (re_two_words (units ''exhaust'') (units ''metal'')) (units ''Exhaust'') formatted;
          formatted = replace (re_two_words (units ''exhaust'') (units ''uv'')) (units ''Exhaust'') formatted
      in replace re_exhaust_tail (units ''Exhaust'') formatted)"

text \<open>The separator \<^verbatim>\<open>' '\<close> of \<^verbatim>\<open>split\<close> and \<^verbatim>\<open>join\<close> is the code unit 32.\<close>

definition formatPartName :: "(jsstring \<Rightarrow> jsstring) \<Rightarrow> jsstring \<Rightarrow> jsstring" where
  "formatPartName lower name =
     (if name = [] then name
      else
        (let formatted = replace re_underscore_hyphen (units '' '') name;
             formatted = trim (replace re_spaces (units '' '') formatted);
             formatted = rename_parts formatted;
             words = split_on 32 formatted;
             uniqueWords = unique_words lower words [] []
         in join_with (units '' '') (take 2 uniqueWords)))"

text \<open>
  The number of white-space separated words of a string: the number of code units that
  are not white space and do not follow such a code unit. The flag says whether the
  previous code unit belonged to a word.
\<close>

fun word_count :: "bool \<Rightarrow> jsstring \<Rightarrow> nat" where
  "word_count inw [] = 0"
| "word_count inw (c # cs) =
     (if is_white_space c then word_count False cs
      else (if inw then 0 else 1) + word_count True cs)"

text \<open>
  What the description of the function says of its last step, to compare with the loop
  of the source: of the words, those whose lower-case form has occurred before are
  removed, and the first two of the remaining ones are kept.
\<close>

fun remove_duplicate_words ::
    "(jsstring \<Rightarrow> jsstring) \<Rightarrow> jsstring list \<Rightarrow> jsstring list \<Rightarrow> jsstring list" where
  "remove_duplicate_words lower seen [] = []"
| "remove_duplicate_words lower seen (w # ws) =
     (if lower w \<in> set seen then remove_duplicate_words lower seen ws
      else w # remove_duplicate_words lower (lower w # seen) ws)"

definition first_two_words :: "(jsstring \<Rightarrow> jsstring) \<Rightarrow> jsstring list \<Rightarrow> jsstring list" where
  "first_two_words lower ws = take 2 (remove_duplicate_words lower [] ws)"

text \<open>Auxiliary notions for the proofs about \<^verbatim>\<open>formatPartName\<close>.\<close>

definition ws_ok :: "jsstring \<Rightarrow> bool" where
  "ws_ok s = (\<forall>c \<in> set s. is_white_space c \<longrightarrow> c = 32)"

definition no_space :: "jsstring \<Rightarrow> bool" where
  "no_space w = (\<forall>c \<in> set w. \<not> is_white_space c)"

definition no_underscore_hyphen :: "jsstring \<Rightarrow> bool" where
  "no_underscore_hyphen s = (95 \<notin> set s \<and> 45 \<notin> set s)"

text \<open>The string that \<^verbatim>\<open>formatPartName\<close> splits into words.\<close>

definition part_name_stage :: "jsstring \<Rightarrow> jsstring" where
  "part_name_stage name =
     rename_parts (trim (replace re_spaces (units '' '') (replace re_underscore_hyphen (units '' '') name)))"

subsection \<open>The estimate upload (\<^verbatim>\<open>handleDrop\<close>)\<close>

text \<open>
  \<^verbatim>\<open>handleDrop\<close> posts the dropped file and chains two \<^verbatim>\<open>then\<close> callbacks and one
  \<^verbatim>\<open>catch\<close>. What the network, the response body and the file reader answer is not
  decided by the code: it is the input \<open>drop_env\<close>. The result is the trace of what the
  handler and its callbacks do.
\<close>

datatype form_value = FileValue string | StringValue string

datatype response_body =
    FormDataRejected string
  | FormDataParsed "(string \<times> form_value) list"

datatype fetch_outcome =
    FetchRejected string
  | FetchResponse response_body

datatype read_outcome = ReadLoaded string | ReadFailed

record drop_env =
  dropped_file :: "string option"
  fetch_outcome :: fetch_outcome
  read_outcome :: read_outcome
  canvas_global :: "string option"

datatype drop_event =
    FetchPost string string
  | ConsoleLogError string
  | AlertDialog string
  | ReadAsDataURL string
  | UncaughtReferenceError string
  | InitProject string string string

definition estimate_endpoint :: string where
  "estimate_endpoint = ''http://192.168.0.125:5000/api/estimate''"

text \<open>
  The loop \<^verbatim>\<open>for (const [key, value] of result) jsonObject[key] = value\<close>: the last
  entry of a key wins.
\<close>

definition jsonObject_of :: "(string \<times> form_value) list \<Rightarrow> string \<rightharpoonup> form_value" where
  "jsonObject_of result = map_of (rev result)"

text \<open>
  \<^verbatim>\<open>reader.onload\<close>: the identifier \<^verbatim>\<open>canvas\<close> is free in the module, so it is looked
  up in the global scope when the callback runs.
\<close>

definition reader_onload :: "drop_env \<Rightarrow> string \<Rightarrow> drop_event list" where
  "reader_onload env parsedToArrayBufferModel =
     (case canvas_global env of
        None \<Rightarrow> [UncaughtReferenceError ''canvas is not defined'']
      | Some canvas \<Rightarrow> [InitProject canvas parsedToArrayBufferModel ''Rings''])"

text \<open>
  The second \<^verbatim>\<open>then\<close> callback: \<^verbatim>\<open>readAsDataURL\<close> throws a TypeError unless its
  argument is a blob; the callback then rejects the chain (\<open>Inl\<close>).
\<close>

definition on_form_data :: "drop_env \<Rightarrow> (string \<times> form_value) list \<Rightarrow> string + drop_event list" where
  "on_form_data env result =
     (case jsonObject_of result ''mesh'' of
        Some (FileValue blob) \<Rightarrow>
          Inr (ReadAsDataURL blob #
               (case read_outcome env of
                  ReadLoaded data \<Rightarrow> reader_onload env data
                | ReadFailed \<Rightarrow> []))
      | _ \<Rightarrow> Inl ''TypeError: parameter 1 is not of type Blob'')"

text \<open>The promise chain up to the \<^verbatim>\<open>catch\<close>: the rejection reason, or the events.\<close>

definition estimate_chain :: "drop_env \<Rightarrow> string + drop_event list" where
  "estimate_chain env =
     (case fetch_outcome env of
        FetchRejected reason \<Rightarrow> Inl reason
      | FetchResponse (FormDataRejected reason) \<Rightarrow> Inl reason
      | FetchResponse (FormDataParsed result) \<Rightarrow> on_form_data env result)"

definition handleDrop :: "drop_env \<Rightarrow> drop_event list" where
  "handleDrop env =
     FetchPost estimate_endpoint
       (case dropped_file env of None \<Rightarrow> ''undefined'' | Some file \<Rightarrow> file) #
     (case estimate_chain env of
        Inl error \<Rightarrow> [ConsoleLogError error]
      | Inr events \<Rightarrow> events)"

definition is_InitProject :: "drop_event \<Rightarrow> bool" where
  "is_InitProject ev = (case ev of InitProject _ _ _ \<Rightarrow> True | _ \<Rightarrow> False)"

definition is_AlertDialog :: "drop_event \<Rightarrow> bool" where
  "is_AlertDialog ev = (case ev of AlertDialog _ \<Rightarrow> True | _ \<Rightarrow> False)"

definition is_FetchPost :: "drop_event \<Rightarrow> bool" where
  "is_FetchPost ev = (case ev of FetchPost _ _ \<Rightarrow> True | _ \<Rightarrow> False)"

subsection \<open>The satellite viewer's state\<close>

text \<open>
  Numbers that come out of \<^verbatim>\<open>parseFloat\<close> may be NaN or infinite; fields that receive
  them hold a \<open>jsnum\<close>. Transforms of scene objects hold reals.
\<close>

datatype jsnum = Num real | NaN | PosInfinity | NegInfinity

record vec3 =
  vx :: real
  vy :: real
  vz :: real

record jsvec3 =
  jx :: jsnum
  jy :: jsnum
  jz :: jsnum

text \<open>
  A colour is represented by the 24-bit number that \<^verbatim>\<open>Color.getHex\<close> reads and
  \<^verbatim>\<open>Color.setHex\<close> writes.
\<close>

type_synonym color = "24 word"

text \<open>
  Materials and textures are objects that several meshes may share, so they live in a
  store and are referred to by address. A field that the source tests against
  \<^verbatim>\<open>undefined\<close> (or for truthiness) is optional.
\<close>

datatype material_kind = MeshStandardMaterial | MeshPhysicalMaterial | OtherMaterial string

record material =
  kind :: material_kind
  mat_name :: string
  mat_uuid :: string
  color :: "color option"
  roughness :: "real option"
  metalness :: "real option"
  emissive :: "color option"
  emissiveIntensity :: "real option"
  opacity :: "real option"
  transparent :: bool
  map_tex :: "nat option"
  normalMap :: "nat option"
  roughnessMap :: "nat option"
  metalnessMap :: "nat option"
  aoMap :: "nat option"
  emissiveMap :: "nat option"
  side :: "nat option"
  alphaTest :: "real option"
  depthTest :: "bool option"
  depthWrite :: "bool option"
  envMapIntensity :: "jsnum option"
  needsUpdate :: bool

text \<open>
  Of a texture the handlers read where it came from: \<^verbatim>\<open>userData.sourceUrl\<close>,
  \<^verbatim>\<open>source.data\<close> (absent, or present with or without a \<^verbatim>\<open>src\<close>) and
  \<^verbatim>\<open>image.src\<close>. Its sampling parameters (colour space, filters, wrapping, mipmaps),
  which \<^verbatim>\<open>configureTexture\<close>, \<^verbatim>\<open>configureLoadedTexture\<close> and
  \<^verbatim>\<open>processGLTFTextures\<close> write, are not represented.
\<close>

record texture =
  userData_sourceUrl :: "string option"
  source_data :: "string option option"
  image_src :: "string option"

datatype material_slot = NoMaterial | SingleMaterial nat | MaterialArray "nat list"

record part_info =
  part_name :: jsstring
  description :: jsstring

record object3d_data =
  uuid :: string
  name :: jsstring
  isMesh :: bool
  position :: vec3
  rotation :: vec3
  scale :: vec3
  visible :: bool
  castShadow :: bool
  geometry :: "nat option"
  material :: material_slot
  userData_partInfo :: "part_info option"

datatype object3d = Object3D object3d_data "object3d list"

text \<open>\<^verbatim>\<open>Object3D.traverse\<close> visits the object, then its children in order.\<close>

fun traverse :: "object3d \<Rightarrow> object3d_data list" where
  "traverse (Object3D d cs) = d # concat (map traverse cs)"

fun root :: "object3d \<Rightarrow> object3d_data" where
  "root (Object3D d cs) = d"

fun update_root :: "(object3d_data \<Rightarrow> object3d_data) \<Rightarrow> object3d \<Rightarrow> object3d" where
  "update_root f (Object3D d cs) = Object3D (f d) cs"

text \<open>
  \<^verbatim>\<open>const materials = Array.isArray(child.material) ? child.material : [child.material]\<close>
\<close>

fun materials_of :: "material_slot \<Rightarrow> nat list" where
  "materials_of NoMaterial = []"
| "materials_of (SingleMaterial m) = [m]"
| "materials_of (MaterialArray ms) = ms"

record light =
  light_color :: color
  intensity :: jsnum
  light_position :: jsvec3

datatype scene_child =
    ModelRoot string
  | StarField
  | AmbientLightObj | DirectionalLightObj | FillLightObj | PointLightObj
  | ConnectionLine
  | ConnectionMarker
  | Floor
  | GridHelper

datatype load_path = LoadModel | LoadModelByPath string | LoadModelFromFile string

text \<open>
  What the handlers do to the outside world. Of the console, \<^verbatim>\<open>console.error\<close> and
  \<^verbatim>\<open>console.warn\<close> lines are traced; \<^verbatim>\<open>console.log\<close> lines of the satellite viewer
  are not.
\<close>

datatype event =
    Alert string
  | ConsoleError string
  | DisposeGeometry nat
  | DisposeMaterial nat
  | DisposeTexture nat
  | DisposeLine
  | DisposeMarker
  | SceneAdd scene_child
  | SceneRemove scene_child
  | LoaderLoad load_path
  | TextureLoad string nat string
  | HdriLoad string
  | RevokeObjectURL string
  | ControlsUpdate
  | IndicatorPositioned
  | Render
  | RequestAnimationFrame

text \<open>
  The shape of \<^verbatim>\<open>sceneData\<close> in a settings file. A field that
  \<^verbatim>\<open>deserializeSceneData\<close> guards (for truthiness, or against \<^verbatim>\<open>null\<close> and
  \<^verbatim>\<open>undefined\<close>) is optional; a texture entry is a source URL or the mark \<^verbatim>\<open>true\<close>.
\<close>

datatype texture_info = TextureUrl string | TexturePresent

record material_data =
  md_index :: nat
  md_name :: string
  md_uuid :: string
  md_color :: "string option"
  md_roughness :: "real option"
  md_metalness :: "real option"
  md_emissive :: "string option"
  md_emissiveIntensity :: "real option"
  md_opacity :: "real option"
  md_transparent :: bool
  md_textures :: "(string \<times> texture_info) list option"

record object_data =
  od_uuid :: string
  od_name :: jsstring
  od_position :: "vec3 option"
  od_rotation :: "vec3 option"
  od_scale :: "vec3 option"
  od_visible :: "bool option"
  od_materials :: "material_data list"

record scene_data =
  sd_objects :: "object_data list option"
  sd_partData :: "(string \<rightharpoonup> part_info) option"

text \<open>Callbacks handed to \<^verbatim>\<open>setTimeout\<close>; the state keeps them with their delay.\<close>

datatype task =
    HideLoadingIndicator
  | HideLoadingIndicatorAndUpdatePanelHeight
  | DeserializeSceneData scene_data
  | BuildOutliner

datatype outliner = OutlinerNoModel | OutlinerTree string | OutlinerFailed

text \<open>
  The page (\<^verbatim>\<open>index.html\<close>, not among the sources) by element id. An element that a
  handler dereferences without a null check is taken to exist; for the elements that the
  handlers do check, \<open>present\<close> says whether \<^verbatim>\<open>getElementById\<close> finds them.
\<close>

record page =
  present :: "string \<Rightarrow> bool"
  classes_of :: "string \<Rightarrow> string list"
  value_of :: "string \<Rightarrow> string"
  text_of :: "string \<Rightarrow> jsstring"
  style_of :: "string \<Rightarrow> string \<Rightarrow> string"
  outliner_tree :: "outliner option"

text \<open>
  The fields of \<^verbatim>\<open>SatelliteViewer\<close> that the embedded handlers read or write, the
  stores of materials and textures (\<open>next_material\<close> is the address the next
  \<^verbatim>\<open>new MeshStandardMaterial\<close> gets), the page, the trace and the pending timeouts.
  The scene is the list of its children; a loaded model is referred to by the uuid of
  its root; \<open>environmentMap\<close> says whether an environment map has been loaded. The
  camera, the renderer, the orbit controls, the star field, the scene background and
  the scene environment are not represented.
\<close>

record viewer =
  scene :: "scene_child list"
  satellite :: "object3d option"
  materials :: "nat \<Rightarrow> material"
  next_material :: nat
  textures :: "nat \<Rightarrow> texture"
  partData :: "string \<rightharpoonup> part_info"
  selectedPart :: "string option"
  selectedObject :: "string option"
  selectedIntersectionPoint :: "vec3 option"
  lastIntersectionPoint :: "vec3 option"
  isRotationPaused :: bool
  connectionLine :: bool
  connectionMarker :: bool
  mouse :: "jsnum \<times> jsnum"
  ambientLight :: "light option"
  directionalLight :: "light option"
  fillLight :: "light option"
  pointLight :: "light option"
  initial_directional :: "vec3 option"
  initial_fill :: "vec3 option"
  initial_point :: "vec3 option"
  rotationTime :: real
  lastFrameTime :: real
  backgroundIntensity :: jsnum
  currentEnvIntensity :: jsnum
  environmentMap :: bool
  dom :: page
  events :: "event list"
  timers :: "(nat \<times> task) list"

definition emit :: "event list \<Rightarrow> viewer \<Rightarrow> viewer" where
  "emit evs s = s\<lparr>events := events s @ evs\<rparr>"

definition setTimeout :: "task \<Rightarrow> nat \<Rightarrow> viewer \<Rightarrow> viewer" where
  "setTimeout t delay s = s\<lparr>timers := timers s @ [(delay, t)]\<rparr>"

text \<open>\<^verbatim>\<open>document.getElementById(id).classList.add(tok)\<close> and \<^verbatim>\<open>remove\<close>.\<close>

definition add_class :: "string \<Rightarrow> string \<Rightarrow> viewer \<Rightarrow> viewer" where
  "add_class el tok s =
     s\<lparr>dom := (dom s)\<lparr>classes_of := (classes_of (dom s))(el := classList_add (classes_of (dom s) el) tok)\<rparr>\<rparr>"

definition remove_class :: "string \<Rightarrow> string \<Rightarrow> viewer \<Rightarrow> viewer" where
  "remove_class el tok s =
     s\<lparr>dom := (dom s)\<lparr>classes_of := (classes_of (dom s))(el := classList_remove (classes_of (dom s) el) tok)\<rparr>\<rparr>"

definition has_class :: "string \<Rightarrow> string \<Rightarrow> viewer \<Rightarrow> bool" where
  "has_class el tok s = classList_contains (classes_of (dom s) el) tok"

definition set_text :: "string \<Rightarrow> jsstring \<Rightarrow> viewer \<Rightarrow> viewer" where
  "set_text el t s = s\<lparr>dom := (dom s)\<lparr>text_of := (text_of (dom s))(el := t)\<rparr>\<rparr>"

definition set_value :: "string \<Rightarrow> string \<Rightarrow> viewer \<Rightarrow> viewer" where
  "set_value el v s = s\<lparr>dom := (dom s)\<lparr>value_of := (value_of (dom s))(el := v)\<rparr>\<rparr>"

definition set_style :: "string \<Rightarrow> string \<Rightarrow> string \<Rightarrow> viewer \<Rightarrow> viewer" where
  "set_style el prop v s =
     s\<lparr>dom := (dom s)\<lparr>style_of := (style_of (dom s))(el := (style_of (dom s) el)(prop := v))\<rparr>\<rparr>"

text \<open>\<^verbatim>\<open>scene.add\<close> and \<^verbatim>\<open>scene.remove\<close>, on the list of children.\<close>

definition scene_add :: "scene_child \<Rightarrow> viewer \<Rightarrow> viewer" where
  "scene_add obj s = emit [SceneAdd obj] (s\<lparr>scene := remove1 obj (scene s) @ [obj]\<rparr>)"

definition scene_remove :: "scene_child \<Rightarrow> viewer \<Rightarrow> viewer" where
  "scene_remove obj s = emit [SceneRemove obj] (s\<lparr>scene := remove1 obj (scene s)\<rparr>)"

subsection \<open>The loading indicator\<close>

definition showLoadingIndicator :: "viewer \<Rightarrow> viewer" where
  "showLoadingIndicator s =
     (let s1 = remove_class ''loading-overlay'' ''hidden'' s;
          s2 = set_style ''loading-progress'' ''width'' ''0%'' s1
      in set_text ''loading-percent'' (units ''0%'') s2)"

definition hideLoadingIndicator :: "viewer \<Rightarrow> viewer" where
  "hideLoadingIndicator s = add_class ''loading-overlay'' ''hidden'' s"

subsection \<open>The part indicator\<close>

definition closeIndicator :: "viewer \<Rightarrow> viewer" where
  "closeIndicator s =
     (let s1 = s\<lparr>selectedPart := None, selectedObject := None,
                 selectedIntersectionPoint := None, lastIntersectionPoint := None\<rparr>;
          s2 = (if connectionLine s1
                then (emit [DisposeLine] (scene_remove ConnectionLine s1))\<lparr>connectionLine := False\<rparr>
                else s1);
          s3 = (if connectionMarker s2
                then (emit [DisposeMarker] (scene_remove ConnectionMarker s2))\<lparr>connectionMarker := False\<rparr>
                else s2);
          s4 = add_class ''indicator-overlay'' ''hidden'' s3
      in s4\<lparr>isRotationPaused := False\<rparr>)"

text \<open>
  \<^verbatim>\<open>updateIndicatorPosition\<close>: the projection of the anchor point to the screen is
  the rendering library's; the trace records that the overlay was positioned. The
  connection line and its marker are created and added to the scene when absent.
\<close>

definition updateConnectionLine :: "viewer \<Rightarrow> viewer" where
  "updateConnectionLine s =
     (if \<not> connectionLine s then (scene_add ConnectionLine s)\<lparr>connectionLine := True\<rparr> else s)"

definition updateConnectionMarker :: "viewer \<Rightarrow> viewer" where
  "updateConnectionMarker s =
     (if \<not> connectionMarker s then (scene_add ConnectionMarker s)\<lparr>connectionMarker := True\<rparr> else s)"

definition updateIndicatorPosition :: "viewer \<Rightarrow> viewer" where
  "updateIndicatorPosition s =
     (if selectedObject s = None \<or> selectedIntersectionPoint s = None then s
      else updateConnectionMarker (updateConnectionLine (emit [IndicatorPositioned] s)))"

text \<open>
  What the rendering library computes from geometry that is not represented here: the
  hits of a ray through a point of the screen (nearest first once sorted), the local
  coordinates of a world point, and the centre of a bounding box. The record also holds
  the two library functions whose results the model does not compute: the identifier
  generated for a new object, and \<^verbatim>\<open>String.prototype.toLowerCase\<close>.
\<close>

record hit =
  distance :: real
  hit_object :: object3d_data
  hit_point :: vec3

record three =
  intersectObject :: "jsnum \<times> jsnum \<Rightarrow> object3d \<Rightarrow> hit list"
  worldToLocal :: "object3d_data \<Rightarrow> vec3 \<Rightarrow> vec3"
  box_center :: "object3d \<Rightarrow> vec3"
  generateUUID :: "nat \<Rightarrow> string"
  toLowerCase :: "jsstring \<Rightarrow> jsstring"

text \<open>\<^verbatim>\<open>raycaster.intersectObjects(objects, true)\<close>: the hits of all objects, by distance.\<close>

definition intersectObjects :: "three \<Rightarrow> jsnum \<times> jsnum \<Rightarrow> object3d list \<Rightarrow> hit list" where
  "intersectObjects lib ray objects = sort_key distance (concat (map (intersectObject lib ray) objects))"

definition showIndicator :: "three \<Rightarrow> object3d_data \<Rightarrow> vec3 \<Rightarrow> viewer \<Rightarrow> viewer" where
  "showIndicator lib object intersectionPoint s =
     (let s1 = s\<lparr>selectedPart := Some (uuid object), selectedObject := Some (uuid object),
                 selectedIntersectionPoint := Some (worldToLocal lib object intersectionPoint),
                 isRotationPaused := True\<rparr>;
          partInfo = (case userData_partInfo object of
                        Some info \<Rightarrow> Some info
                      | None \<Rightarrow> partData s1 (uuid object))
      in case partInfo of
           Some info \<Rightarrow>
             (let displayName = formatPartName (toLowerCase lib) (part_name info);
                  s2 = (if present (dom s1) ''indicator-title''
                        then set_text ''indicator-title'' displayName s1 else s1);
                  s3 = (if present (dom s2) ''indicator-description''
                        then set_text ''indicator-description'' (description info) s2 else s2);
                  s4 = updateIndicatorPosition s3
              in if present (dom s4) ''indicator-overlay''
                 then remove_class ''indicator-overlay'' ''hidden'' s4
                 else emit [ConsoleError ''Indicator overlay element not found!''] s4)
         | None \<Rightarrow> emit [ConsoleError ''No part info found for object''] s1)"

text \<open>
  A double click: the pointer position and the bounding rectangle of the canvas
  container, as the browser reports them.
\<close>

record dblclick =
  clientX :: real
  clientY :: real
  rect_left :: real
  rect_top :: real
  rect_width :: real
  rect_height :: real

text \<open>IEEE division of finite numbers, with its results for a zero divisor.\<close>

definition js_div :: "real \<Rightarrow> real \<Rightarrow> jsnum" where
  "js_div a b =
     (if b \<noteq> 0 then Num (a / b)
      else if a = 0 then NaN else if 0 < a then PosInfinity else NegInfinity)"

fun js_times2_minus1 :: "jsnum \<Rightarrow> jsnum" where
  "js_times2_minus1 (Num q) = Num (q * 2 - 1)"
| "js_times2_minus1 q = q"

fun js_neg :: "jsnum \<Rightarrow> jsnum" where
  "js_neg (Num q) = Num (- q)"
| "js_neg NaN = NaN"
| "js_neg PosInfinity = NegInfinity"
| "js_neg NegInfinity = PosInfinity"

text \<open>
  The pointer position in normalised device coordinates, as \<^verbatim>\<open>onMouseDoubleClick\<close>
  computes it into \<^verbatim>\<open>this.mouse\<close>.
\<close>

definition click_ray :: "dblclick \<Rightarrow> jsnum \<times> jsnum" where
  "click_ray ev =
     (let mouseX = clientX ev - rect_left ev;
          mouseY = clientY ev - rect_top ev
      in (js_times2_minus1 (js_div mouseX (rect_width ev)),
          js_neg (js_times2_minus1 (js_div mouseY (rect_height ev)))))"

definition onMouseDoubleClick :: "three \<Rightarrow> dblclick \<Rightarrow> viewer \<Rightarrow> viewer" where
  "onMouseDoubleClick lib ev s =
     (if \<not> present (dom s) ''canvas-container'' then s
      else
        (let s1 = s\<lparr>mouse := click_ray ev\<rparr>;
             intersects = intersectObjects lib (mouse s1)
                            (case satellite s1 of Some model \<Rightarrow> [model] | None \<Rightarrow> [])
         in case intersects of
              h # _ \<Rightarrow>
                (let clickedObject = hit_object h;
                     intersectionPoint = hit_point h;
                     s2 = s1\<lparr>lastIntersectionPoint := Some intersectionPoint,
                              isRotationPaused := True\<rparr>
                 in if selectedPart s2 = Some (uuid clickedObject)
                    then closeIndicator s2
                    else showIndicator lib clickedObject intersectionPoint s2)
            | [] \<Rightarrow> s1))"

text \<open>
  The selection state of the statements about the indicator, and whether the overlay is open.
\<close>

definition selection_state ::
  "viewer \<Rightarrow> string option \<times> string option \<times> bool \<times> vec3 option" where
  "selection_state s = (selectedPart s, selectedObject s, isRotationPaused s, lastIntersectionPoint s)"

definition overlay_open :: "viewer \<Rightarrow> bool" where
  "overlay_open s = (\<not> has_class ''indicator-overlay'' ''hidden'' s)"

subsection \<open>The frame loop (\<^verbatim>\<open>animate\<close>)\<close>

text \<open>\<^verbatim>\<open>Math.atan2(y, x)\<close> on reals.\<close>

definition atan2 :: "real \<Rightarrow> real \<Rightarrow> real" where
  "atan2 y x =
     (if 0 < x then arctan (y / x)
      else if x < 0 \<and> 0 \<le> y then arctan (y / x) + pi
      else if x < 0 then arctan (y / x) - pi
      else if 0 < y then pi / 2
      else if y < 0 then - pi / 2
      else 0)"

text \<open>
  One light of the oscillation: it is put on the circle through its initial position,
  turned by \<open>rotationAngle\<close>, at its initial height.
\<close>

definition oscillate_light :: "vec3 \<Rightarrow> real \<Rightarrow> light \<Rightarrow> light" where
  "oscillate_light initial rotationAngle l =
     (let radius = sqrt ((vx initial)\<^sup>2 + (vz initial)\<^sup>2);
          baseAngle = atan2 (vz initial) (vx initial);
          newAngle = baseAngle + rotationAngle
      in l\<lparr>light_position := \<lparr>jx = Num (cos newAngle * radius), jy = Num (vy initial),
                               jz = Num (sin newAngle * radius)\<rparr>\<rparr>)"

definition oscillate :: "vec3 option \<Rightarrow> real \<Rightarrow> light option \<Rightarrow> light option" where
  "oscillate initial rotationAngle l =
     (case (l, initial) of
        (Some l', Some i) \<Rightarrow> Some (oscillate_light i rotationAngle l')
      | _ \<Rightarrow> l)"

definition rotation_angle :: "real \<Rightarrow> real" where
  "rotation_angle t = sin ((t / 80) * pi * 2) * (pi / 4)"

definition set_rotation_y :: "real \<Rightarrow> object3d_data \<Rightarrow> object3d_data" where
  "set_rotation_y a d = d\<lparr>rotation := (rotation d)\<lparr>vy := a\<rparr>\<rparr>"

text \<open>
  One frame; \<open>currentTime\<close> is what \<^verbatim>\<open>performance.now()\<close> returns in it.
\<close>

definition animate :: "real \<Rightarrow> viewer \<Rightarrow> viewer" where
  "animate currentTime s =
     (let s0 = emit [RequestAnimationFrame] s;
          deltaTime = (currentTime - lastFrameTime s0) / 1000;
          s1 = s0\<lparr>lastFrameTime := currentTime\<rparr>;
          s2 = emit [ControlsUpdate] s1;
          s3 = (if \<not> isRotationPaused s2 then
                  (let s' = s2\<lparr>rotationTime := rotationTime s2 + deltaTime\<rparr>;
                       rotationAngle = rotation_angle (rotationTime s')
                   in s'\<lparr>satellite := map_option (update_root (set_rotation_y rotationAngle)) (satellite s'),
                         directionalLight := oscillate (initial_directional s') rotationAngle (directionalLight s'),
                         fillLight := oscillate (initial_fill s') rotationAngle (fillLight s'),
                         pointLight := oscillate (initial_point s') rotationAngle (pointLight s')\<rparr>)
                else s2);
          s4 = (if selectedObject s3 \<noteq> None \<and> \<not> has_class ''indicator-overlay'' ''hidden'' s3
                then updateIndicatorPosition s3 else s3)
      in emit [Render] s4)"

text \<open>The rotation of the loaded model about the vertical axis, in radians and degrees.\<close>

definition satellite_rotation_y :: "viewer \<Rightarrow> real option" where
  "satellite_rotation_y s = map_option (\<lambda>m. vy (rotation (root m))) (satellite s)"

definition degrees :: "real \<Rightarrow> real" where
  "degrees a = a * 180 / pi"

definition light_positions :: "viewer \<Rightarrow> jsvec3 option \<times> jsvec3 option \<times> jsvec3 option" where
  "light_positions s =
     (map_option light_position (directionalLight s), map_option light_position (fillLight s),
      map_option light_position (pointLight s))"

text \<open>
  The state the constructor and \<^verbatim>\<open>init\<close> leave before any model has arrived: the
  field initialisers, the star field and the four lights of \<^verbatim>\<open>setupLights\<close> with their
  initial positions recorded. \<open>now\<close> is the constructor's \<^verbatim>\<open>performance.now()\<close>.
\<close>

definition default_material :: material where
  "default_material =
     \<lparr>kind = MeshStandardMaterial, mat_name = [], mat_uuid = [], color = Some 0xffffff,
      roughness = Some 1, metalness = Some 0, emissive = Some 0, emissiveIntensity = Some 1,
      opacity = Some 1, transparent = False, map_tex = None, normalMap = None,
      roughnessMap = None, metalnessMap = None, aoMap = None, emissiveMap = None,
      side = Some 0, alphaTest = Some 0, depthTest = Some True, depthWrite = Some True,
      envMapIntensity = Some (Num 1), needsUpdate = False\<rparr>"

definition after_init :: "page \<Rightarrow> real \<Rightarrow> viewer" where
  "after_init pg now =
     \<lparr>scene = [StarField, AmbientLightObj, DirectionalLightObj, FillLightObj, PointLightObj],
      satellite = None,
      materials = (\<lambda>_. default_material),
      next_material = 0,
      textures = (\<lambda>_. \<lparr>userData_sourceUrl = None, source_data = None, image_src = None\<rparr>),
      partData = Map.empty,
      selectedPart = None, selectedObject = None,
      selectedIntersectionPoint = None, lastIntersectionPoint = None,
      isRotationPaused = False,
      connectionLine = False, connectionMarker = False,
      mouse = (Num 0, Num 0),
      ambientLight = Some \<lparr>light_color = 0x404040, intensity = Num 0.5,
                             light_position = \<lparr>jx = Num 0, jy = Num 0, jz = Num 0\<rparr>\<rparr>,
      directionalLight = Some \<lparr>light_color = 0xffffff, intensity = Num 1,
                             light_position = \<lparr>jx = Num (-5), jy = Num 5, jz = Num (-5)\<rparr>\<rparr>,
      fillLight = Some \<lparr>light_color = 0x4a9eff, intensity = Num 0.3,
                             light_position = \<lparr>jx = Num 5, jy = Num (-3), jz = Num 5\<rparr>\<rparr>,
      pointLight = Some \<lparr>light_color = 0x4a9eff, intensity = Num 0.5,
                             light_position = \<lparr>jx = Num 0, jy = Num 0, jz = Num (-10)\<rparr>\<rparr>,
      initial_directional = Some \<lparr>vx = -5, vy = 5, vz = -5\<rparr>,
      initial_fill = Some \<lparr>vx = 5, vy = -3, vz = 5\<rparr>,
      initial_point = Some \<lparr>vx = 0, vy = 0, vz = -10\<rparr>,
      rotationTime = 0,
      lastFrameTime = now,
      backgroundIntensity = Num 1,
      currentEnvIntensity = Num 1,
      environmentMap = False,
      dom = pg,
      events = [SceneAdd StarField, SceneAdd AmbientLightObj, SceneAdd DirectionalLightObj,
                SceneAdd FillLightObj, SceneAdd PointLightObj],
      timers = []\<rparr>"

text \<open>A page for examples: every checked element is there, nothing is hidden or filled in.\<close>

definition blank_page :: page where
  "blank_page =
     \<lparr>present = (\<lambda>_. True), classes_of = (\<lambda>_. []), value_of = (\<lambda>_. []), text_of = (\<lambda>_. []),
      style_of = (\<lambda>_ _. []), outliner_tree = Some OutlinerNoModel\<rparr>"

subsection \<open>Numbers and their text\<close>

text \<open>
  The values of the controls of the page are strings of 8-bit characters. White space,
  as \<^verbatim>\<open>parseFloat\<close> and the conversion of a string to a number skip it, is TAB, LF, VT,
  FF, CR, space and U+00A0 in that range.
\<close>

definition is_space :: "char \<Rightarrow> bool" where
  "is_space c = (c \<in> set [CHR 0x09, CHR 0x0A, CHR 0x0B, CHR 0x0C, CHR 0x0D, CHR '' '', CHR 0xA0])"

definition is_digit :: "char \<Rightarrow> bool" where
  "is_digit c = (let n = (of_char c :: nat) in 48 \<le> n \<and> n \<le> 57)"

definition strip_white_space :: "string \<Rightarrow> string" where
  "strip_white_space s = rev (dropWhile is_space (rev (dropWhile is_space s)))"

text \<open>
  The conversions between numbers and strings that the handlers rely on
  (\<^verbatim>\<open>parseFloat\<close>, \<^verbatim>\<open>Number.prototype.toFixed\<close>, the string a number becomes when it
  is assigned to \<^verbatim>\<open>element.value\<close>), over the reals: a decimal literal denotes its
  exact value, and a number is printed with the digits of its decimal expansion.
\<close>

definition digit_char :: "nat \<Rightarrow> char" where
  "digit_char n = char_of (48 + n)"

definition digit_of :: "char \<Rightarrow> nat" where
  "digit_of c = of_char c - 48"

function show_nat :: "nat \<Rightarrow> string" where
  "show_nat n = (if n < 10 then [digit_char n] else show_nat (n div 10) @ [digit_char (n mod 10)])"
  by pat_completeness auto
termination
  by (relation "measure id") auto

fun read_nat :: "nat \<Rightarrow> string \<Rightarrow> nat" where
  "read_nat acc [] = acc"
| "read_nat acc (c # cs) = read_nat (acc * 10 + digit_of c) cs"

text \<open>
  \<^verbatim>\<open>parseFloat\<close>: leading white space is skipped; then the longest prefix that is a
  decimal literal (sign, digits, fraction, exponent) or a signed \<^verbatim>\<open>Infinity\<close> counts;
  without one the result is NaN.
\<close>

definition scan_exponent :: "string \<Rightarrow> int \<times> string" where
  "scan_exponent r =
     (case r of
        e # r1 \<Rightarrow>
          (if e = CHR ''e'' \<or> e = CHR ''E'' then
             (let (neg, r2) = (case r1 of
                                 c # r' \<Rightarrow> if c = CHR ''-'' then (True, r')
                                           else if c = CHR ''+'' then (False, r') else (False, r1)
                               | [] \<Rightarrow> (False, r1));
                  ds = takeWhile is_digit r2
              in if ds = [] then (0, r)
                 else (if neg then - int (read_nat 0 ds) else int (read_nat 0 ds), dropWhile is_digit r2))
           else (0, r))
      | [] \<Rightarrow> (0, r))"

definition scan_decimal :: "string \<Rightarrow> (real \<times> string) option" where
  "scan_decimal u =
     (let ip = takeWhile is_digit u;
          r1 = dropWhile is_digit u;
          (fp, r2) = (case r1 of
                        c # r' \<Rightarrow> if c = CHR ''.'' then (takeWhile is_digit r', dropWhile is_digit r')
                                  else ([], r1)
                      | [] \<Rightarrow> ([], r1))
      in if ip = [] \<and> fp = [] then None
         else (let (ex, r3) = scan_exponent r2
               in Some ((real (read_nat 0 ip) + real (read_nat 0 fp) / 10 ^ length fp) * 10 powi ex, r3)))"

definition parseFloat :: "string \<Rightarrow> jsnum" where
  "parseFloat str =
     (let t = dropWhile is_space str;
          (neg, u) = (case t of
                        c # r \<Rightarrow> if c = CHR ''-'' then (True, r)
                                  else if c = CHR ''+'' then (False, r) else (False, t)
                      | [] \<Rightarrow> (False, t));
          v = (if take 8 u = ''Infinity'' then PosInfinity
               else (case scan_decimal u of Some (r, rest) \<Rightarrow> Num r | None \<Rightarrow> NaN))
      in if neg then js_neg v else v)"

text \<open>
  \<^verbatim>\<open>x.toFixed(f)\<close>: the nearest multiple of \<open>10\<^sup>-\<^sup>f\<close>, the larger one at a tie, with
  exactly \<open>f\<close> digits behind the point. (The exponent form that JavaScript switches to
  from \<open>10\<^sup>2\<^sup>1\<close> on is not modelled.)
\<close>

definition pad_left :: "nat \<Rightarrow> string \<Rightarrow> string" where
  "pad_left n s = replicate (n - length s) CHR ''0'' @ s"

definition toFixed :: "nat \<Rightarrow> jsnum \<Rightarrow> string" where
  "toFixed f x =
     (case x of
        NaN \<Rightarrow> ''NaN''
      | PosInfinity \<Rightarrow> ''Infinity''
      | NegInfinity \<Rightarrow> ''-Infinity''
      | Num r \<Rightarrow>
          (let n = nat \<lfloor>\<bar>r\<bar> * 10 ^ f + 1 / 2\<rfloor>;
               digits = show_nat (n div 10 ^ f) @
                        (if f = 0 then [] else CHR ''.'' # pad_left f (show_nat (n mod 10 ^ f)))
           in if r < 0 then CHR ''-'' # digits else digits))"

text \<open>
  The string of a number: integer part, and the fraction digits up to the last one that
  is not zero, at most twenty. (Numbers that JavaScript prints with an exponent, and
  numbers whose shortest round-trip form is shorter than their expansion, are outside
  this model.)
\<close>

definition fraction_digits :: "real \<Rightarrow> nat list" where
  "fraction_digits r = map (\<lambda>i. nat (\<lfloor>r * 10 ^ i\<rfloor> mod 10)) [1..<21]"

definition strip_zeros :: "nat list \<Rightarrow> nat list" where
  "strip_zeros ds = rev (dropWhile (\<lambda>d. d = 0) (rev ds))"

definition number_to_string :: "jsnum \<Rightarrow> string" where
  "number_to_string x =
     (case x of
        NaN \<Rightarrow> ''NaN''
      | PosInfinity \<Rightarrow> ''Infinity''
      | NegInfinity \<Rightarrow> ''-Infinity''
      | Num r \<Rightarrow>
          (let ds = strip_zeros (fraction_digits \<bar>r\<bar>);
               digits = show_nat (nat \<lfloor>\<bar>r\<bar>\<rfloor>) @
                        (if ds = [] then [] else CHR ''.'' # map digit_char ds)
           in if r < 0 then CHR ''-'' # digits else digits))"

subsection \<open>Colours and their text\<close>

definition hex_char :: "nat \<Rightarrow> char" where
  "hex_char n = (''0123456789abcdef'' ! (n mod 16))"

definition hex_digit_of :: "char \<Rightarrow> nat option" where
  "hex_digit_of c =
     (let n = (of_char c :: nat) in
      if 48 \<le> n \<and> n \<le> 57 then Some (n - 48)
      else if 97 \<le> n \<and> n \<le> 102 then Some (n - 87)
      else if 65 \<le> n \<and> n \<le> 70 then Some (n - 55)
      else None)"

fun read_hex :: "nat \<Rightarrow> string \<Rightarrow> nat option" where
  "read_hex acc [] = Some acc"
| "read_hex acc (c # cs) =
     (case hex_digit_of c of None \<Rightarrow> None | Some d \<Rightarrow> read_hex (acc * 16 + d) cs)"

text \<open>
  \<^verbatim>\<open>Color.getHexString()\<close>: \<^verbatim>\<open>('000000' + hex.toString(16)).slice(-6)\<close>, the six
  hexadecimal digits of the colour.
\<close>

definition getHexString :: "color \<Rightarrow> string" where
  "getHexString c = map (\<lambda>i. hex_char (unat c div 16 ^ i)) [5, 4, 3, 2, 1, 0]"

text \<open>
  The number a string converts to where a number is expected. Decimal literals (which
  must span the whole trimmed string), \<^verbatim>\<open>Infinity\<close> and the prefix \<^verbatim>\<open>0x\<close> are
  modelled; the prefixes \<^verbatim>\<open>0o\<close> and \<^verbatim>\<open>0b\<close> are not.
\<close>

definition string_to_number :: "string \<Rightarrow> jsnum" where
  "string_to_number str =
     (let t = strip_white_space str in
      if t = [] then Num 0
      else if take 2 t = ''0x'' \<or> take 2 t = ''0X'' then
        (if drop 2 t = [] then NaN
         else (case read_hex 0 (drop 2 t) of None \<Rightarrow> NaN | Some n \<Rightarrow> Num (real n)))
      else
        (let (neg, u) = (case t of
                           c # r \<Rightarrow> if c = CHR ''-'' then (True, r)
                                     else if c = CHR ''+'' then (False, r) else (False, t)
                         | [] \<Rightarrow> (False, t));
             v = (if u = ''Infinity'' then PosInfinity
                  else (case scan_decimal u of
                          Some (r, rest) \<Rightarrow> if rest = [] then Num r else NaN
                        | None \<Rightarrow> NaN))
         in if neg then js_neg v else v))"

text \<open>
  \<^verbatim>\<open>Color.setHex(hex)\<close> takes \<^verbatim>\<open>Math.floor(hex)\<close> and reads the three bytes with
  shifts and masks, that is, the low 24 bits of the integer; NaN and the infinities
  count as 0 there.
\<close>

definition setHex :: "jsnum \<Rightarrow> color" where
  "setHex hex = (case hex of Num r \<Rightarrow> of_int \<lfloor>r\<rfloor> | _ \<Rightarrow> 0)"

text \<open>\<^verbatim>\<open>str.replace(c, rep)\<close> for a one-character pattern: the first occurrence only.\<close>

fun replace_first :: "char \<Rightarrow> string \<Rightarrow> string \<Rightarrow> string" where
  "replace_first p rep [] = []"
| "replace_first p rep (c # cs) = (if c = p then rep @ cs else c # replace_first p rep cs)"

text \<open>\<^verbatim>\<open>color.setHex(str.replace('#', '0x'))\<close>, as the handlers write it.\<close>

definition setHex_from_css :: "string \<Rightarrow> color" where
  "setHex_from_css str = setHex (string_to_number (replace_first CHR ''#'' ''0x'' str))"

subsection \<open>Replacing the model (\<^verbatim>\<open>loadModelByPath\<close>, \<^verbatim>\<open>loadModelFromFile\<close>)\<close>

text \<open>The six texture slots of a material, in the order in which the source disposes them.\<close>

definition texture_maps :: "material \<Rightarrow> nat option list" where
  "texture_maps mat =
     [map_tex mat, normalMap mat, roughnessMap mat, metalnessMap mat, aoMap mat, emissiveMap mat]"

definition dispose_material :: "(nat \<Rightarrow> material) \<Rightarrow> nat \<Rightarrow> event list" where
  "dispose_material mats m =
     concat (map (\<lambda>slot. case slot of Some t \<Rightarrow> [DisposeTexture t] | None \<Rightarrow> []) (texture_maps (mats m)))
     @ [DisposeMaterial m]"

definition dispose_child :: "(nat \<Rightarrow> material) \<Rightarrow> object3d_data \<Rightarrow> event list" where
  "dispose_child mats child =
     (if isMesh child then
        (case geometry child of Some g \<Rightarrow> [DisposeGeometry g] | None \<Rightarrow> []) @
        (case material child of
           NoMaterial \<Rightarrow> []
         | MaterialArray ms \<Rightarrow> concat (map (dispose_material mats) ms)
         | SingleMaterial m \<Rightarrow> dispose_material mats m)
      else [])"

definition model_ref :: "object3d \<Rightarrow> scene_child" where
  "model_ref model = ModelRoot (uuid (root model))"

text \<open>The block \<^verbatim>\<open>if (this.satellite) { ... }\<close> that opens both functions.\<close>

definition remove_existing_model :: "viewer \<Rightarrow> viewer" where
  "remove_existing_model s =
     (case satellite s of
        Some model \<Rightarrow>
          (let s1 = scene_remove (model_ref model) s;
               s2 = emit (concat (map (dispose_child (materials s1)) (traverse model))) s1
           in s2\<lparr>satellite := None\<rparr>)
      | None \<Rightarrow> s)"

definition buildOutliner :: "viewer \<Rightarrow> viewer" where
  "buildOutliner s =
     (case outliner_tree (dom s) of
        None \<Rightarrow> emit [ConsoleError ''Outliner tree element not found!''] s
      | Some _ \<Rightarrow>
          s\<lparr>dom := (dom s)\<lparr>outliner_tree :=
               Some (case satellite s of
                       None \<Rightarrow> OutlinerNoModel
                     | Some model \<Rightarrow> OutlinerTree (uuid (root model)))\<rparr>\<rparr>)"

definition begin_replace :: "load_path \<Rightarrow> viewer \<Rightarrow> viewer" where
  "begin_replace path s =
     (let s1 = remove_existing_model s;
          s2 = s1\<lparr>partData := Map.empty\<rparr>;
          s3 = closeIndicator s2;
          s4 = buildOutliner s3;
          s5 = showLoadingIndicator s4
      in emit [LoaderLoad path] s5)"

definition loadModelByPath :: "string \<Rightarrow> viewer \<Rightarrow> viewer" where
  "loadModelByPath modelPath s = begin_replace (LoadModelByPath modelPath) s"

definition loadModelFromFile :: "string \<Rightarrow> viewer \<Rightarrow> viewer" where
  "loadModelFromFile file s = begin_replace (LoadModelFromFile file) s"

definition loadModel :: "viewer \<Rightarrow> viewer" where
  "loadModel s = emit [LoaderLoad LoadModel] (showLoadingIndicator s)"

text \<open>The synchronous part of a load, by the function that starts it.\<close>

definition start_load :: "load_path \<Rightarrow> viewer \<Rightarrow> viewer" where
  "start_load path s =
     (case path of
        LoadModel \<Rightarrow> loadModel s
      | LoadModelByPath modelPath \<Rightarrow> loadModelByPath modelPath s
      | LoadModelFromFile file \<Rightarrow> loadModelFromFile file s)"

subsection \<open>The load callbacks\<close>

text \<open>A traversal whose callback changes the visited object and a state.\<close>

fun traverse_st ::
    "('s \<Rightarrow> object3d_data \<Rightarrow> object3d_data \<times> 's) \<Rightarrow> 's \<Rightarrow> object3d \<Rightarrow> object3d \<times> 's"
  and traverse_st_list ::
    "('s \<Rightarrow> object3d_data \<Rightarrow> object3d_data \<times> 's) \<Rightarrow> 's \<Rightarrow> object3d list \<Rightarrow> object3d list \<times> 's"
where
  "traverse_st f st (Object3D d cs) =
     (let (d', st1) = f st d; (cs', st2) = traverse_st_list f st1 cs in (Object3D d' cs', st2))"
| "traverse_st_list f st [] = ([], st)"
| "traverse_st_list f st (c # cs) =
     (let (c', st1) = traverse_st f st c; (cs', st2) = traverse_st_list f st1 cs in (c' # cs', st2))"

definition is_canonical :: "material \<Rightarrow> bool" where
  "is_canonical mat = (kind mat = MeshStandardMaterial \<or> kind mat = MeshPhysicalMaterial)"

definition optimizeMaterial :: "material \<Rightarrow> material" where
  "optimizeMaterial mat =
     (let m1 = mat\<lparr>needsUpdate := True\<rparr>;
          m2 = (if side m1 = None then m1\<lparr>side := Some 0\<rparr> else m1)
      in case opacity m2 of
           Some opa \<Rightarrow> if transparent m2 \<and> opa < 1
                     then m2\<lparr>transparent := True, depthWrite := Some (opa = 1)\<rparr> else m2
         | None \<Rightarrow> m2)"

text \<open>
  \<^verbatim>\<open>new THREE.MeshStandardMaterial({...})\<close> from the fields of the source material;
  \<open>new_uuid\<close> is the identifier the library generates for the new object.
\<close>

definition convertToStandardMaterial :: "string \<Rightarrow> material \<Rightarrow> material" where
  "convertToStandardMaterial new_uuid sourceMaterial =
     \<lparr>kind = MeshStandardMaterial,
      mat_name = [],
      mat_uuid = new_uuid,
      color = Some (case color sourceMaterial of Some c \<Rightarrow> c | None \<Rightarrow> 0xffffff),
      roughness = Some (case roughness sourceMaterial of Some r \<Rightarrow> r | None \<Rightarrow> 0.5),
      metalness = Some (case metalness sourceMaterial of Some m \<Rightarrow> m | None \<Rightarrow> 0),
      emissive = Some (case emissive sourceMaterial of Some c \<Rightarrow> c | None \<Rightarrow> 0x000000),
      emissiveIntensity =
        Some (case emissiveIntensity sourceMaterial of Some e \<Rightarrow> if e = 0 then 1 else e | None \<Rightarrow> 1),
      opacity = Some (case opacity sourceMaterial of Some opa \<Rightarrow> opa | None \<Rightarrow> 1),
      transparent = transparent sourceMaterial,
      map_tex = map_tex sourceMaterial,
      normalMap = normalMap sourceMaterial,
      roughnessMap = roughnessMap sourceMaterial,
      metalnessMap = metalnessMap sourceMaterial,
      aoMap = aoMap sourceMaterial,
      emissiveMap = emissiveMap sourceMaterial,
      side = Some (case side sourceMaterial of Some n \<Rightarrow> n | None \<Rightarrow> 0),
      alphaTest = Some (case alphaTest sourceMaterial of Some a \<Rightarrow> a | None \<Rightarrow> 0),
      depthTest = Some (case depthTest sourceMaterial of Some b \<Rightarrow> b | None \<Rightarrow> True),
      depthWrite = Some (case depthWrite sourceMaterial of Some b \<Rightarrow> b | None \<Rightarrow> True),
      envMapIntensity = Some (Num 1),
      needsUpdate = True\<rparr>"

text \<open>
  The store during \<^verbatim>\<open>convertMaterials\<close>: the materials and the next free address.
  \<^verbatim>\<open>materials.map(...)\<close> keeps a canonical material (optimised in place) and puts a new
  standard material in the place of any other.
\<close>

type_synonym mat_store = "(nat \<Rightarrow> material) \<times> nat"

fun convert_each :: "(nat \<Rightarrow> string) \<Rightarrow> nat list \<Rightarrow> mat_store \<Rightarrow> nat list \<times> mat_store" where
  "convert_each gen [] st = ([], st)"
| "convert_each gen (m # ms) (mats, next) =
     (if is_canonical (mats m) then
        (let (r, st') = convert_each gen ms (mats(m := optimizeMaterial (mats m)), next)
         in (m # r, st'))
      else
        (let (r, st') = convert_each gen ms
                          (mats(next := convertToStandardMaterial (gen next) (mats m)), Suc next)
         in (next # r, st')))"

definition convert_child :: "(nat \<Rightarrow> string) \<Rightarrow> mat_store \<Rightarrow> object3d_data \<Rightarrow> object3d_data \<times> mat_store" where
  "convert_child gen st child =
     (if isMesh child \<and> material child \<noteq> NoMaterial then
        (let (convertedMaterials, st') = convert_each gen (materials_of (material child)) st
         in (child\<lparr>material := (if length convertedMaterials = 1
                                  then SingleMaterial (hd convertedMaterials)
                                  else MaterialArray convertedMaterials)\<rparr>, st'))
      else (child, st))"

definition convertMaterials :: "(nat \<Rightarrow> string) \<Rightarrow> object3d \<Rightarrow> mat_store \<Rightarrow> object3d \<times> mat_store" where
  "convertMaterials gen object st = traverse_st (convert_child gen) st object"

text \<open>
  \<^verbatim>\<open>applySolarPanelTexture\<close> starts one texture load for every use of a material with one
  of four names; the loads complete later.
\<close>

definition panelMaterialNames :: "string list" where
  "panelMaterialNames =
     [''Panel_01-Solar_Panel_Cell_Material_UV'', ''Panel_02-Solar_Panel_Cell_Material_UV'',
      ''Panel_03-Solar_Panel_Cell_Material_UV'', ''Panel_04-Solar_Panel_Cell_Material_UV'']"

definition applySolarPanelTexture :: "viewer \<Rightarrow> viewer" where
  "applySolarPanelTexture s =
     (case satellite s of
        None \<Rightarrow> s
      | Some model \<Rightarrow>
          emit (concat (map (\<lambda>child.
                  if isMesh child then
                    concat (map (\<lambda>m. if mat_name (materials s m) \<in> set panelMaterialNames
                                      then [TextureLoad ''assets/images/Solar_Panel_Mask_Texture.png'' m ''map'']
                                      else [])
                                (materials_of (material child)))
                  else [])
                (traverse model))) s)"

text \<open>The traversal that attaches part information to the named meshes.\<close>

definition part_info_for :: "(jsstring \<Rightarrow> jsstring) \<Rightarrow> jsstring \<Rightarrow> part_info" where
  "part_info_for lower raw_name =
     (let formattedName = formatPartName lower raw_name
      in \<lparr>part_name = formattedName,
          description = units ''Part of the '' @ formattedName @ units '' component.''\<rparr>)"

definition tag_child ::
    "(jsstring \<Rightarrow> jsstring) \<Rightarrow> (string \<rightharpoonup> part_info) \<Rightarrow> object3d_data \<Rightarrow>
     object3d_data \<times> (string \<rightharpoonup> part_info)" where
  "tag_child lower pd child =
     (if isMesh child then
        (if name child \<noteq> [] \<and> trim (name child) \<noteq> [] then
           (let info = part_info_for lower (name child)
            in (child\<lparr>userData_partInfo := Some info\<rparr>, pd(uuid child \<mapsto> info)))
         else (child, pd))
      else (child, pd))"

text \<open>
  \<^verbatim>\<open>setEnvironmentIntensity\<close> walks the scene; of the scene's meshes the state holds
  those of the loaded model, once it has been added.
\<close>

definition scene_mesh_materials :: "viewer \<Rightarrow> nat list" where
  "scene_mesh_materials s =
     (case satellite s of
        Some model \<Rightarrow>
          if model_ref model \<in> set (scene s)
          then concat (map (\<lambda>child. if isMesh child then materials_of (material child) else [])
                           (traverse model))
          else []
      | None \<Rightarrow> [])"

definition applyIntensity :: "jsnum \<Rightarrow> nat \<Rightarrow> (nat \<Rightarrow> material) \<Rightarrow> (nat \<Rightarrow> material)" where
  "applyIntensity v m mats =
     (if envMapIntensity (mats m) = None then mats
      else mats(m := (mats m)\<lparr>envMapIntensity := Some v, needsUpdate := True\<rparr>))"

definition setEnvironmentIntensity :: "jsnum \<Rightarrow> viewer \<Rightarrow> viewer" where
  "setEnvironmentIntensity v s =
     (if v = NaN then s
      else (let s1 = s\<lparr>currentEnvIntensity := v\<rparr>
            in s1\<lparr>materials := fold (applyIntensity v) (scene_mesh_materials s1) (materials s1)\<rparr>))"

definition updateLoadingProgress :: "jsnum \<Rightarrow> viewer \<Rightarrow> viewer" where
  "updateLoadingProgress percent s =
     set_text ''loading-percent'' (units (toFixed 0 percent @ ''%''))
       (set_style ''loading-progress'' ''width'' (number_to_string percent @ ''%'') s)"

definition neg_vec3 :: "vec3 \<Rightarrow> vec3" where
  "neg_vec3 v = \<lparr>vx = - vx v, vy = - vy v, vz = - vz v\<rparr>"

text \<open>
  The success callback, which the three loading functions of the satellite viewer share
  word for word up to their last lines; \<open>gltf_scene\<close> is \<^verbatim>\<open>gltf.scene\<close>, whose materials
  the loader has put into the store. The camera move at the end is not represented.
\<close>

definition model_loaded :: "three \<Rightarrow> load_path \<Rightarrow> object3d \<Rightarrow> viewer \<Rightarrow> viewer" where
  "model_loaded lib path gltf_scene s =
     (let center = box_center lib gltf_scene;
          placed = update_root (\<lambda>d. d\<lparr>position := neg_vec3 center,
                                        scale := \<lparr>vx = 40, vy = 40, vz = 40\<rparr>\<rparr>) gltf_scene;
          (converted, (mats, next)) =
             convertMaterials (generateUUID lib) placed (materials s, next_material s);
          s1 = s\<lparr>satellite := Some converted, materials := mats, next_material := next\<rparr>;
          s2 = applySolarPanelTexture s1;
          (tagged, pd) = traverse_st (tag_child (toLowerCase lib)) (partData s2) converted;
          s3 = s2\<lparr>satellite := Some tagged, partData := pd\<rparr>;
          s4 = setEnvironmentIntensity (currentEnvIntensity s3) s3;
          s5 = scene_add (model_ref tagged) s4;
          s6 = buildOutliner s5;
          s7 = emit [ControlsUpdate] s6;
          s8 = updateLoadingProgress (Num 100) s7
      in case path of
           LoadModel \<Rightarrow> setTimeout HideLoadingIndicatorAndUpdatePanelHeight 300 s8
         | LoadModelByPath modelPath \<Rightarrow> setTimeout HideLoadingIndicator 300 s8
         | LoadModelFromFile file \<Rightarrow> emit [RevokeObjectURL file] (setTimeout HideLoadingIndicator 300 s8))"

text \<open>The error callback of the three loading functions.\<close>

definition load_failed_message :: string where
  "load_failed_message = ''Failed to load 3D model. Please check the console for details.''"

definition model_load_failed :: "load_path \<Rightarrow> viewer \<Rightarrow> viewer" where
  "model_load_failed path s =
     (let s1 = emit [ConsoleError ''Error loading GLTF model:''] s;
          s2 = hideLoadingIndicator s1;
          s3 = emit [Alert load_failed_message] s2
      in case path of
           LoadModelFromFile file \<Rightarrow> emit [RevokeObjectURL file] s3
         | _ \<Rightarrow> s3)"

subsection \<open>The generic viewer's loader (\<^verbatim>\<open>load3dModel\<close>)\<close>

datatype project_type = Monsters | Rings

record project_setting =
  isAnimate :: bool
  needShadow :: bool
  needFloor :: bool
  needDirectionalLight :: bool
  NeedHemisphereLight :: bool

definition settingByProjectType :: "project_type \<Rightarrow> project_setting" where
  "settingByProjectType projectType =
     (case projectType of
        Monsters \<Rightarrow> \<lparr>isAnimate = True, needShadow = True, needFloor = True,
                     needDirectionalLight = True, NeedHemisphereLight = True\<rparr>
      | Rings \<Rightarrow> \<lparr>isAnimate = False, needShadow = False, needFloor = False,
                  needDirectionalLight = False, NeedHemisphereLight = False\<rparr>)"

text \<open>
  The state of a project of the generic viewer, as far as \<^verbatim>\<open>load3dModel\<close> touches it:
  the scene's children, the model once loaded, the animation mixer of
  \<^verbatim>\<open>createModelActionsGUI\<close>, the dialogs shown, and the exceptions that left a callback.
  An animation clip is referred to by a number.
\<close>

datatype mixer_state = MixerIdle | MixerPlaying nat

record project =
  project_scene :: "scene_child list"
  project_model :: "object3d option"
  mixer :: "mixer_state option"
  project_alerts :: "string list"
  project_uncaught :: "js_error list"

fun map_object3d :: "(object3d_data \<Rightarrow> object3d_data) \<Rightarrow> object3d \<Rightarrow> object3d" where
  "map_object3d f (Object3D d cs) = Object3D (f d) (map (map_object3d f) cs)"

text \<open>
  \<^verbatim>\<open>createModelActionsGUI\<close> makes the mixer and asks it for the action of
  \<^verbatim>\<open>animations[0]\<close>. Without a clip that is \<^verbatim>\<open>mixer.clipAction(undefined)\<close>, which throws
  a TypeError when it reads the clip's identifier; the mixer exists by then.
\<close>

definition createModelActionsGUI :: "nat list \<Rightarrow> project \<Rightarrow> js_error + project" where
  "createModelActionsGUI animations p =
     (case animations of
        [] \<Rightarrow> Inl (TypeError ''clipObject is undefined'')
      | clip # _ \<Rightarrow> Inr (p\<lparr>mixer := Some (MixerPlaying clip)\<rparr>))"

text \<open>
  The success callback of \<^verbatim>\<open>load3dModel\<close>, for \<^verbatim>\<open>gltf.scene\<close> and \<^verbatim>\<open>gltf.animations\<close>.
  An exception of \<^verbatim>\<open>createModelActionsGUI\<close> ends the callback: the model has been added
  to the scene by then, and neither the shadows nor the floor follow.
\<close>

definition load3dModel_loaded :: "project_type \<Rightarrow> object3d \<Rightarrow> nat list \<Rightarrow> project \<Rightarrow> project" where
  "load3dModel_loaded projectType gltf_scene animations p =
     (let model = gltf_scene;
          p1 = p\<lparr>project_scene := project_scene p @ [model_ref model], project_model := Some model\<rparr>;
          animated = (if isAnimate (settingByProjectType projectType)
                      then createModelActionsGUI animations p1 else Inr p1)
      in case animated of
           Inl e \<Rightarrow> p1\<lparr>mixer := Some MixerIdle, project_uncaught := project_uncaught p1 @ [e]\<rparr>
         | Inr p2 \<Rightarrow>
             (let p3 = (if needShadow (settingByProjectType projectType)
                        then p2\<lparr>project_model :=
                               Some (map_object3d (\<lambda>object. if isMesh object
                                                             then object\<lparr>castShadow := True\<rparr> else object)
                                                   model)\<rparr>
                        else p2)
              in if needFloor (settingByProjectType projectType)
                 then p3\<lparr>project_scene := project_scene p3 @ [Floor, GridHelper]\<rparr>
                 else p3))"

definition load3dModel_failed :: "string \<Rightarrow> project \<Rightarrow> project" where
  "load3dModel_failed err p = p\<lparr>project_alerts := project_alerts p @ [err]\<rparr>"

subsection \<open>Scene data (\<^verbatim>\<open>serializeSceneData\<close>, \<^verbatim>\<open>deserializeSceneData\<close>)\<close>

text \<open>The URL that \<^verbatim>\<open>serializeSceneData\<close> finds for a texture; an empty string is falsy.\<close>

definition nonempty :: "string option \<Rightarrow> string option" where
  "nonempty u = (case u of Some str \<Rightarrow> if str = [] then None else Some str | None \<Rightarrow> None)"

definition texture_url :: "texture \<Rightarrow> string option" where
  "texture_url tex =
     (case nonempty (userData_sourceUrl tex) of
        Some url \<Rightarrow> Some url
      | None \<Rightarrow>
          (case source_data tex of
             Some data \<Rightarrow> nonempty data
           | None \<Rightarrow> nonempty (image_src tex)))"

definition textureMaps :: "material \<Rightarrow> (string \<times> nat option) list" where
  "textureMaps mat =
     [(''map'', map_tex mat), (''normalMap'', normalMap mat), (''roughnessMap'', roughnessMap mat),
      (''metalnessMap'', metalnessMap mat), (''aoMap'', aoMap mat), (''emissiveMap'', emissiveMap mat)]"

definition serialize_textures :: "(nat \<Rightarrow> texture) \<Rightarrow> material \<Rightarrow> (string \<times> texture_info) list" where
  "serialize_textures texs mat =
     concat (map (\<lambda>(mapName, slot).
                    case slot of
                      None \<Rightarrow> []
                    | Some t \<Rightarrow> (case texture_url (texs t) of
                                   Some textureUrl \<Rightarrow> [(mapName, TextureUrl textureUrl)]
                                 | None \<Rightarrow> [(mapName, TexturePresent)]))
                 (textureMaps mat))"

definition css_color :: "color \<Rightarrow> string" where
  "css_color c = CHR ''#'' # getHexString c"

definition serialize_material :: "(nat \<Rightarrow> texture) \<Rightarrow> nat \<Rightarrow> material \<Rightarrow> material_data" where
  "serialize_material texs index mat =
     \<lparr>md_index = index,
      md_name = mat_name mat,
      md_uuid = mat_uuid mat,
      md_color = map_option css_color (color mat),
      md_roughness = roughness mat,
      md_metalness = metalness mat,
      md_emissive = map_option css_color (emissive mat),
      md_emissiveIntensity = emissiveIntensity mat,
      md_opacity = opacity mat,
      md_transparent = transparent mat,
      md_textures = Some (serialize_textures texs mat)\<rparr>"

definition serialize_object :: "viewer \<Rightarrow> object3d_data \<Rightarrow> object_data" where
  "serialize_object s child =
     (let mats = materials_of (material child)
      in \<lparr>od_uuid = uuid child,
          od_name = name child,
          od_position = Some (position child),
          od_rotation = Some (rotation child),
          od_scale = Some (scale child),
          od_visible = Some (visible child),
          od_materials = map (\<lambda>(index, m). serialize_material (textures s) index (materials s m))
                             (zip [0..<length mats] mats)\<rparr>)"

text \<open>The meshes that \<^verbatim>\<open>serializeSceneData\<close> writes: \<^verbatim>\<open>child.isMesh && child.material\<close>.\<close>

definition serialized_meshes :: "object3d \<Rightarrow> object3d_data list" where
  "serialized_meshes model = filter (\<lambda>child. isMesh child \<and> material child \<noteq> NoMaterial) (traverse model)"

text \<open>
  \<^verbatim>\<open>serializeSceneData\<close> returns \<^verbatim>\<open>null\<close> without a model, and throws a TypeError at
  \<^verbatim>\<open>material.color.getHexString()\<close> when a material of a written mesh has no colour.
\<close>

definition serializeSceneData :: "viewer \<Rightarrow> js_error + scene_data option" where
  "serializeSceneData s =
     (case satellite s of
        None \<Rightarrow> Inr None
      | Some model \<Rightarrow>
          if list_ex (\<lambda>child. list_ex (\<lambda>m. color (materials s m) = None) (materials_of (material child)))
               (serialized_meshes model)
          then Inl (TypeError ''material.color is undefined'')
          else Inr (Some \<lparr>sd_objects = Some (map (serialize_object s) (serialized_meshes model)),
                          sd_partData = Some (partData s)\<rparr>))"

text \<open>
  Changing the object that a traversal visits at a given position; \<open>objectMap\<close> refers to
  objects by that position.
\<close>

fun update_nth :: "nat \<Rightarrow> (object3d_data \<Rightarrow> object3d_data) \<Rightarrow> object3d \<Rightarrow> object3d"
  and update_nth_list :: "nat \<Rightarrow> (object3d_data \<Rightarrow> object3d_data) \<Rightarrow> object3d list \<Rightarrow> object3d list"
where
  "update_nth n f (Object3D d cs) =
     (case n of 0 \<Rightarrow> Object3D (f d) cs | Suc k \<Rightarrow> Object3D d (update_nth_list k f cs))"
| "update_nth_list n f [] = []"
| "update_nth_list n f (c # cs) =
     (if n < length (traverse c) then update_nth n f c # cs
      else c # update_nth_list (n - length (traverse c)) f cs)"

text \<open>
  \<^verbatim>\<open>objectMap\<close>: every mesh under its uuid; a later mesh replaces an earlier one with the
  same key.
\<close>

definition objectMap :: "object3d \<Rightarrow> string \<rightharpoonup> nat" where
  "objectMap model =
     fold (\<lambda>(i, child) m. if isMesh child then m(uuid child \<mapsto> i) else m)
          (zip [0..<length (traverse model)] (traverse model)) Map.empty"

text \<open>
  Running a loop whose body may throw: the first error ends it. (The model then gives
  the error only, not the state as the partial run left it.)
\<close>

fun for_each :: "('a \<Rightarrow> 's \<Rightarrow> js_error + 's) \<Rightarrow> 'a list \<Rightarrow> 's \<Rightarrow> js_error + 's" where
  "for_each body [] st = Inr st"
| "for_each body (a # as) st = (case body a st of Inl e \<Rightarrow> Inl e | Inr st' \<Rightarrow> for_each body as st')"

definition texture_requests :: "nat \<Rightarrow> material_data \<Rightarrow> event list" where
  "texture_requests m materialData =
     (case md_textures materialData of
        None \<Rightarrow> []
      | Some entries \<Rightarrow>
          concat (map (\<lambda>(mapName, textureInfo).
                         case textureInfo of
                           TextureUrl url \<Rightarrow> if url \<noteq> ''true'' then [TextureLoad url m mapName] else []
                         | TexturePresent \<Rightarrow> [])
                      entries))"

text \<open>
  The body of \<^verbatim>\<open>objectData.materials.forEach\<close> for the material \<open>m\<close> found at the
  entry's index. \<^verbatim>\<open>needsUpdate\<close> is set at once unless texture loads were started.
\<close>

definition restore_material :: "nat \<Rightarrow> material_data \<Rightarrow> viewer \<Rightarrow> js_error + viewer" where
  "restore_material m materialData s =
     (let mat = materials s m;
          wants_color = (nonempty (md_color materialData) \<noteq> None);
          wants_emissive = (nonempty (md_emissive materialData) \<noteq> None)
      in if wants_color \<and> color mat = None then Inl (TypeError ''material.color is undefined'')
         else if wants_emissive \<and> emissive mat = None then Inl (TypeError ''material.emissive is undefined'')
         else
           (let m1 = (case nonempty (md_color materialData) of
                        Some c \<Rightarrow> mat\<lparr>color := Some (setHex_from_css c)\<rparr> | None \<Rightarrow> mat);
                m2 = (case md_roughness materialData of
                        Some r \<Rightarrow> m1\<lparr>roughness := Some r\<rparr> | None \<Rightarrow> m1);
                m3 = (case md_metalness materialData of
                        Some r \<Rightarrow> m2\<lparr>metalness := Some r\<rparr> | None \<Rightarrow> m2);
                m4 = (case nonempty (md_emissive materialData) of
                        Some c \<Rightarrow> m3\<lparr>emissive := Some (setHex_from_css c)\<rparr> | None \<Rightarrow> m3);
                m5 = (case md_emissiveIntensity materialData of
                        Some r \<Rightarrow> m4\<lparr>emissiveIntensity := Some r\<rparr> | None \<Rightarrow> m4);
                m6 = (case md_opacity materialData of
                        Some opa \<Rightarrow> m5\<lparr>opacity := Some opa,
                                       transparent := (md_transparent materialData \<or> opa < 1)\<rparr>
                      | None \<Rightarrow> m5);
                requests = texture_requests m materialData;
                m7 = (if requests = [] then m6\<lparr>needsUpdate := True\<rparr> else m6)
            in Inr (emit requests (s\<lparr>materials := (materials s)(m := m7)\<rparr>))))"

definition restore_transform :: "object_data \<Rightarrow> object3d_data \<Rightarrow> object3d_data" where
  "restore_transform objectData obj =
     (let o1 = (case od_position objectData of Some p \<Rightarrow> obj\<lparr>position := p\<rparr> | None \<Rightarrow> obj);
          o2 = (case od_rotation objectData of Some r \<Rightarrow> o1\<lparr>rotation := r\<rparr> | None \<Rightarrow> o1);
          o3 = (case od_scale objectData of Some sc \<Rightarrow> o2\<lparr>scale := sc\<rparr> | None \<Rightarrow> o2)
      in case od_visible objectData of Some v \<Rightarrow> o3\<lparr>visible := v\<rparr> | None \<Rightarrow> o3)"

text \<open>
  The body of \<^verbatim>\<open>sceneData.objects.forEach\<close>; \<open>index_of\<close> is \<^verbatim>\<open>objectMap\<close>, built before
  the loop.
\<close>

definition restore_object :: "(string \<rightharpoonup> nat) \<Rightarrow> object_data \<Rightarrow> viewer \<Rightarrow> js_error + viewer" where
  "restore_object index_of objectData s =
     (case satellite s of
        None \<Rightarrow> Inr s
      | Some model \<Rightarrow>
          (case index_of (od_uuid objectData) of
             None \<Rightarrow> Inr s
           | Some i \<Rightarrow>
               if i < length (traverse model) then
                 (let obj = traverse model ! i
                  in if material obj = NoMaterial then Inr s
                     else
                       (let s1 = s\<lparr>satellite := Some (update_nth i (restore_transform objectData) model)\<rparr>;
                            mats = materials_of (material obj)
                        in for_each (\<lambda>materialData st.
                                       if md_index materialData < length mats
                                       then restore_material (mats ! md_index materialData) materialData st
                                       else Inr st)
                                    (od_materials objectData) s1))
               else Inr s))"

definition deserializeSceneData :: "scene_data option \<Rightarrow> viewer \<Rightarrow> js_error + viewer" where
  "deserializeSceneData sceneData s =
     (case (sceneData, satellite s) of
        (Some sd, Some model) \<Rightarrow>
          (let s1 = (case sd_partData sd of
                       Some pd \<Rightarrow> s\<lparr>partData := partData s ++ pd\<rparr>
                     | None \<Rightarrow> s);
               index_of = objectMap model
           in case sd_objects sd of
                Some objs \<Rightarrow>
                  (case for_each (restore_object index_of) objs s1 of
                     Inl e \<Rightarrow> Inl e
                   | Inr s2 \<Rightarrow> Inr (setTimeout BuildOutliner 500 s2))
              | None \<Rightarrow> Inr s1)
      | _ \<Rightarrow> Inr s)"

subsection \<open>Settings (\<^verbatim>\<open>applySettings\<close>, \<^verbatim>\<open>loadSettingsFromFile\<close>)\<close>

text \<open>
  A field of a parsed settings file is any JSON value or missing. The class defines
  \<^verbatim>\<open>applySettings\<close> and \<^verbatim>\<open>loadSettingsFromFile\<close> twice with the same text; the later
  definitions are the methods.
\<close>

datatype jsval = JUndefined | JNull | JBool bool | JNumber jsnum | JString string

definition truthy :: "jsval \<Rightarrow> bool" where
  "truthy v =
     (case v of
        JUndefined \<Rightarrow> False
      | JNull \<Rightarrow> False
      | JBool b \<Rightarrow> b
      | JNumber n \<Rightarrow> n \<noteq> Num 0 \<and> n \<noteq> NaN
      | JString str \<Rightarrow> str \<noteq> [])"

text \<open>The string that \<^verbatim>\<open>element.value = v\<close> stores in an input element.\<close>

definition to_dom_string :: "jsval \<Rightarrow> string" where
  "to_dom_string v =
     (case v of
        JUndefined \<Rightarrow> ''undefined''
      | JNull \<Rightarrow> []
      | JBool b \<Rightarrow> if b then ''true'' else ''false''
      | JNumber n \<Rightarrow> number_to_string n
      | JString str \<Rightarrow> str)"

record settings =
  s_backgroundType :: jsval
  s_backgroundColor :: jsval
  s_backgroundIntensity :: jsval
  s_ambientIntensity :: jsval
  s_ambientColor :: jsval
  s_directionalIntensity :: jsval
  s_directionalColor :: jsval
  s_directionalX :: jsval
  s_directionalY :: jsval
  s_directionalZ :: jsval
  s_fillIntensity :: jsval
  s_fillColor :: jsval
  s_pointIntensity :: jsval
  s_pointColor :: jsval
  s_environmentType :: jsval
  s_envIntensity :: jsval
  s_sceneData :: "scene_data option"
  s_loadPanelCollapsed :: jsval
  s_lightingPanelCollapsed :: jsval
  s_outlinerPanelCollapsed :: jsval
  s_rightPanelCollapsed :: jsval

text \<open>
  The listeners that \<^verbatim>\<open>setupLightingControls\<close> registers. Where a listener changes
  the star field, the scene background or the scene environment, which the state does
  not hold, the model changes what the state does hold and leaves the rest out.
\<close>

definition updateBackgroundColor :: "viewer \<Rightarrow> viewer" where
  "updateBackgroundColor s = s"

definition updateStarFieldIntensity :: "viewer \<Rightarrow> viewer" where
  "updateStarFieldIntensity s = s"

definition applyBackgroundType :: "string \<Rightarrow> viewer \<Rightarrow> viewer" where
  "applyBackgroundType type s =
     (if type = ''color''
      then updateBackgroundColor (set_style ''background-color-control'' ''display'' ''block'' s)
      else updateStarFieldIntensity (set_style ''background-color-control'' ''display'' ''none'' s))"

definition loadDefaultHDRI :: "viewer \<Rightarrow> viewer" where
  "loadDefaultHDRI s = emit [HdriLoad ''3D_WEB_VIEW/assets/hdri/Bevel_Reflection.exr''] s"

definition applyEnvironmentMap :: "viewer \<Rightarrow> viewer" where
  "applyEnvironmentMap s = setEnvironmentIntensity (currentEnvIntensity s) s"

definition applyEnvironmentType :: "string \<Rightarrow> viewer \<Rightarrow> viewer" where
  "applyEnvironmentType type s =
     (if type = ''hdri'' then
        (let s1 = set_style ''environment-hdri-control'' ''display'' ''block'' s
         in if environmentMap s1 then applyEnvironmentMap s1 else loadDefaultHDRI s1)
      else set_style ''environment-hdri-control'' ''display'' ''none'' s)"

definition set_intensity :: "jsnum \<Rightarrow> light option \<Rightarrow> light option" where
  "set_intensity v l = map_option (\<lambda>l'. l'\<lparr>intensity := v\<rparr>) l"

definition set_light_color :: "string \<Rightarrow> light option \<Rightarrow> light option" where
  "set_light_color css l = map_option (\<lambda>l'. l'\<lparr>light_color := setHex_from_css css\<rparr>) l"

text \<open>
  \<^verbatim>\<open>element.dispatchEvent(new Event(type))\<close> runs the listener registered on the element
  for that type, if any, with \<^verbatim>\<open>e.target.value\<close> the element's current value.
\<close>

definition dispatchEvent :: "string \<Rightarrow> string \<Rightarrow> viewer \<Rightarrow> viewer" where
  "dispatchEvent el type s =
     (let v = value_of (dom s) el; num = parseFloat v in
      if el = ''background-type'' \<and> type = ''change'' then applyBackgroundType v s
      else if el = ''background-color'' \<and> type = ''input'' then
        (if value_of (dom s) ''background-type'' = ''color'' then updateBackgroundColor s else s)
      else if el = ''background-intensity'' \<and> type = ''input'' then
        (let s1 = (set_text ''background-intensity-value'' (units (toFixed 1 num)) s)\<lparr>backgroundIntensity := num\<rparr>
         in if value_of (dom s1) ''background-type'' = ''color'' then updateBackgroundColor s1
            else if value_of (dom s1) ''background-type'' = ''stars'' then updateStarFieldIntensity s1
            else s1)
      else if el = ''environment-type'' \<and> type = ''change'' then applyEnvironmentType v s
      else if el = ''ambient-intensity'' \<and> type = ''input'' then
        (let s1 = set_text ''ambient-intensity-value'' (units (toFixed 1 num)) s
         in s1\<lparr>ambientLight := set_intensity num (ambientLight s1)\<rparr>)
      else if el = ''ambient-color'' \<and> type = ''input'' then
        s\<lparr>ambientLight := set_light_color v (ambientLight s)\<rparr>
      else if el = ''directional-intensity'' \<and> type = ''input'' then
        (let s1 = set_text ''directional-intensity-value'' (units (toFixed 1 num)) s
         in s1\<lparr>directionalLight := set_intensity num (directionalLight s1)\<rparr>)
      else if el = ''directional-color'' \<and> type = ''input'' then
        s\<lparr>directionalLight := set_light_color v (directionalLight s)\<rparr>
      else if el = ''directional-x'' \<and> type = ''input'' then
        (let s1 = set_text ''directional-x-value'' (units (toFixed 1 num)) s
         in s1\<lparr>directionalLight :=
                map_option (\<lambda>l. l\<lparr>light_position := (light_position l)\<lparr>jx := num\<rparr>\<rparr>) (directionalLight s1)\<rparr>)
      else if el = ''directional-y'' \<and> type = ''input'' then
        (let s1 = set_text ''directional-y-value'' (units (toFixed 1 num)) s
         in s1\<lparr>directionalLight :=
                map_option (\<lambda>l. l\<lparr>light_position := (light_position l)\<lparr>jy := num\<rparr>\<rparr>) (directionalLight s1)\<rparr>)
      else if el = ''directional-z'' \<and> type = ''input'' then
        (let s1 = set_text ''directional-z-value'' (units (toFixed 1 num)) s
         in s1\<lparr>directionalLight :=
                map_option (\<lambda>l. l\<lparr>light_position := (light_position l)\<lparr>jz := num\<rparr>\<rparr>) (directionalLight s1)\<rparr>)
      else if el = ''fill-intensity'' \<and> type = ''input'' then
        (let s1 = set_text ''fill-intensity-value'' (units (toFixed 1 num)) s
         in s1\<lparr>fillLight := set_intensity num (fillLight s1)\<rparr>)
      else if el = ''fill-color'' \<and> type = ''input'' then
        s\<lparr>fillLight := set_light_color v (fillLight s)\<rparr>
      else if el = ''point-intensity'' \<and> type = ''input'' then
        (let s1 = set_text ''point-intensity-value'' (units (toFixed 1 num)) s
         in s1\<lparr>pointLight := set_intensity num (pointLight s1)\<rparr>)
      else if el = ''point-color'' \<and> type = ''input'' then
        s\<lparr>pointLight := set_light_color v (pointLight s)\<rparr>
      else if el = ''env-intensity'' \<and> type = ''input'' then
        setEnvironmentIntensity num (set_text ''env-intensity-value'' (units (toFixed 1 num)) s)
      else s)"

text \<open>One step of \<^verbatim>\<open>applySettings\<close>: store the field in its control, then dispatch.\<close>

definition apply_control :: "string \<Rightarrow> string \<Rightarrow> jsval \<Rightarrow> viewer \<Rightarrow> viewer" where
  "apply_control el type v s = dispatchEvent el type (set_value el (to_dom_string v) s)"

definition apply_if_truthy :: "string \<Rightarrow> string \<Rightarrow> jsval \<Rightarrow> viewer \<Rightarrow> viewer" where
  "apply_if_truthy el type v s = (if truthy v then apply_control el type v s else s)"

definition apply_if_defined :: "string \<Rightarrow> string \<Rightarrow> jsval \<Rightarrow> viewer \<Rightarrow> viewer" where
  "apply_if_defined el type v s = (if v \<noteq> JUndefined then apply_control el type v s else s)"

definition apply_collapsed :: "string \<Rightarrow> jsval \<Rightarrow> viewer \<Rightarrow> viewer" where
  "apply_collapsed el v s =
     (if v \<noteq> JUndefined
      then (if truthy v then add_class el ''collapsed'' s else remove_class el ''collapsed'' s)
      else s)"

text \<open>The arrows of the toggle button are the code units U+25C4 and U+25BA.\<close>

definition apply_rightPanelCollapsed :: "jsval \<Rightarrow> viewer \<Rightarrow> viewer" where
  "apply_rightPanelCollapsed v s =
     (if v \<noteq> JUndefined then
        (if truthy v
         then add_class ''right-panel-toggle'' ''panel-collapsed''
                (set_text ''right-panel-toggle'' [0x25C4] (add_class ''right-panel'' ''collapsed'' s))
         else remove_class ''right-panel-toggle'' ''panel-collapsed''
                (set_text ''right-panel-toggle'' [0x25BA] (remove_class ''right-panel'' ''collapsed'' s)))
      else s)"

definition applySettings :: "settings option \<Rightarrow> viewer \<Rightarrow> viewer" where
  "applySettings settings_arg s =
     (case settings_arg of
        None \<Rightarrow> s
      | Some st \<Rightarrow>
          (let s1 = apply_if_truthy ''background-type'' ''change'' (s_backgroundType st) s;
               s2 = apply_if_truthy ''background-color'' ''input'' (s_backgroundColor st) s1;
               s3 = apply_if_defined ''background-intensity'' ''input'' (s_backgroundIntensity st) s2;
               s4 = apply_if_defined ''ambient-intensity'' ''input'' (s_ambientIntensity st) s3;
               s5 = apply_if_truthy ''ambient-color'' ''input'' (s_ambientColor st) s4;
               s6 = apply_if_defined ''directional-intensity'' ''input'' (s_directionalIntensity st) s5;
               s7 = apply_if_truthy ''directional-color'' ''input'' (s_directionalColor st) s6;
               s8 = apply_if_defined ''directional-x'' ''input'' (s_directionalX st) s7;
               s9 = apply_if_defined ''directional-y'' ''input'' (s_directionalY st) s8;
               s10 = apply_if_defined ''directional-z'' ''input'' (s_directionalZ st) s9;
               s11 = apply_if_defined ''fill-intensity'' ''input'' (s_fillIntensity st) s10;
               s12 = apply_if_truthy ''fill-color'' ''input'' (s_fillColor st) s11;
               s13 = apply_if_defined ''point-intensity'' ''input'' (s_pointIntensity st) s12;
               s14 = apply_if_truthy ''point-color'' ''input'' (s_pointColor st) s13;
               s15 = (if truthy (s_environmentType st)
                      then apply_control ''environment-type'' ''change'' (s_environmentType st) s14
                      else apply_control ''environment-type'' ''change'' (JString ''hdri'') s14);
               s16 = apply_if_defined ''env-intensity'' ''input'' (s_envIntensity st) s15;
               s17 = (case s_sceneData st of
                        Some sd \<Rightarrow> setTimeout (DeserializeSceneData sd) 500 s16
                      | None \<Rightarrow> s16);
               s18 = apply_collapsed ''load-panel'' (s_loadPanelCollapsed st) s17;
               s19 = apply_collapsed ''lighting-panel'' (s_lightingPanelCollapsed st) s18;
               s20 = apply_collapsed ''outliner-panel'' (s_outlinerPanelCollapsed st) s19
           in apply_rightPanelCollapsed (s_rightPanelCollapsed st) s20))"

text \<open>
  \<^verbatim>\<open>reader.onload\<close> of \<^verbatim>\<open>loadSettingsFromFile\<close>. What \<^verbatim>\<open>JSON.parse\<close> makes of the
  file's text is an input: a syntax error, a falsy value, or an object with its fields.
\<close>

datatype json_parse = JsonSyntaxError | JsonFalsy | JsonObject settings

definition settings_parse_failed_message :: string where
  "settings_parse_failed_message =
     ''Failed to load settings file. Please check that it is a valid JSON file.''"

definition settings_file_read :: "json_parse \<Rightarrow> viewer \<Rightarrow> viewer" where
  "settings_file_read parsed s =
     (case parsed of
        JsonSyntaxError \<Rightarrow>
          emit [ConsoleError ''Error loading settings:'', Alert settings_parse_failed_message] s
      | JsonFalsy \<Rightarrow> emit [Alert ''Settings loaded successfully!''] (applySettings None s)
      | JsonObject st \<Rightarrow> emit [Alert ''Settings loaded successfully!''] (applySettings (Some st) s))"

subsection \<open>Notions for the statements about loading\<close>

text \<open>
  A trace disposes of a model when it holds the disposal of the geometry of every mesh
  of the model, of each of the mesh's materials, and of every texture in the six slots
  of each such material.
\<close>

definition disposes_material :: "(nat \<Rightarrow> material) \<Rightarrow> event list \<Rightarrow> nat \<Rightarrow> bool" where
  "disposes_material mats evs m =
     (DisposeMaterial m \<in> set evs \<and>
      list_all (\<lambda>slot. case slot of Some t \<Rightarrow> DisposeTexture t \<in> set evs | None \<Rightarrow> True)
               (texture_maps (mats m)))"

definition disposes_mesh :: "(nat \<Rightarrow> material) \<Rightarrow> event list \<Rightarrow> object3d_data \<Rightarrow> bool" where
  "disposes_mesh mats evs child =
     ((case geometry child of Some g \<Rightarrow> DisposeGeometry g \<in> set evs | None \<Rightarrow> True) \<and>
      list_all (disposes_material mats evs) (materials_of (material child)))"

definition disposes_model :: "(nat \<Rightarrow> material) \<Rightarrow> event list \<Rightarrow> object3d \<Rightarrow> bool" where
  "disposes_model mats evs model = list_all (disposes_mesh mats evs) (filter isMesh (traverse model))"

definition is_SceneAdd :: "event \<Rightarrow> bool" where
  "is_SceneAdd ev = (case ev of SceneAdd _ \<Rightarrow> True | _ \<Rightarrow> False)"

definition replaces_model :: "load_path \<Rightarrow> bool" where
  "replaces_model path = (case path of LoadModel \<Rightarrow> False | _ \<Rightarrow> True)"

subsection \<open>Notions for the statements about the loader\<close>

text \<open>
  The visits of a state-passing traversal, on the list of the visited objects.
\<close>

fun visit_all ::
    "('s \<Rightarrow> object3d_data \<Rightarrow> object3d_data \<times> 's) \<Rightarrow> 's \<Rightarrow> object3d_data list \<Rightarrow> object3d_data list \<times> 's" where
  "visit_all f st [] = ([], st)"
| "visit_all f st (d # ds) =
     (let (d', st1) = f st d; (ds', st2) = visit_all f st1 ds in (d' # ds', st2))"

text \<open>
  What the specification says a model loader leaves behind, for a loaded scene
  \<^verbatim>\<open>gltf_scene\<close>, the material store \<^verbatim>\<open>mats\<close>, the model \<^verbatim>\<open>loaded\<close> and the part data \<^verbatim>\<open>pd\<close>
  after the load; \<^verbatim>\<open>named\<close> says which raw names count as names.
\<close>

definition centred_and_scaled :: "three \<Rightarrow> object3d \<Rightarrow> object3d \<Rightarrow> bool" where
  "centred_and_scaled lib gltf_scene loaded =
     (position (root loaded) = neg_vec3 (box_center lib gltf_scene) \<and>
      scale (root loaded) = \<lparr>vx = 40, vy = 40, vz = 40\<rparr>)"

definition materials_canonical :: "(nat \<Rightarrow> material) \<Rightarrow> object3d \<Rightarrow> bool" where
  "materials_canonical mats loaded =
     list_all (\<lambda>child. list_all (\<lambda>m. is_canonical (mats m)) (materials_of (material child)))
              (filter isMesh (traverse loaded))"

text \<open>
  What has become of the materials of a mesh: at each place of its material list, a
  material that was canonical before the load is kept (the same address stands there),
  and any other material has given way to a MeshStandardMaterial.
\<close>

definition slot_converted :: "(nat \<Rightarrow> material) \<Rightarrow> (nat \<Rightarrow> material) \<Rightarrow> nat \<Rightarrow> nat \<Rightarrow> bool" where
  "slot_converted mats_before mats m m' =
     (if is_canonical (mats_before m) then m' = m else kind (mats m') = MeshStandardMaterial)"

definition mesh_converted ::
    "(nat \<Rightarrow> material) \<Rightarrow> (nat \<Rightarrow> material) \<Rightarrow> object3d_data \<Rightarrow> object3d_data \<Rightarrow> bool" where
  "mesh_converted mats_before mats before after =
     list_all2 (slot_converted mats_before mats)
               (materials_of (material before)) (materials_of (material after))"

text \<open>The converted model has the objects of the loaded scene, mesh by mesh converted.\<close>

definition materials_converted ::
    "(nat \<Rightarrow> material) \<Rightarrow> (nat \<Rightarrow> material) \<Rightarrow> object3d \<Rightarrow> object3d \<Rightarrow> bool" where
  "materials_converted mats_before mats gltf_scene loaded =
     list_all2 (\<lambda>before after. isMesh before \<longrightarrow> mesh_converted mats_before mats before after)
               (traverse gltf_scene) (traverse loaded)"

definition parts_tagged ::
    "(jsstring \<Rightarrow> jsstring) \<Rightarrow> (jsstring \<Rightarrow> bool) \<Rightarrow> (string \<rightharpoonup> part_info) \<Rightarrow> object3d \<Rightarrow> bool" where
  "parts_tagged lower named pd loaded =
     list_all (\<lambda>child. named (name child) \<longrightarrow>
                 userData_partInfo child = Some (part_info_for lower (name child)) \<and>
                 pd (uuid child) = Some (part_info_for lower (name child)))
              (filter isMesh (traverse loaded))"

definition loader_contract ::
    "(jsstring \<Rightarrow> bool) \<Rightarrow> three \<Rightarrow> (nat \<Rightarrow> material) \<Rightarrow> object3d \<Rightarrow>
     (nat \<Rightarrow> material) \<Rightarrow> object3d option \<Rightarrow> (string \<rightharpoonup> part_info) \<Rightarrow> bool" where
  "loader_contract named lib mats_before gltf_scene mats loaded pd =
     (case loaded of
        None \<Rightarrow> False
      | Some model \<Rightarrow>
          centred_and_scaled lib gltf_scene model \<and>
          materials_canonical mats model \<and>
          materials_converted mats_before mats gltf_scene model \<and>
          parts_tagged (toLowerCase lib) named pd model)"

text \<open>A name that is not empty, and a name that is not blank.\<close>

definition nonempty_name :: "jsstring \<Rightarrow> bool" where
  "nonempty_name raw = (raw \<noteq> [])"

definition nonblank_name :: "jsstring \<Rightarrow> bool" where
  "nonblank_name raw = (raw \<noteq> [] \<and> trim raw \<noteq> [])"

text \<open>
  The identifiers of the meshes of a loaded scene are generated by the library and
  differ from one another.
\<close>

definition mesh_uuids_distinct :: "object3d \<Rightarrow> bool" where
  "mesh_uuids_distinct model = distinct (map uuid (filter isMesh (traverse model)))"

subsection \<open>Invariants of the conversion and of the tagging\<close>

text \<open>
  How the store changes during a load: a canonical material stays canonical, a
  MeshStandardMaterial stays one, and a material that becomes canonical is a
  MeshStandardMaterial.
\<close>

definition canon_le :: "(nat \<Rightarrow> material) \<Rightarrow> (nat \<Rightarrow> material) \<Rightarrow> bool" where
  "canon_le m1 m2 =
     (\<forall>i. (is_canonical (m1 i) \<longrightarrow> is_canonical (m2 i)) \<and>
          (kind (m1 i) = MeshStandardMaterial \<longrightarrow> kind (m2 i) = MeshStandardMaterial) \<and>
          (\<not> is_canonical (m1 i) \<and> is_canonical (m2 i) \<longrightarrow> kind (m2 i) = MeshStandardMaterial))"

text \<open>
  What converting the materials of one mesh ensures: as many addresses as before, all of
  them canonical in the new store, those that were canonical at the start unchanged, and
  a MeshStandardMaterial in the place of every other.
\<close>

definition convert_each_ok ::
    "(nat \<Rightarrow> material) \<Rightarrow> (nat \<Rightarrow> material) \<Rightarrow> nat list \<Rightarrow> nat list \<times> mat_store \<Rightarrow> bool" where
  "convert_each_ok mats0 mats ms res =
     (length (fst res) = length ms \<and>
      canon_le mats (fst (snd res)) \<and>
      (\<forall>m \<in> set (fst res). is_canonical (fst (snd res) m)) \<and>
      list_all2 (slot_converted mats0 (fst (snd res))) ms (fst res))"

text \<open>What the conversion does to one visited object.\<close>

definition converted ::
    "(nat \<Rightarrow> material) \<Rightarrow> (nat \<Rightarrow> material) \<Rightarrow> object3d_data \<Rightarrow> object3d_data \<Rightarrow> bool" where
  "converted mats0 mats' before after =
     (after\<lparr>material := material before\<rparr> = before \<and>
      (isMesh before \<longrightarrow>
         mesh_converted mats0 mats' before after \<and>
         (\<forall>m \<in> set (materials_of (material after)). is_canonical (mats' m))))"

text \<open>What the tagging does to one visited object.\<close>

definition tagged_obj :: "(jsstring \<Rightarrow> jsstring) \<Rightarrow> object3d_data \<Rightarrow> object3d_data" where
  "tagged_obj lower d =
     (if isMesh d \<and> nonblank_name (name d)
      then d\<lparr>userData_partInfo := Some (part_info_for lower (name d))\<rparr> else d)"

text \<open>Two objects with the same mesh flag, material, name and identifier.\<close>

definition same_shape :: "object3d_data \<Rightarrow> object3d_data \<Rightarrow> bool" where
  "same_shape b p = (isMesh p = isMesh b \<and> material p = material b \<and> name p = name b \<and> uuid p = uuid b)"

text \<open>A project of the generic viewer before its model has arrived.\<close>

definition empty_project :: project where
  "empty_project =
     \<lparr>project_scene = [], project_model = None, mixer = None, project_alerts = [],
      project_uncaught = []\<rparr>"

subsection \<open>Notions for the statement about the settings\<close>

definition ambient_intensity :: "viewer \<Rightarrow> jsnum option" where
  "ambient_intensity s = map_option intensity (ambientLight s)"

text \<open>The settings object of a file that holds \<^verbatim>\<open>{}\<close>.\<close>

definition no_settings :: settings where
  "no_settings =
     \<lparr>s_backgroundType = JUndefined, s_backgroundColor = JUndefined, s_backgroundIntensity = JUndefined,
      s_ambientIntensity = JUndefined, s_ambientColor = JUndefined, s_directionalIntensity = JUndefined,
      s_directionalColor = JUndefined, s_directionalX = JUndefined, s_directionalY = JUndefined,
      s_directionalZ = JUndefined, s_fillIntensity = JUndefined, s_fillColor = JUndefined,
      s_pointIntensity = JUndefined, s_pointColor = JUndefined, s_environmentType = JUndefined,
      s_envIntensity = JUndefined, s_sceneData = None, s_loadPanelCollapsed = JUndefined,
      s_lightingPanelCollapsed = JUndefined, s_outlinerPanelCollapsed = JUndefined,
      s_rightPanelCollapsed = JUndefined\<rparr>"

subsection \<open>Notions for the statement about the scene data\<close>

text \<open>
  The scene data are written for one viewer and read back into another state of it.
  Between the two the model is the same object graph when the traversal finds the same
  identifiers, mesh flags and material lists at the same places; the other fields of the
  objects and the fields of the materials may have changed.
\<close>

definition same_objects :: "object3d \<Rightarrow> object3d \<Rightarrow> bool" where
  "same_objects model model' =
     list_all2 (\<lambda>a b. uuid b = uuid a \<and> isMesh b = isMesh a \<and> material b = material a)
               (traverse model) (traverse model')"

text \<open>
  A material that had a colour and an emissive colour when it was written still has
  these objects when it is read: \<^verbatim>\<open>material.color.setHex\<close> needs them.
\<close>

definition keeps_colour_objects :: "material \<Rightarrow> material \<Rightarrow> bool" where
  "keeps_colour_objects written now =
     ((color written \<noteq> None \<longrightarrow> color now \<noteq> None) \<and>
      (emissive written \<noteq> None \<longrightarrow> emissive now \<noteq> None))"

text \<open>
  A field is restored when it has the value it had when the scene data were written; a
  field that had no value then (written as \<^verbatim>\<open>null\<close>) is left alone.
\<close>

definition field_restored :: "'a option \<Rightarrow> 'a option \<Rightarrow> bool" where
  "field_restored written now = (case written of None \<Rightarrow> True | Some v \<Rightarrow> now = Some v)"

definition material_restored :: "material \<Rightarrow> material \<Rightarrow> bool" where
  "material_restored written now =
     (field_restored (color written) (color now) \<and>
      field_restored (roughness written) (roughness now) \<and>
      field_restored (metalness written) (metalness now) \<and>
      field_restored (emissive written) (emissive now) \<and>
      field_restored (emissiveIntensity written) (emissiveIntensity now) \<and>
      field_restored (opacity written) (opacity now))"

definition mesh_restored ::
    "(nat \<Rightarrow> material) \<Rightarrow> (nat \<Rightarrow> material) \<Rightarrow> object3d_data \<Rightarrow> object3d_data \<Rightarrow> bool" where
  "mesh_restored mats mats' written now =
     (position now = position written \<and> rotation now = rotation written \<and>
      scale now = scale written \<and> visible now = visible written \<and>
      list_all (\<lambda>m. material_restored (mats m) (mats' m)) (materials_of (material written)))"

text \<open>
  The scene of \<open>s'\<close> is in the state in which the scene of \<open>s\<close> was written: every mesh
  that \<^verbatim>\<open>serializeSceneData\<close> writes (a mesh with a material) is restored.
\<close>

definition scene_restored :: "viewer \<Rightarrow> viewer \<Rightarrow> bool" where
  "scene_restored s s' =
     (case (satellite s, satellite s') of
        (Some model, Some model') \<Rightarrow>
          list_all2 (\<lambda>written now. uuid now = uuid written \<and>
                       (isMesh written \<and> material written \<noteq> NoMaterial \<longrightarrow>
                          mesh_restored (materials s) (materials s') written now))
                    (traverse model) (traverse model')
      | _ \<Rightarrow> False)"

text \<open>
  A material, a mesh and a model have the state that the scene data record: the colours
  by their text, the other fields by their value.
\<close>

definition material_matches :: "material \<Rightarrow> material_data \<Rightarrow> bool" where
  "material_matches mat materialData =
     (map_option css_color (color mat) = md_color materialData \<and>
      roughness mat = md_roughness materialData \<and>
      metalness mat = md_metalness materialData \<and>
      map_option css_color (emissive mat) = md_emissive materialData \<and>
      emissiveIntensity mat = md_emissiveIntensity materialData \<and>
      opacity mat = md_opacity materialData)"

definition mesh_matches :: "(nat \<Rightarrow> material) \<Rightarrow> object3d_data \<Rightarrow> object_data \<Rightarrow> bool" where
  "mesh_matches mats child objectData =
     (uuid child = od_uuid objectData \<and>
      Some (position child) = od_position objectData \<and>
      Some (rotation child) = od_rotation objectData \<and>
      Some (scale child) = od_scale objectData \<and>
      Some (visible child) = od_visible objectData \<and>
      list_all2 (\<lambda>m materialData. material_matches (mats m) materialData)
                (materials_of (material child)) (od_materials objectData))"

definition scene_matches :: "viewer \<Rightarrow> scene_data \<Rightarrow> bool" where
  "scene_matches s sceneData =
     (case (satellite s, sd_objects sceneData) of
        (Some model, Some objs) \<Rightarrow> list_all2 (mesh_matches (materials s)) (serialized_meshes model) objs
      | _ \<Rightarrow> False)"

subsection \<open>An example scene\<close>

text \<open>
  A small model for the closed instances of the theorems: a group with two meshes, one
  named and with a standard material that carries textures, one with a blank name and
  two materials, the first of a kind that the loader converts.
\<close>

definition example_materials :: "nat \<Rightarrow> material" where
  "example_materials =
     (\<lambda>_. default_material)
       (1 := default_material\<lparr>mat_name := ''Panel_01-Solar_Panel_Cell_Material_UV'', mat_uuid := ''mat-1'',
                               color := Some 0x102030, opacity := Some 0.5,
                               map_tex := Some 7, roughnessMap := Some 8, metalnessMap := Some 8\<rparr>,
        2 := \<lparr>kind = OtherMaterial ''MeshBasicMaterial'', mat_name = ''Basic'', mat_uuid = ''mat-2'',
               color = Some 0xff0000, roughness = None, metalness = None, emissive = None,
               emissiveIntensity = None, opacity = Some 1, transparent = False,
               map_tex = Some 9, normalMap = None, roughnessMap = None, metalnessMap = None,
               aoMap = None, emissiveMap = None, side = Some 0, alphaTest = Some 0,
               depthTest = Some True, depthWrite = Some True, envMapIntensity = None,
               needsUpdate = False\<rparr>)"

definition example_object :: object3d_data where
  "example_object =
     \<lparr>uuid = ''root'', name = [], isMesh = False,
      position = \<lparr>vx = 0, vy = 0, vz = 0\<rparr>, rotation = \<lparr>vx = 0, vy = 0, vz = 0\<rparr>,
      scale = \<lparr>vx = 1, vy = 1, vz = 1\<rparr>, visible = True, castShadow = False,
      geometry = None, material = NoMaterial, userData_partInfo = None\<rparr>"

definition example_model :: object3d where
  "example_model =
     Object3D example_object
       [Object3D (example_object\<lparr>uuid := ''mesh-1'', name := units ''Panel_01'', isMesh := True,
                                  position := \<lparr>vx = 1, vy = 2, vz = 3\<rparr>,
                                  geometry := Some 11, material := SingleMaterial 1\<rparr>) [],
        Object3D (example_object\<lparr>uuid := ''mesh-2'', name := units '' '', isMesh := True,
                                  visible := False,
                                  geometry := Some 12, material := MaterialArray [2, 1]\<rparr>) []]"

definition example_lib :: three where
  "example_lib =
     \<lparr>intersectObject = (\<lambda>_ _. []), worldToLocal = (\<lambda>_ p. p),
      box_center = (\<lambda>_. \<lparr>vx = 1, vy = 2, vz = 3\<rparr>),
      generateUUID = (\<lambda>n. ''generated-'' @ show_nat n),
      toLowerCase = toLowerCase_latin1\<rparr>"

text \<open>The viewer with the example model in place, and after the loader has processed it.\<close>

definition example_viewer :: viewer where
  "example_viewer =
     (after_init blank_page 0)
       \<lparr>scene := scene (after_init blank_page 0) @ [model_ref example_model],
        satellite := Some example_model,
        materials := example_materials,
        next_material := 3\<rparr>"

definition example_loaded :: viewer where
  "example_loaded =
     model_loaded example_lib LoadModel example_model
       ((loadModel (after_init blank_page 0))\<lparr>materials := example_materials, next_material := 3\<rparr>)"

definition example_click :: dblclick where
  "example_click =
     \<lparr>clientX = 10, clientY = 20, rect_left = 0, rect_top = 0, rect_width = 800, rect_height = 600\<rparr>"

text \<open>
  The example viewer after its meshes have been moved and hidden or shown, and its
  materials recoloured and made rough and opaque.
\<close>

definition example_moved :: viewer where
  "example_moved =
     example_viewer
       \<lparr>satellite :=
          Some (map_object3d (\<lambda>d. d\<lparr>position := \<lparr>vx = 9, vy = 8, vz = 7\<rparr>,
                                     rotation := \<lparr>vx = 1, vy = 1, vz = 1\<rparr>,
                                     scale := \<lparr>vx = 2, vy = 2, vz = 2\<rparr>,
                                     visible := \<not> visible d\<rparr>) example_model),
        materials :=
          (\<lambda>m. (example_materials m)\<lparr>color := Some 0x00ff00, roughness := Some 1,
                                       metalness := Some 1, opacity := Some 1\<rparr>)\<rparr>"

text \<open>
  A file is chosen while the initial load is still under way; the initial load then
  succeeds, and the load of the file fails.
\<close>

definition example_race :: viewer where
  "example_race =
     model_load_failed (LoadModelFromFile ''blob:model'')
       (model_loaded example_lib LoadModel example_model
          (loadModelFromFile ''blob:model''
             ((loadModel (after_init blank_page 0))\<lparr>materials := example_materials, next_material := 3\<rparr>)))"

section \<open>Theorems\<close>

subsection \<open>The side panel\<close>

lemma toggleRightPanel_collapsed:
  assumes "rightPanel s = Some p"
  shows "\<exists>s1. toggleRightPanel s = Inr s1 \<and>
           panel_collapsed s1 = Some (\<not> classList_contains (classList p) ''collapsed'') \<and>
           textContent (rightPanelToggle s1)
             = arrow_for (\<not> classList_contains (classList p) ''collapsed'')"
  using assms
  by (simp add: toggleRightPanel_def classList_toggle_def panel_collapsed_def arrow_for_def
      classList_contains_def resetPartPreset_def Let_def)

text \<open>
  C7. Toggling the right side panel twice returns it to its original state: for every
  state in which the panel element exists, two successive calls of
  \<^verbatim>\<open>toggleRightPanel\<close> both return, the panel's collapsed flag (presence of the class
  \<^verbatim>\<open>collapsed\<close>) equals its initial value, and the toggle button's text is the arrow
  belonging to that state.
\<close>

theorem toggleRightPanel_twice:
  assumes "panel_collapsed s = Some c"
  shows "\<exists>s2. toggle_twice s = Inr s2 \<and> panel_collapsed s2 = Some c \<and>
           textContent (rightPanelToggle s2) = arrow_for c"
proof -
  from assms obtain p where p: "rightPanel s = Some p"
    and c: "c = classList_contains (classList p) ''collapsed''"
    by (auto simp: panel_collapsed_def)
  from toggleRightPanel_collapsed [OF p] obtain s1 where
    s1: "toggleRightPanel s = Inr s1" "panel_collapsed s1 = Some (\<not> c)"
    by (auto simp: c)
  from s1(2) obtain p1 where p1: "rightPanel s1 = Some p1"
    and c1: "(\<not> c) = classList_contains (classList p1) ''collapsed''"
    by (auto simp: panel_collapsed_def)
  from toggleRightPanel_collapsed [OF p1] obtain s2 where
    "toggleRightPanel s1 = Inr s2" "panel_collapsed s2 = Some c"
    "textContent (rightPanelToggle s2) = arrow_for c"
    using c1 by auto
  with s1(1) show ?thesis by (simp add: toggle_twice_def)
qed

theorem toggleRightPanel_twice_witness:
  "\<exists>s2. toggle_twice \<lparr>rightPanel = Some \<lparr>classList = [''collapsed''], textContent = ''''\<rparr>,
            rightPanelToggle = \<lparr>classList = [''panel-collapsed''], textContent = arrow_left\<rparr>,
            presetButtons = None, presetButtonElements = [], currentPreset = Some ''Exhaust''\<rparr>
          = Inr s2 \<and> panel_collapsed s2 = Some True \<and>
          textContent (rightPanelToggle s2) = arrow_left"
  using toggleRightPanel_twice [of
      "\<lparr>rightPanel = Some \<lparr>classList = [''collapsed''], textContent = ''''\<rparr>,
            rightPanelToggle = \<lparr>classList = [''panel-collapsed''], textContent = arrow_left\<rparr>,
            presetButtons = None, presetButtonElements = [], currentPreset = Some ''Exhaust''\<rparr>" True]
  by (simp add: panel_collapsed_def classList_contains_def arrow_for_def)

subsection \<open>Part names\<close>

lemma units_space: "units '' '' = [32]"
  by (simp add: units_def)

lemma set_replace_all: "set (replace_all m rep prev s) \<subseteq> set s \<union> set rep"
proof (induction m rep prev s rule: replace_all.induct)
  case (1 m rep prev)
  then show ?case by (auto split: option.splits)
next
  case (2 m rep prev c cs)
  show ?case
  proof (cases "m prev (c # cs)")
    case None
    with 2(1) show ?thesis by auto
  next
    case (Some n)
    show ?thesis
    proof (cases n)
      case 0
      with Some 2(2) show ?thesis by auto
    next
      case (Suc k)
      with Some 2(3) [of n k] have "set (replace_all m rep (Some ((c # cs) ! min k (length cs))) (drop k cs))
          \<subseteq> set (drop k cs) \<union> set rep" by simp
      moreover have "set (drop k cs) \<subseteq> set cs" by (rule set_drop_subset)
      ultimately show ?thesis using Some Suc by auto
    qed
  qed
qed

lemma set_replace: "set (replace m rep s) \<subseteq> set s \<union> set rep"
  by (simp add: replace_def set_replace_all)

lemma re_spaces_None: "re_spaces prev (c # cs) = None \<Longrightarrow> \<not> is_white_space c"
  by (auto simp: re_spaces_def Let_def split: if_splits)

lemma ws_ok_replace_all_spaces: "ws_ok (replace_all re_spaces [32] prev s)"
proof (induction re_spaces "[32::nat]" prev s rule: replace_all.induct)
  case (1 prev)
  then show ?case by (simp add: ws_ok_def re_spaces_def)
next
  case (2 prev c cs)
  show ?case
  proof (cases "re_spaces prev (c # cs)")
    case None
    with 2(1) re_spaces_None [OF None] show ?thesis by (auto simp: ws_ok_def)
  next
    case (Some n)
    show ?thesis
    proof (cases n)
      case 0
      with Some show ?thesis by (auto simp: re_spaces_def Let_def split: if_splits)
    next
      case (Suc k)
      with Some 2(3) [of n k] show ?thesis by (auto simp: ws_ok_def)
    qed
  qed
qed

lemma set_trim: "set (trim s) \<subseteq> set s"
proof -
  have "set (dropWhile is_white_space (rev (dropWhile is_white_space s)))
      \<subseteq> set (rev (dropWhile is_white_space s))"
    by (rule set_dropWhileD [THEN subsetI])
  also have "\<dots> \<subseteq> set s" using set_dropWhileD by fastforce
  finally show ?thesis by (simp add: trim_def)
qed

lemma ws_ok_replace: "ws_ok s \<Longrightarrow> ws_ok rep \<Longrightarrow> ws_ok (replace m rep s)"
  using set_replace [of m rep s] by (auto simp: ws_ok_def)

lemma ws_ok_literals:
  "ws_ok (units ''Exhaust'')" "ws_ok (units ''Crew Module Adapter'')"
  "ws_ok (units ''EUROPEAN SERVICE MODULE'')"
  "ws_ok (units ''Crew Module'')" "ws_ok (units ''Solar Arrays'')"
  by (simp_all add: ws_ok_def units_def is_white_space_def)

lemma ws_ok_rename_parts: "ws_ok s \<Longrightarrow> ws_ok (rename_parts s)"
  by (simp add: rename_parts_def Let_def ws_ok_replace ws_ok_literals)

lemma split_on_nonempty: "split_on d s \<noteq> []"
  by (induction s) (auto split: list.splits)

lemma split_on_words: "w \<in> set (split_on d s) \<Longrightarrow> d \<notin> set w \<and> set w \<subseteq> set s"
proof (induction s arbitrary: w)
  case Nil
  then show ?case by simp
next
  case (Cons c cs)
  show ?case
  proof (cases "c = d")
    case True
    with Cons show ?thesis by auto
  next
    case False
    obtain v vs where vs: "split_on d cs = v # vs"
      using split_on_nonempty [of d cs] by (cases "split_on d cs") auto
    with Cons.prems False have "w = c # v \<or> w \<in> set vs" by auto
    then show ?thesis
    proof
      assume "w = c # v"
      moreover have "d \<notin> set v \<and> set v \<subseteq> set cs" using Cons.IH [of v] vs by simp
      ultimately show ?thesis using False by auto
    next
      assume "w \<in> set vs"
      then have "d \<notin> set w \<and> set w \<subseteq> set cs" using Cons.IH [of w] vs by simp
      then show ?thesis by auto
    qed
  qed
qed

lemma word_count_append:
  "no_space w \<Longrightarrow> word_count inw (w @ r) =
     (if w = [] then word_count inw r else (if inw then 0 else 1) + word_count True r)"
  by (induction w arbitrary: inw) (auto simp: no_space_def)

lemma word_count_join:
  "\<forall>w \<in> set ws. no_space w \<Longrightarrow> word_count inw (join_with [32] ws) \<le> length ws"
proof (induction "[32::nat]" ws arbitrary: inw rule: join_with.induct)
  case 1
  then show ?case by simp
next
  case (2 w)
  then show ?case using word_count_append [of w inw "[]"] by (auto split: if_splits)
next
  case (3 w v vs)
  have sp: "is_white_space 32" by (simp add: is_white_space_def)
  have IH: "word_count False (join_with [32] (v # vs)) \<le> length (v # vs)"
    using 3 by simp
  have "word_count inw (w @ [32] @ join_with [32] (v # vs))
      \<le> 1 + word_count False (join_with [32] (v # vs))"
    using 3(2) word_count_append [of w inw "[32] @ join_with [32] (v # vs)"] sp
    by (auto split: if_splits)
  with IH show ?case by simp
qed

text \<open>
  The loop of the source against the description: once two words are kept, the first two
  do not change any more; before that, the test for the suffixes is not reached, and the
  loop keeps exactly the words whose lower-case form is new.
\<close>

lemma unique_words_prefix:
  "\<exists>r. unique_words lower ws u seen = u @ r"
  by (induction lower ws u seen rule: unique_words.induct) (auto simp: Let_def)

lemma take_2_unique_words:
  "take 2 (unique_words lower ws u seen) = take 2 (u @ remove_duplicate_words lower seen ws)"
proof (induction lower ws u seen rule: unique_words.induct)
  case (1 lower uniqueWords seen)
  then show ?case by simp
next
  case (2 lower word ws uniqueWords seen)
  show ?case
  proof (cases "length uniqueWords < 2")
    case True
    with 2 show ?thesis by (auto simp: Let_def)
  next
    case False
    obtain r where "unique_words lower (word # ws) uniqueWords seen = uniqueWords @ r"
      using unique_words_prefix by blast
    with False show ?thesis by simp
  qed
qed

lemma unique_words_first_two:
  "take 2 (unique_words lower ws [] []) = first_two_words lower ws"
  using take_2_unique_words [of lower ws "[]" "[]"] by (simp add: first_two_words_def)

lemma set_remove_duplicate_words: "set (remove_duplicate_words lower seen ws) \<subseteq> set ws"
  by (induction lower seen ws rule: remove_duplicate_words.induct) auto

lemma distinct_remove_duplicate_words:
  "distinct (map lower (remove_duplicate_words lower seen ws)) \<and>
   lower ` set (remove_duplicate_words lower seen ws) \<inter> set seen = {}"
proof (induction lower seen ws rule: remove_duplicate_words.induct)
  case (1 lower seen)
  then show ?case by simp
next
  case (2 lower seen w ws)
  then show ?case by auto
qed

lemma re_underscore_hyphen_None:
  "re_underscore_hyphen prev (c # cs) = None \<Longrightarrow> c \<noteq> 95 \<and> c \<noteq> 45"
  by (auto simp: re_underscore_hyphen_def split: if_splits)

lemma no_underscore_hyphen_replace_all:
  "95 \<notin> set (replace_all re_underscore_hyphen [32] prev s) \<and>
   45 \<notin> set (replace_all re_underscore_hyphen [32] prev s)"
proof (induction re_underscore_hyphen "[32::nat]" prev s rule: replace_all.induct)
  case (1 prev)
  then show ?case by (simp add: re_underscore_hyphen_def)
next
  case (2 prev c cs)
  show ?case
  proof (cases "re_underscore_hyphen prev (c # cs)")
    case None
    with 2(1) re_underscore_hyphen_None [OF None] show ?thesis by auto
  next
    case (Some n)
    then have n: "n = Suc 0" by (auto simp: re_underscore_hyphen_def split: if_splits)
    with Some 2(3) [of n 0] show ?thesis by auto
  qed
qed

text \<open>The definitions that evaluate \<^verbatim>\<open>formatPartName\<close> on a given name.\<close>

lemmas formatPartName_eval = formatPartName_def rename_parts_def replace_def re_word_def
  re_two_words_def re_exhaust_tail_def re_spaces_def re_underscore_hyphen_def trim_def
  wb_before_def wb_after_def is_word_char_def is_white_space_def is_decimal_digit_def
  is_line_terminator_def fold_ascii_def toLowerCase_latin1_def units_def Let_def
  part_name_stage_def first_two_words_def

lemma part_name_stage_Nil: "part_name_stage [] = []"
  by (simp add: formatPartName_eval)

lemma formatPartName_stage:
  "formatPartName lower nm = join_with [32] (first_two_words lower (split_on 32 (part_name_stage nm)))"
proof (cases "nm = []")
  case True
  then show ?thesis
    by (simp add: formatPartName_def part_name_stage_Nil first_two_words_def)
next
  case False
  then show ?thesis
    by (simp add: formatPartName_def part_name_stage_def Let_def units_space unique_words_first_two)
qed

lemma ws_ok_stage: "ws_ok (part_name_stage nm)"
proof -
  have "ws_ok (replace re_spaces [32] (replace re_underscore_hyphen [32] nm))"
    by (simp add: replace_def ws_ok_replace_all_spaces)
  then have "ws_ok (trim (replace re_spaces [32] (replace re_underscore_hyphen [32] nm)))"
    using set_trim by (fastforce simp: ws_ok_def)
  then show ?thesis by (simp add: part_name_stage_def units_space ws_ok_rename_parts)
qed

lemma no_underscore_hyphen_replace:
  "no_underscore_hyphen s \<Longrightarrow> no_underscore_hyphen rep \<Longrightarrow> no_underscore_hyphen (replace m rep s)"
  using set_replace [of m rep s] by (auto simp: no_underscore_hyphen_def)

lemma no_underscore_hyphen_literals:
  "no_underscore_hyphen (units ''Exhaust'')" "no_underscore_hyphen (units ''Crew Module Adapter'')"
  "no_underscore_hyphen (units ''EUROPEAN SERVICE MODULE'')"
  "no_underscore_hyphen (units ''Crew Module'')" "no_underscore_hyphen (units ''Solar Arrays'')"
  "no_underscore_hyphen [32]"
  by (simp_all add: no_underscore_hyphen_def units_def)

lemma no_underscore_hyphen_rename_parts:
  "no_underscore_hyphen s \<Longrightarrow> no_underscore_hyphen (rename_parts s)"
  by (simp add: rename_parts_def Let_def no_underscore_hyphen_replace no_underscore_hyphen_literals)

lemma no_underscore_hyphen_stage: "no_underscore_hyphen (part_name_stage nm)"
proof -
  let ?s1 = "replace re_underscore_hyphen [32] nm"
  have "no_underscore_hyphen ?s1"
    by (simp add: replace_def no_underscore_hyphen_def no_underscore_hyphen_replace_all)
  then have "no_underscore_hyphen (replace re_spaces [32] ?s1)"
    by (simp add: no_underscore_hyphen_replace no_underscore_hyphen_literals)
  then have "no_underscore_hyphen (trim (replace re_spaces [32] ?s1))"
    using set_trim [of "replace re_spaces [32] ?s1"] by (auto simp: no_underscore_hyphen_def)
  then show ?thesis
    unfolding part_name_stage_def units_space by (rule no_underscore_hyphen_rename_parts)
qed

lemma set_join_with: "set (join_with d vs) \<subseteq> set d \<union> \<Union> (set ` set vs)"
  by (induction d vs rule: join_with.induct) auto


text \<open>
  C9. For every input string and whatever \<^verbatim>\<open>toLowerCase\<close> is, \<^verbatim>\<open>formatPartName\<close> returns
  a string of at most two white-space separated words, without underscore and hyphen.
  The result is the join, by single spaces, of the words that the description names:
  the words of the renamed string between its spaces, without those whose lower-case
  form has occurred before, and of these the first two. These words hold no white
  space, and their lower-case forms differ. The renames give \<^verbatim>\<open>Solar Arrays\<close> for
  \<^verbatim>\<open>panel\<close>, \<^verbatim>\<open>Crew Module\<close> for the heat shield and \<^verbatim>\<open>Exhaust\<close> for the exhaust
  variants, and \<^verbatim>\<open>Tank_tank_Valve\<close> loses its second word to the first. The indicator
  title is such a result (\<^verbatim>\<open>showIndicator\<close> formats the stored name again), so it has
  at most two words.
\<close>

theorem formatPartName_two_words:
  "word_count False (formatPartName lower nm) \<le> 2 \<and>
   95 \<notin> set (formatPartName lower nm) \<and> 45 \<notin> set (formatPartName lower nm) \<and>
   (\<exists>ws. ws = first_two_words lower (split_on 32 (part_name_stage nm)) \<and>
         formatPartName lower nm = join_with (units '' '') ws \<and> length ws \<le> 2 \<and>
         list_all no_space ws \<and> distinct (map lower ws)) \<and>
   formatPartName toLowerCase_latin1 (units ''panel'') = units ''Solar Arrays'' \<and>
   formatPartName toLowerCase_latin1 (units ''HEAT_Shield-Heat_Shield_Metal_UV'') = units ''Crew Module'' \<and>
   formatPartName toLowerCase_latin1 (units ''Exhaust02'') = units ''Exhaust'' \<and>
   formatPartName toLowerCase_latin1 (units ''Exhaust01_Exhaust_Metal_UV'') = units ''Exhaust'' \<and>
   formatPartName toLowerCase_latin1 (units ''Tank_tank_Valve'') = units ''Tank Valve''"
proof -
  let ?words = "split_on 32 (part_name_stage nm)"
  let ?ws = "first_two_words lower ?words"
  have eq: "formatPartName lower nm = join_with [32] ?ws" by (rule formatPartName_stage)
  have sub: "set ?ws \<subseteq> set ?words"
    using set_remove_duplicate_words [of lower "[]" ?words]
      set_take_subset [of 2 "remove_duplicate_words lower [] ?words"]
    by (auto simp: first_two_words_def)
  have w: "32 \<notin> set w \<and> set w \<subseteq> set (part_name_stage nm)" if "w \<in> set ?ws" for w
    using that sub split_on_words by blast
  have ns: "\<forall>w \<in> set ?ws. no_space w"
  proof
    fix w assume "w \<in> set ?ws"
    from w [OF this] ws_ok_stage [of nm] show "no_space w"
      by (auto simp: no_space_def ws_ok_def)
  qed
  have len: "length ?ws \<le> 2" by (simp add: first_two_words_def)
  have "word_count False (join_with [32] ?ws) \<le> length ?ws" using ns by (rule word_count_join)
  then have c1: "word_count False (formatPartName lower nm) \<le> 2" using eq len by simp
  from set_join_with [of "[32]" ?ws] w no_underscore_hyphen_stage [of nm]
  have c2: "95 \<notin> set (formatPartName lower nm) \<and> 45 \<notin> set (formatPartName lower nm)"
    unfolding eq no_underscore_hyphen_def by fastforce
  have "distinct (map lower (remove_duplicate_words lower [] ?words))"
    using distinct_remove_duplicate_words [of lower "[]" ?words] by simp
  then have dist: "distinct (map lower ?ws)"
    by (simp add: first_two_words_def take_map [symmetric] distinct_take)
  have c3: "\<exists>ws. ws = ?ws \<and> formatPartName lower nm = join_with (units '' '') ws \<and> length ws \<le> 2 \<and>
         list_all no_space ws \<and> distinct (map lower ws)"
    using eq len ns dist by (simp add: units_space list_all_iff)
  have e1: "formatPartName toLowerCase_latin1 (units ''panel'') = units ''Solar Arrays''" by (simp add: formatPartName_eval)
  have e2: "formatPartName toLowerCase_latin1 (units ''HEAT_Shield-Heat_Shield_Metal_UV'') = units ''Crew Module''"
    by (simp add: formatPartName_eval)
  have e3: "formatPartName toLowerCase_latin1 (units ''Exhaust02'') = units ''Exhaust''" by (simp add: formatPartName_eval)
  have e4: "formatPartName toLowerCase_latin1 (units ''Exhaust01_Exhaust_Metal_UV'') = units ''Exhaust''"
    by (simp add: formatPartName_eval)
  have e5: "formatPartName toLowerCase_latin1 (units ''Tank_tank_Valve'') = units ''Tank Valve''" by (simp add: formatPartName_eval)
  from c1 c2 c3 e1 e2 e3 e4 e5 show ?thesis by blast
qed

text \<open>The theorem at a name with a repeated word; the description keeps two of its three words.\<close>

theorem formatPartName_two_words_witness:
  "word_count False (formatPartName toLowerCase_latin1 (units ''Tank_tank_Valve'')) \<le> 2 \<and>
   first_two_words toLowerCase_latin1 (split_on 32 (part_name_stage (units ''Tank_tank_Valve'')))
     = [units ''Tank'', units ''Valve''] \<and>
   formatPartName toLowerCase_latin1 (units ''Tank_tank_Valve'')
     = join_with (units '' '') [units ''Tank'', units ''Valve'']"
proof -
  have ws: "first_two_words toLowerCase_latin1 (split_on 32 (part_name_stage (units ''Tank_tank_Valve'')))
      = [units ''Tank'', units ''Valve'']" by (simp add: formatPartName_eval)
  from formatPartName_two_words [of toLowerCase_latin1 "units ''Tank_tank_Valve''"]
  have "word_count False (formatPartName toLowerCase_latin1 (units ''Tank_tank_Valve'')) \<le> 2"
    and "formatPartName toLowerCase_latin1 (units ''Tank_tank_Valve'')
      = join_with (units '' '')
          (first_two_words toLowerCase_latin1 (split_on 32 (part_name_stage (units ''Tank_tank_Valve''))))"
    by blast+
  with ws show ?thesis by simp
qed

subsection \<open>The estimate upload\<close>

text \<open>
  C8. When the promise chain of the POST to the estimate endpoint rejects (the request
  fails, the body is no form data, or the callback throws on a missing mesh), the
  handler's whole trace is the one request followed by one console line carrying the
  rejection reason: no dialog, no second request, and \<^verbatim>\<open>initProject\<close> is not called.
\<close>

theorem handleDrop_failure_logged_only:
  assumes "estimate_chain env = Inl reason"
  shows "handleDrop env =
           [FetchPost estimate_endpoint
              (case dropped_file env of None \<Rightarrow> ''undefined'' | Some file \<Rightarrow> file),
            ConsoleLogError reason] \<and>
         length (filter is_FetchPost (handleDrop env)) = 1 \<and>
         filter is_AlertDialog (handleDrop env) = [] \<and>
         filter is_InitProject (handleDrop env) = []"
  using assms
  by (simp add: handleDrop_def is_FetchPost_def is_AlertDialog_def is_InitProject_def)

theorem handleDrop_failure_logged_only_witness:
  "estimate_chain \<lparr>dropped_file = Some ''ring.jpg'', fetch_outcome = FetchRejected ''Failed to fetch'',
       read_outcome = ReadFailed, canvas_global = Some ''canvas''\<rparr> = Inl ''Failed to fetch'' \<and>
   handleDrop \<lparr>dropped_file = Some ''ring.jpg'', fetch_outcome = FetchRejected ''Failed to fetch'',
       read_outcome = ReadFailed, canvas_global = Some ''canvas''\<rparr>
     = [FetchPost estimate_endpoint ''ring.jpg'', ConsoleLogError ''Failed to fetch'']"
proof -
  let ?env = "\<lparr>dropped_file = Some ''ring.jpg'', fetch_outcome = FetchRejected ''Failed to fetch'',
       read_outcome = ReadFailed, canvas_global = Some ''canvas''\<rparr>"
  have h: "estimate_chain ?env = Inl ''Failed to fetch''"
    by (simp add: estimate_chain_def)
  from handleDrop_failure_logged_only [OF h] h show ?thesis by simp
qed

subsection \<open>What the small state changes leave alone\<close>

lemma emit_frame [simp]:
  "scene (emit evs s) = scene s"
  "satellite (emit evs s) = satellite s"
  "materials (emit evs s) = materials s"
  "next_material (emit evs s) = next_material s"
  "textures (emit evs s) = textures s"
  "partData (emit evs s) = partData s"
  "selectedPart (emit evs s) = selectedPart s"
  "selectedObject (emit evs s) = selectedObject s"
  "selectedIntersectionPoint (emit evs s) = selectedIntersectionPoint s"
  "lastIntersectionPoint (emit evs s) = lastIntersectionPoint s"
  "isRotationPaused (emit evs s) = isRotationPaused s"
  "connectionLine (emit evs s) = connectionLine s"
  "connectionMarker (emit evs s) = connectionMarker s"
  "mouse (emit evs s) = mouse s"
  "ambientLight (emit evs s) = ambientLight s"
  "directionalLight (emit evs s) = directionalLight s"
  "fillLight (emit evs s) = fillLight s"
  "pointLight (emit evs s) = pointLight s"
  "initial_directional (emit evs s) = initial_directional s"
  "initial_fill (emit evs s) = initial_fill s"
  "initial_point (emit evs s) = initial_point s"
  "rotationTime (emit evs s) = rotationTime s"
  "lastFrameTime (emit evs s) = lastFrameTime s"
  "backgroundIntensity (emit evs s) = backgroundIntensity s"
  "currentEnvIntensity (emit evs s) = currentEnvIntensity s"
  "environmentMap (emit evs s) = environmentMap s"
  "dom (emit evs s) = dom s"
  "timers (emit evs s) = timers s"
  by (simp_all add: emit_def)

lemma setTimeout_frame [simp]:
  "scene (setTimeout t d s) = scene s"
  "satellite (setTimeout t d s) = satellite s"
  "materials (setTimeout t d s) = materials s"
  "next_material (setTimeout t d s) = next_material s"
  "textures (setTimeout t d s) = textures s"
  "partData (setTimeout t d s) = partData s"
  "selectedPart (setTimeout t d s) = selectedPart s"
  "selectedObject (setTimeout t d s) = selectedObject s"
  "selectedIntersectionPoint (setTimeout t d s) = selectedIntersectionPoint s"
  "lastIntersectionPoint (setTimeout t d s) = lastIntersectionPoint s"
  "isRotationPaused (setTimeout t d s) = isRotationPaused s"
  "connectionLine (setTimeout t d s) = connectionLine s"
  "connectionMarker (setTimeout t d s) = connectionMarker s"
  "mouse (setTimeout t d s) = mouse s"
  "ambientLight (setTimeout t d s) = ambientLight s"
  "directionalLight (setTimeout t d s) = directionalLight s"
  "fillLight (setTimeout t d s) = fillLight s"
  "pointLight (setTimeout t d s) = pointLight s"
  "initial_directional (setTimeout t d s) = initial_directional s"
  "initial_fill (setTimeout t d s) = initial_fill s"
  "initial_point (setTimeout t d s) = initial_point s"
  "rotationTime (setTimeout t d s) = rotationTime s"
  "lastFrameTime (setTimeout t d s) = lastFrameTime s"
  "backgroundIntensity (setTimeout t d s) = backgroundIntensity s"
  "currentEnvIntensity (setTimeout t d s) = currentEnvIntensity s"
  "environmentMap (setTimeout t d s) = environmentMap s"
  "dom (setTimeout t d s) = dom s"
  "events (setTimeout t d s) = events s"
  by (simp_all add: setTimeout_def)

lemma add_class_frame [simp]:
  "scene (add_class el tok s) = scene s"
  "satellite (add_class el tok s) = satellite s"
  "materials (add_class el tok s) = materials s"
  "next_material (add_class el tok s) = next_material s"
  "textures (add_class el tok s) = textures s"
  "partData (add_class el tok s) = partData s"
  "selectedPart (add_class el tok s) = selectedPart s"
  "selectedObject (add_class el tok s) = selectedObject s"
  "selectedIntersectionPoint (add_class el tok s) = selectedIntersectionPoint s"
  "lastIntersectionPoint (add_class el tok s) = lastIntersectionPoint s"
  "isRotationPaused (add_class el tok s) = isRotationPaused s"
  "connectionLine (add_class el tok s) = connectionLine s"
  "connectionMarker (add_class el tok s) = connectionMarker s"
  "mouse (add_class el tok s) = mouse s"
  "ambientLight (add_class el tok s) = ambientLight s"
  "directionalLight (add_class el tok s) = directionalLight s"
  "fillLight (add_class el tok s) = fillLight s"
  "pointLight (add_class el tok s) = pointLight s"
  "initial_directional (add_class el tok s) = initial_directional s"
  "initial_fill (add_class el tok s) = initial_fill s"
  "initial_point (add_class el tok s) = initial_point s"
  "rotationTime (add_class el tok s) = rotationTime s"
  "lastFrameTime (add_class el tok s) = lastFrameTime s"
  "backgroundIntensity (add_class el tok s) = backgroundIntensity s"
  "currentEnvIntensity (add_class el tok s) = currentEnvIntensity s"
  "environmentMap (add_class el tok s) = environmentMap s"
  "events (add_class el tok s) = events s"
  "timers (add_class el tok s) = timers s"
  by (simp_all add: add_class_def)

lemma remove_class_frame [simp]:
  "scene (remove_class el tok s) = scene s"
  "satellite (remove_class el tok s) = satellite s"
  "materials (remove_class el tok s) = materials s"
  "next_material (remove_class el tok s) = next_material s"
  "textures (remove_class el tok s) = textures s"
  "partData (remove_class el tok s) = partData s"
  "selectedPart (remove_class el tok s) = selectedPart s"
  "selectedObject (remove_class el tok s) = selectedObject s"
  "selectedIntersectionPoint (remove_class el tok s) = selectedIntersectionPoint s"
  "lastIntersectionPoint (remove_class el tok s) = lastIntersectionPoint s"
  "isRotationPaused (remove_class el tok s) = isRotationPaused s"
  "connectionLine (remove_class el tok s) = connectionLine s"
  "connectionMarker (remove_class el tok s) = connectionMarker s"
  "mouse (remove_class el tok s) = mouse s"
  "ambientLight (remove_class el tok s) = ambientLight s"
  "directionalLight (remove_class el tok s) = directionalLight s"
  "fillLight (remove_class el tok s) = fillLight s"
  "pointLight (remove_class el tok s) = pointLight s"
  "initial_directional (remove_class el tok s) = initial_directional s"
  "initial_fill (remove_class el tok s) = initial_fill s"
  "initial_point (remove_class el tok s) = initial_point s"
  "rotationTime (remove_class el tok s) = rotationTime s"
  "lastFrameTime (remove_class el tok s) = lastFrameTime s"
  "backgroundIntensity (remove_class el tok s) = backgroundIntensity s"
  "currentEnvIntensity (remove_class el tok s) = currentEnvIntensity s"
  "environmentMap (remove_class el tok s) = environmentMap s"
  "events (remove_class el tok s) = events s"
  "timers (remove_class el tok s) = timers s"
  by (simp_all add: remove_class_def)

lemma set_text_frame [simp]:
  "scene (set_text el t s) = scene s"
  "satellite (set_text el t s) = satellite s"
  "materials (set_text el t s) = materials s"
  "next_material (set_text el t s) = next_material s"
  "textures (set_text el t s) = textures s"
  "partData (set_text el t s) = partData s"
  "selectedPart (set_text el t s) = selectedPart s"
  "selectedObject (set_text el t s) = selectedObject s"
  "selectedIntersectionPoint (set_text el t s) = selectedIntersectionPoint s"
  "lastIntersectionPoint (set_text el t s) = lastIntersectionPoint s"
  "isRotationPaused (set_text el t s) = isRotationPaused s"
  "connectionLine (set_text el t s) = connectionLine s"
  "connectionMarker (set_text el t s) = connectionMarker s"
  "mouse (set_text el t s) = mouse s"
  "ambientLight (set_text el t s) = ambientLight s"
  "directionalLight (set_text el t s) = directionalLight s"
  "fillLight (set_text el t s) = fillLight s"
  "pointLight (set_text el t s) = pointLight s"
  "initial_directional (set_text el t s) = initial_directional s"
  "initial_fill (set_text el t s) = initial_fill s"
  "initial_point (set_text el t s) = initial_point s"
  "rotationTime (set_text el t s) = rotationTime s"
  "lastFrameTime (set_text el t s) = lastFrameTime s"
  "backgroundIntensity (set_text el t s) = backgroundIntensity s"
  "currentEnvIntensity (set_text el t s) = currentEnvIntensity s"
  "environmentMap (set_text el t s) = environmentMap s"
  "events (set_text el t s) = events s"
  "timers (set_text el t s) = timers s"
  by (simp_all add: set_text_def)

lemma set_style_frame [simp]:
  "scene (set_style el p v s) = scene s"
  "satellite (set_style el p v s) = satellite s"
  "materials (set_style el p v s) = materials s"
  "next_material (set_style el p v s) = next_material s"
  "textures (set_style el p v s) = textures s"
  "partData (set_style el p v s) = partData s"
  "selectedPart (set_style el p v s) = selectedPart s"
  "selectedObject (set_style el p v s) = selectedObject s"
  "selectedIntersectionPoint (set_style el p v s) = selectedIntersectionPoint s"
  "lastIntersectionPoint (set_style el p v s) = lastIntersectionPoint s"
  "isRotationPaused (set_style el p v s) = isRotationPaused s"
  "connectionLine (set_style el p v s) = connectionLine s"
  "connectionMarker (set_style el p v s) = connectionMarker s"
  "mouse (set_style el p v s) = mouse s"
  "ambientLight (set_style el p v s) = ambientLight s"
  "directionalLight (set_style el p v s) = directionalLight s"
  "fillLight (set_style el p v s) = fillLight s"
  "pointLight (set_style el p v s) = pointLight s"
  "initial_directional (set_style el p v s) = initial_directional s"
  "initial_fill (set_style el p v s) = initial_fill s"
  "initial_point (set_style el p v s) = initial_point s"
  "rotationTime (set_style el p v s) = rotationTime s"
  "lastFrameTime (set_style el p v s) = lastFrameTime s"
  "backgroundIntensity (set_style el p v s) = backgroundIntensity s"
  "currentEnvIntensity (set_style el p v s) = currentEnvIntensity s"
  "environmentMap (set_style el p v s) = environmentMap s"
  "events (set_style el p v s) = events s"
  "timers (set_style el p v s) = timers s"
  by (simp_all add: set_style_def)

lemma set_value_frame [simp]:
  "scene (set_value el v s) = scene s"
  "satellite (set_value el v s) = satellite s"
  "materials (set_value el v s) = materials s"
  "next_material (set_value el v s) = next_material s"
  "textures (set_value el v s) = textures s"
  "partData (set_value el v s) = partData s"
  "selectedPart (set_value el v s) = selectedPart s"
  "selectedObject (set_value el v s) = selectedObject s"
  "selectedIntersectionPoint (set_value el v s) = selectedIntersectionPoint s"
  "lastIntersectionPoint (set_value el v s) = lastIntersectionPoint s"
  "isRotationPaused (set_value el v s) = isRotationPaused s"
  "connectionLine (set_value el v s) = connectionLine s"
  "connectionMarker (set_value el v s) = connectionMarker s"
  "mouse (set_value el v s) = mouse s"
  "ambientLight (set_value el v s) = ambientLight s"
  "directionalLight (set_value el v s) = directionalLight s"
  "fillLight (set_value el v s) = fillLight s"
  "pointLight (set_value el v s) = pointLight s"
  "initial_directional (set_value el v s) = initial_directional s"
  "initial_fill (set_value el v s) = initial_fill s"
  "initial_point (set_value el v s) = initial_point s"
  "rotationTime (set_value el v s) = rotationTime s"
  "lastFrameTime (set_value el v s) = lastFrameTime s"
  "backgroundIntensity (set_value el v s) = backgroundIntensity s"
  "currentEnvIntensity (set_value el v s) = currentEnvIntensity s"
  "environmentMap (set_value el v s) = environmentMap s"
  "events (set_value el v s) = events s"
  "timers (set_value el v s) = timers s"
  by (simp_all add: set_value_def)

lemma events_emit [simp]: "events (emit evs s) = events s @ evs"
  by (simp add: emit_def)

lemma has_class_add_class [simp]: "has_class el tok (add_class el tok s)"
  by (simp add: has_class_def add_class_def classList_contains_def classList_add_def)

lemma showLoadingIndicator_frame [simp]:
  "satellite (showLoadingIndicator s) = satellite s"
  "scene (showLoadingIndicator s) = scene s"
  "events (showLoadingIndicator s) = events s"
  "materials (showLoadingIndicator s) = materials s"
  by (simp_all add: showLoadingIndicator_def Let_def)

lemma hideLoadingIndicator_frame [simp]:
  "satellite (hideLoadingIndicator s) = satellite s"
  "scene (hideLoadingIndicator s) = scene s"
  "events (hideLoadingIndicator s) = events s"
  by (simp_all add: hideLoadingIndicator_def)

lemma buildOutliner_frame [simp]:
  "satellite (buildOutliner s) = satellite s"
  "scene (buildOutliner s) = scene s"
  "materials (buildOutliner s) = materials s"
  "partData (buildOutliner s) = partData s"
  by (simp_all add: buildOutliner_def split: option.splits)

lemma closeIndicator_frame [simp]:
  "satellite (closeIndicator s) = satellite s"
  "materials (closeIndicator s) = materials s"
  by (simp_all add: closeIndicator_def Let_def scene_remove_def)

lemma updateLoadingProgress_frame [simp]:
  "satellite (updateLoadingProgress p s) = satellite s"
  "scene (updateLoadingProgress p s) = scene s"
  "events (updateLoadingProgress p s) = events s"
  "materials (updateLoadingProgress p s) = materials s"
  "partData (updateLoadingProgress p s) = partData s"
  by (simp_all add: updateLoadingProgress_def)

lemma scene_closeIndicator: "set (scene (closeIndicator s)) \<subseteq> set (scene s)"
proof -
  have "set (remove1 ConnectionMarker (remove1 ConnectionLine xs)) \<subseteq> set xs" for xs :: "scene_child list"
    using set_remove1_subset [of ConnectionMarker "remove1 ConnectionLine xs"]
      set_remove1_subset [of ConnectionLine xs] by blast
  moreover have "set (remove1 ConnectionMarker xs) \<subseteq> set xs" for xs :: "scene_child list"
    by (rule set_remove1_subset)
  moreover have "set (remove1 ConnectionLine xs) \<subseteq> set xs" for xs :: "scene_child list"
    by (rule set_remove1_subset)
  ultimately show ?thesis
    by (simp add: closeIndicator_def Let_def scene_remove_def)
qed

lemma setEnvironmentIntensity_frame [simp]:
  "satellite (setEnvironmentIntensity v s) = satellite s"
  "partData (setEnvironmentIntensity v s) = partData s"
  "scene (setEnvironmentIntensity v s) = scene s"
  "events (setEnvironmentIntensity v s) = events s"
  "ambientLight (setEnvironmentIntensity v s) = ambientLight s"
  by (simp_all add: setEnvironmentIntensity_def Let_def)

lemma applySolarPanelTexture_frame [simp]:
  "satellite (applySolarPanelTexture s) = satellite s"
  "partData (applySolarPanelTexture s) = partData s"
  "materials (applySolarPanelTexture s) = materials s"
  "scene (applySolarPanelTexture s) = scene s"
  "currentEnvIntensity (applySolarPanelTexture s) = currentEnvIntensity s"
  by (simp_all add: applySolarPanelTexture_def split: option.splits)

lemma scene_add_frame [simp]:
  "satellite (scene_add c s) = satellite s"
  "partData (scene_add c s) = partData s"
  "materials (scene_add c s) = materials s"
  by (simp_all add: scene_add_def)

subsection \<open>Replacing the model\<close>

lemma closeIndicator_events:
  "\<exists>evs. events (closeIndicator s) = events s @ evs \<and> list_all (\<lambda>e. \<not> is_SceneAdd e) evs"
  by (simp add: closeIndicator_def Let_def scene_remove_def is_SceneAdd_def)

lemma buildOutliner_events:
  "\<exists>evs. events (buildOutliner s) = events s @ evs \<and> list_all (\<lambda>e. \<not> is_SceneAdd e) evs"
  by (simp add: buildOutliner_def is_SceneAdd_def split: option.splits)

lemma dispose_child_not_add: "list_all (\<lambda>e. \<not> is_SceneAdd e) (dispose_child mats child)"
  by (auto simp: dispose_child_def dispose_material_def is_SceneAdd_def list_all_iff
      split: option.splits material_slot.splits)

lemma remove_existing_model_events:
  assumes "satellite s = Some old"
  shows "events (remove_existing_model s)
           = events s @ SceneRemove (model_ref old) # concat (map (dispose_child (materials s)) (traverse old))"
    and "satellite (remove_existing_model s) = None"
    and "scene (remove_existing_model s) = remove1 (model_ref old) (scene s)"
  using assms by (simp_all add: remove_existing_model_def Let_def scene_remove_def)

lemma dispose_material_disposes:
  "set (dispose_material mats m) \<subseteq> set evs \<Longrightarrow> disposes_material mats evs m"
  by (auto simp: dispose_material_def disposes_material_def texture_maps_def split: option.splits)

lemma dispose_child_disposes:
  assumes "isMesh child" "set (dispose_child mats child) \<subseteq> set evs"
  shows "disposes_mesh mats evs child"
proof -
  have "list_all (disposes_material mats evs) (materials_of (material child))"
    using assms
    by (cases "material child")
       (auto simp: dispose_child_def list_all_iff intro!: dispose_material_disposes)
  moreover have "case geometry child of Some g \<Rightarrow> DisposeGeometry g \<in> set evs | None \<Rightarrow> True"
    using assms by (auto simp: dispose_child_def split: option.splits)
  ultimately show ?thesis by (simp add: disposes_mesh_def)
qed

lemma dispose_model_disposes:
  assumes "set (concat (map (dispose_child mats) (traverse model))) \<subseteq> set evs"
  shows "disposes_model mats evs model"
  unfolding disposes_model_def list_all_iff
proof
  fix child assume "child \<in> set (filter isMesh (traverse model))"
  then have c: "child \<in> set (traverse model)" "isMesh child" by auto
  then have "set (dispose_child mats child) \<subseteq> set evs" using assms by auto
  with c(2) show "disposes_mesh mats evs child" by (rule dispose_child_disposes)
qed

lemma begin_replace_events:
  assumes "satellite s = Some old"
  shows "\<exists>evs. events (begin_replace path s) = events s @ evs \<and>
           disposes_model (materials s) evs old \<and>
           SceneRemove (model_ref old) \<in> set evs \<and>
           list_all (\<lambda>e. \<not> is_SceneAdd e) evs"
proof -
  let ?s1 = "remove_existing_model s"
  let ?s2 = "?s1\<lparr>partData := Map.empty\<rparr>"
  let ?d = "SceneRemove (model_ref old) # concat (map (dispose_child (materials s)) (traverse old))"
  obtain e3 where e3: "events (closeIndicator ?s2) = events ?s2 @ e3" "list_all (\<lambda>e. \<not> is_SceneAdd e) e3"
    using closeIndicator_events by blast
  obtain e4 where e4: "events (buildOutliner (closeIndicator ?s2)) = events (closeIndicator ?s2) @ e4"
    "list_all (\<lambda>e. \<not> is_SceneAdd e) e4"
    using buildOutliner_events by blast
  have ev: "events (begin_replace path s) = events s @ (?d @ e3 @ e4 @ [LoaderLoad path])"
    using e3(1) e4(1) remove_existing_model_events(1) [OF assms]
    by (simp add: begin_replace_def Let_def)
  have "list_all (\<lambda>e. \<not> is_SceneAdd e) ?d"
    using dispose_child_not_add by (auto simp: list_all_iff is_SceneAdd_def)
  then have na: "list_all (\<lambda>e. \<not> is_SceneAdd e) (?d @ e3 @ e4 @ [LoaderLoad path])"
    using e3(2) e4(2) by (simp add: is_SceneAdd_def)
  have "disposes_model (materials s) (?d @ e3 @ e4 @ [LoaderLoad path]) old"
    by (rule dispose_model_disposes) auto
  with ev na show ?thesis by (intro exI [of _ "?d @ e3 @ e4 @ [LoaderLoad path]"]) simp
qed


lemma root_traverse_st: "root (fst (traverse_st f st t)) = fst (f st (root t))"
  by (cases t) (simp add: split_def Let_def)

lemma uuid_convert_child [simp]: "uuid (fst (convert_child gen st d)) = uuid d"
  by (simp add: convert_child_def split_def Let_def)

lemma uuid_tag_child [simp]: "uuid (fst (tag_child lower pd d)) = uuid d"
  by (simp add: tag_child_def Let_def)

lemma root_update_root [simp]: "root (update_root f t) = f (root t)"
  by (cases t) simp

lemma model_ref_loaded:
  "model_ref (fst (traverse_st (tag_child lower) pd
      (fst (convertMaterials gen (update_root (\<lambda>d. d\<lparr>position := p, scale := sc\<rparr>) t) st))))
     = model_ref t"
  by (simp add: model_ref_def convertMaterials_def root_traverse_st)

lemma events_applySolarPanelTexture:
  "\<exists>evs. events (applySolarPanelTexture s) = events s @ evs"
  by (simp add: applySolarPanelTexture_def split: option.splits)

lemma model_loaded_events:
  "\<exists>a b. events (model_loaded lib path gltf s) = events s @ a @ SceneAdd (model_ref gltf) # b \<and>
         model_ref gltf \<in> set (scene (model_loaded lib path gltf s))"
proof -
  define placed where "placed = update_root (\<lambda>d. d\<lparr>position := neg_vec3 (box_center lib gltf),
                                        scale := \<lparr>vx = 40, vy = 40, vz = 40\<rparr>\<rparr>) gltf"
  define cv where "cv = convertMaterials (generateUUID lib) placed (materials s, next_material s)"
  define s1 where "s1 = s\<lparr>satellite := Some (fst cv), materials := fst (snd cv), next_material := snd (snd cv)\<rparr>"
  define s2 where "s2 = applySolarPanelTexture s1"
  define tg where "tg = traverse_st (tag_child (toLowerCase lib)) (partData s2) (fst cv)"
  define s3 where "s3 = s2\<lparr>satellite := Some (fst tg), partData := snd tg\<rparr>"
  define s5 where "s5 = scene_add (model_ref (fst tg)) (setEnvironmentIntensity (currentEnvIntensity s3) s3)"
  define s8 where "s8 = updateLoadingProgress (Num 100) (emit [ControlsUpdate] (buildOutliner s5))"
  have ml: "model_loaded lib path gltf s =
      (case path of
           LoadModel \<Rightarrow> setTimeout HideLoadingIndicatorAndUpdatePanelHeight 300 s8
         | LoadModelByPath modelPath \<Rightarrow> setTimeout HideLoadingIndicator 300 s8
         | LoadModelFromFile file \<Rightarrow> emit [RevokeObjectURL file] (setTimeout HideLoadingIndicator 300 s8))"
    unfolding model_loaded_def Let_def split_def s8_def s5_def s3_def tg_def s2_def s1_def cv_def placed_def
    by (rule refl)
  have ref: "model_ref (fst tg) = model_ref gltf"
    unfolding tg_def cv_def placed_def by (rule model_ref_loaded)
  obtain e2 where e2: "events s2 = events s @ e2"
    using events_applySolarPanelTexture [of s1] by (auto simp: s2_def s1_def)
  have e5: "events s5 = events s @ e2 @ [SceneAdd (model_ref gltf)]"
    by (simp add: s5_def scene_add_def ref s3_def e2)
  have sc5: "model_ref gltf \<in> set (scene s5)"
    by (simp add: s5_def scene_add_def ref)
  obtain e6 where e6: "events (buildOutliner s5) = events s5 @ e6"
    using buildOutliner_events by blast
  have e8: "events s8 = events s @ e2 @ SceneAdd (model_ref gltf) # (e6 @ [ControlsUpdate])"
    by (simp add: s8_def e6 e5)
  have sc8: "model_ref gltf \<in> set (scene s8)" using sc5 by (simp add: s8_def)
  show ?thesis
  proof (cases path)
    case LoadModel
    with e8 sc8 show ?thesis unfolding ml by auto
  next
    case (LoadModelByPath x)
    with e8 sc8 show ?thesis unfolding ml by auto
  next
    case (LoadModelFromFile x)
    with e8 have "events (model_loaded lib path gltf s)
        = events s @ e2 @ SceneAdd (model_ref gltf) # (e6 @ [ControlsUpdate, RevokeObjectURL x])"
      unfolding ml by simp
    with sc8 LoadModelFromFile show ?thesis unfolding ml by auto
  qed
qed

lemma satellite_model_loaded: "satellite (model_loaded lib path gltf s) \<noteq> None"
  by (cases path)
    (simp_all add: model_loaded_def Let_def split_def del: emit_frame setTimeout_frame,
      simp_all)

lemma start_load_replaces:
  "replaces_model path \<Longrightarrow> start_load path s = begin_replace path s"
  by (cases path) (simp_all add: start_load_def replaces_model_def loadModelByPath_def loadModelFromFile_def)

lemma scene_begin_replace:
  assumes "satellite s = Some old" "distinct (scene s)"
  shows "model_ref old \<notin> set (scene (begin_replace path s))"
proof -
  have "model_ref old \<notin> set (scene (remove_existing_model s))"
    using assms remove_existing_model_events(3) [OF assms(1)] by simp
  then have "model_ref old \<notin> set (scene (closeIndicator ((remove_existing_model s)\<lparr>partData := Map.empty\<rparr>)))"
    using scene_closeIndicator [of "(remove_existing_model s)\<lparr>partData := Map.empty\<rparr>"] by auto
  then show ?thesis
    by (simp add: begin_replace_def Let_def)
qed

text \<open>
  C2. When \<^verbatim>\<open>loadModelByPath\<close> or \<^verbatim>\<open>loadModelFromFile\<close> starts while a model is
  loaded, the trace of its synchronous part holds the removal of that model from the
  scene and the disposal of every geometry, every material and every texture in the six
  map slots of the meshes of that model, and no addition to the scene; the addition of
  the new model is in what the success callback appends afterwards. The old model is
  then no child of the scene (a scene lists a child once) and the new one is.
\<close>

theorem replace_disposes_before_add:
  assumes "satellite s = Some old" and "replaces_model path"
  shows "\<exists>evs1 evs2.
           events (start_load path s) = events s @ evs1 \<and>
           events (model_loaded lib path gltf (start_load path s)) = events s @ evs1 @ evs2 \<and>
           disposes_model (materials s) evs1 old \<and>
           SceneRemove (model_ref old) \<in> set evs1 \<and>
           list_all (\<lambda>e. \<not> is_SceneAdd e) evs1 \<and>
           SceneAdd (model_ref gltf) \<in> set evs2 \<and>
           satellite (start_load path s) = None \<and>
           (distinct (scene s) \<longrightarrow> model_ref old \<notin> set (scene (start_load path s))) \<and>
           model_ref gltf \<in> set (scene (model_loaded lib path gltf (start_load path s)))"
proof -
  have sl: "start_load path s = begin_replace path s" using assms(2) by (rule start_load_replaces)
  obtain evs1 where 1: "events (begin_replace path s) = events s @ evs1"
    "disposes_model (materials s) evs1 old" "SceneRemove (model_ref old) \<in> set evs1"
    "list_all (\<lambda>e. \<not> is_SceneAdd e) evs1"
    using begin_replace_events [OF assms(1)] by blast
  obtain a b where 2: "events (model_loaded lib path gltf (begin_replace path s))
      = events (begin_replace path s) @ a @ SceneAdd (model_ref gltf) # b"
    "model_ref gltf \<in> set (scene (model_loaded lib path gltf (begin_replace path s)))"
    using model_loaded_events by blast
  have 3: "satellite (begin_replace path s) = None"
    using remove_existing_model_events(2) [OF assms(1)]
    by (simp add: begin_replace_def Let_def)
  let ?evs2 = "a @ SceneAdd (model_ref gltf) # b"
  have "events (begin_replace path s) = events s @ evs1 \<and>
           events (model_loaded lib path gltf (begin_replace path s)) = events s @ evs1 @ ?evs2 \<and>
           disposes_model (materials s) evs1 old \<and>
           SceneRemove (model_ref old) \<in> set evs1 \<and>
           list_all (\<lambda>e. \<not> is_SceneAdd e) evs1 \<and>
           SceneAdd (model_ref gltf) \<in> set ?evs2 \<and>
           satellite (begin_replace path s) = None \<and>
           (distinct (scene s) \<longrightarrow> model_ref old \<notin> set (scene (begin_replace path s))) \<and>
           model_ref gltf \<in> set (scene (model_loaded lib path gltf (begin_replace path s)))"
    using 1 2 3 scene_begin_replace [OF assms(1), of path] by simp
  then show ?thesis unfolding sl by blast
qed


theorem replace_disposes_before_add_witness:
  "satellite example_viewer = Some example_model \<and> replaces_model (LoadModelFromFile ''new.glb'') \<and>
   (\<exists>evs1 evs2.
      events (start_load (LoadModelFromFile ''new.glb'') example_viewer) = events example_viewer @ evs1 \<and>
      events (model_loaded example_lib (LoadModelFromFile ''new.glb'') example_model
                (start_load (LoadModelFromFile ''new.glb'') example_viewer))
        = events example_viewer @ evs1 @ evs2 \<and>
      disposes_model (materials example_viewer) evs1 example_model \<and>
      SceneRemove (model_ref example_model) \<in> set evs1 \<and>
      list_all (\<lambda>e. \<not> is_SceneAdd e) evs1 \<and>
      SceneAdd (model_ref example_model) \<in> set evs2 \<and>
      satellite (start_load (LoadModelFromFile ''new.glb'') example_viewer) = None \<and>
      (distinct (scene example_viewer) \<longrightarrow>
         model_ref example_model \<notin> set (scene (start_load (LoadModelFromFile ''new.glb'') example_viewer))) \<and>
      model_ref example_model
        \<in> set (scene (model_loaded example_lib (LoadModelFromFile ''new.glb'') example_model
                        (start_load (LoadModelFromFile ''new.glb'') example_viewer))))"
proof -
  have h1: "satellite example_viewer = Some example_model" by (simp add: example_viewer_def)
  have h2: "replaces_model (LoadModelFromFile ''new.glb'')" by (simp add: replaces_model_def)
  show ?thesis
    by (intro conjI h1 h2 replace_disposes_before_add [OF h1 h2])
qed

subsection \<open>Failures\<close>

lemma model_load_failed_props:
  "satellite (model_load_failed path s) = satellite s"
  "scene (model_load_failed path s) = scene s"
  "has_class ''loading-overlay'' ''hidden'' (model_load_failed path s)"
  "\<exists>evs. events (model_load_failed path s) = events s @ evs \<and>
         list_all (\<lambda>e. \<not> is_SceneAdd e) evs \<and> Alert load_failed_message \<in> set evs"
  by (cases path; simp add: model_load_failed_def Let_def hideLoadingIndicator_def
      has_class_def emit_def is_SceneAdd_def del: emit_frame; simp add: add_class_def classList_contains_def classList_add_def)+

lemma remove_existing_model_props:
  "set (scene (remove_existing_model s)) \<subseteq> set (scene s)"
  "\<exists>evs. events (remove_existing_model s) = events s @ evs \<and> list_all (\<lambda>e. \<not> is_SceneAdd e) evs"
proof -
  show "set (scene (remove_existing_model s)) \<subseteq> set (scene s)"
  proof (cases "satellite s")
    case None
    then show ?thesis by (simp add: remove_existing_model_def)
  next
    case (Some old)
    show ?thesis
      unfolding remove_existing_model_events(3) [OF Some] by (rule set_remove1_subset)
  qed
  show "\<exists>evs. events (remove_existing_model s) = events s @ evs \<and> list_all (\<lambda>e. \<not> is_SceneAdd e) evs"
  proof (cases "satellite s")
    case None
    then show ?thesis by (simp add: remove_existing_model_def)
  next
    case (Some old)
    have "list_all (\<lambda>e. \<not> is_SceneAdd e)
        (SceneRemove (model_ref old) # concat (map (dispose_child (materials s)) (traverse old)))"
      using dispose_child_not_add by (auto simp: list_all_iff is_SceneAdd_def)
    with remove_existing_model_events(1) [OF Some] show ?thesis by blast
  qed
qed

lemma satellite_remove_existing_model [simp]: "satellite (remove_existing_model s) = None"
  by (cases "satellite s") (simp_all add: remove_existing_model_def Let_def scene_remove_def)

lemma begin_replace_props:
  "satellite (begin_replace path s) = None"
  "set (scene (begin_replace path s)) \<subseteq> set (scene s)"
  "\<exists>evs. events (begin_replace path s) = events s @ evs \<and> list_all (\<lambda>e. \<not> is_SceneAdd e) evs"
proof -
  let ?s2 = "(remove_existing_model s)\<lparr>partData := Map.empty\<rparr>"
  show "satellite (begin_replace path s) = None"
    by (simp add: begin_replace_def Let_def)
  have "set (scene (closeIndicator ?s2)) \<subseteq> set (scene s)"
    using scene_closeIndicator [of ?s2] remove_existing_model_props(1) [of s] by auto
  then show "set (scene (begin_replace path s)) \<subseteq> set (scene s)"
    by (simp add: begin_replace_def Let_def)
  obtain e1 where e1: "events (remove_existing_model s) = events s @ e1" "list_all (\<lambda>e. \<not> is_SceneAdd e) e1"
    using remove_existing_model_props(2) by blast
  obtain e3 where e3: "events (closeIndicator ?s2) = events ?s2 @ e3" "list_all (\<lambda>e. \<not> is_SceneAdd e) e3"
    using closeIndicator_events by blast
  obtain e4 where e4: "events (buildOutliner (closeIndicator ?s2)) = events (closeIndicator ?s2) @ e4"
    "list_all (\<lambda>e. \<not> is_SceneAdd e) e4"
    using buildOutliner_events by blast
  have "events (begin_replace path s) = events s @ (e1 @ e3 @ e4 @ [LoaderLoad path])"
    using e1(1) e3(1) e4(1) by (simp add: begin_replace_def Let_def)
  moreover have "list_all (\<lambda>e. \<not> is_SceneAdd e) (e1 @ e3 @ e4 @ [LoaderLoad path])"
    using e1(2) e3(2) e4(2) by (simp add: is_SceneAdd_def)
  ultimately show "\<exists>evs. events (begin_replace path s) = events s @ evs \<and> list_all (\<lambda>e. \<not> is_SceneAdd e) evs"
    by blast
qed

lemma start_load_props:
  assumes "replaces_model path \<or> satellite s = None"
  shows "satellite (start_load path s) = None"
    and "set (scene (start_load path s)) \<subseteq> set (scene s)"
    and "\<exists>evs. events (start_load path s) = events s @ evs \<and> list_all (\<lambda>e. \<not> is_SceneAdd e) evs"
proof -
  show "satellite (start_load path s) = None"
    using assms begin_replace_props(1)
    by (cases path) (simp_all add: start_load_def loadModel_def loadModelByPath_def loadModelFromFile_def
        replaces_model_def)
  show "set (scene (start_load path s)) \<subseteq> set (scene s)"
    using begin_replace_props(2)
    by (cases path) (simp_all add: start_load_def loadModel_def loadModelByPath_def loadModelFromFile_def)
  show "\<exists>evs. events (start_load path s) = events s @ evs \<and> list_all (\<lambda>e. \<not> is_SceneAdd e) evs"
    using begin_replace_props(3)
    by (cases path) (simp_all add: start_load_def loadModel_def loadModelByPath_def loadModelFromFile_def
        is_SceneAdd_def)
qed




subsection \<open>Double clicks\<close>

lemma intersectObjects_Nil: "intersectObjects lib ray [] = []"
  by (simp add: intersectObjects_def)

text \<open>
  C6. A double click whose ray finds no intersection with the loaded model, which
  includes every double click while no model is loaded, leaves the selection state
  (\<^verbatim>\<open>selectedPart\<close>, \<^verbatim>\<open>selectedObject\<close>, \<^verbatim>\<open>isRotationPaused\<close>,
  \<^verbatim>\<open>lastIntersectionPoint\<close>) as it was and does not open the part-info overlay: the
  page and the trace are unchanged.
\<close>

theorem onMouseDoubleClick_miss:
  assumes "satellite s = None \<or>
           intersectObjects lib (click_ray ev) (case satellite s of Some model \<Rightarrow> [model] | None \<Rightarrow> []) = []"
  shows "selection_state (onMouseDoubleClick lib ev s) = selection_state s \<and>
         overlay_open (onMouseDoubleClick lib ev s) = overlay_open s \<and>
         dom (onMouseDoubleClick lib ev s) = dom s \<and>
         events (onMouseDoubleClick lib ev s) = events s"
proof -
  have miss: "intersectObjects lib (click_ray ev)
      (case satellite s of Some model \<Rightarrow> [model] | None \<Rightarrow> []) = []"
    using assms by (auto simp: intersectObjects_Nil)
  then show ?thesis
    by (simp add: onMouseDoubleClick_def Let_def selection_state_def overlay_open_def has_class_def)
qed


theorem onMouseDoubleClick_miss_witness:
  "(satellite example_viewer = None \<or>
    intersectObjects example_lib (click_ray example_click)
      (case satellite example_viewer of Some model \<Rightarrow> [model] | None \<Rightarrow> []) = []) \<and>
   selection_state (onMouseDoubleClick example_lib example_click example_viewer)
     = selection_state example_viewer \<and>
   overlay_open (onMouseDoubleClick example_lib example_click example_viewer)
     = overlay_open example_viewer"
proof -
  have h: "satellite example_viewer = None \<or>
    intersectObjects example_lib (click_ray example_click)
      (case satellite example_viewer of Some model \<Rightarrow> [model] | None \<Rightarrow> []) = []"
    by (simp add: example_viewer_def intersectObjects_def example_lib_def)
  from onMouseDoubleClick_miss [OF h] h show ?thesis by blast
qed

subsection \<open>The frame loop\<close>

lemma animate_paused:
  assumes "isRotationPaused s"
  shows "rotationTime (animate t s) = rotationTime s"
    and "satellite (animate t s) = satellite s"
    and "light_positions (animate t s) = light_positions s"
  using assms
  by (simp_all add: animate_def Let_def emit_def updateIndicatorPosition_def
      updateConnectionMarker_def updateConnectionLine_def scene_add_def light_positions_def)

lemma animate_running:
  assumes "\<not> isRotationPaused s"
  shows "satellite_rotation_y (animate t s)
           = map_option (\<lambda>_. rotation_angle (rotationTime (animate t s))) (satellite s)"
proof -
  have "vy (rotation (root (update_root (set_rotation_y a) m))) = a" for a m
    by (cases m) (simp add: set_rotation_y_def)
  then show ?thesis
    using assms
    by (simp add: animate_def Let_def emit_def updateIndicatorPosition_def
      updateConnectionMarker_def updateConnectionLine_def scene_add_def satellite_rotation_y_def
      option.map_comp comp_def)
qed

lemma rotation_angle_degrees: "degrees (rotation_angle t) = sin (2 * pi * t / 80) * 45"
  by (simp add: degrees_def rotation_angle_def field_simps)

lemma rotation_angle_bounds: "- 45 \<le> degrees (rotation_angle t) \<and> degrees (rotation_angle t) \<le> 45"
proof -
  have "- 1 \<le> sin (2 * pi * t / 80)" "sin (2 * pi * t / 80) \<le> 1" by simp_all
  then show ?thesis unfolding rotation_angle_degrees by linarith
qed

lemma animate_events:
  "\<exists>mid. events (animate t s) = events s @ [RequestAnimationFrame, ControlsUpdate] @ mid @ [Render] \<and>
         (if selectedObject s \<noteq> None \<and> selectedIntersectionPoint s \<noteq> None \<and> overlay_open s
          then IndicatorPositioned \<in> set mid else mid = [])"
  by (simp add: animate_def Let_def emit_def updateIndicatorPosition_def overlay_open_def has_class_def
      updateConnectionMarker_def updateConnectionLine_def scene_add_def)

text \<open>
  C10. While \<^verbatim>\<open>isRotationPaused\<close> is true, a frame of \<^verbatim>\<open>animate\<close> leaves
  \<^verbatim>\<open>rotationTime\<close>, the model's rotation about the vertical axis and the positions of
  the directional, fill and point lights as they were, while it still updates the orbit
  controls, positions the indicator when one is shown, and renders. While it is false,
  the model's rotation after the frame is \<open>sin (2 \<pi> t / 80) \<cdot> \<pi> / 4\<close> for the new
  \<^verbatim>\<open>rotationTime\<close> \<open>t\<close>, hence between \<open>-45\<close> and \<open>45\<close> degrees.
\<close>

theorem animate_oscillation:
  "(isRotationPaused s \<longrightarrow>
      rotationTime (animate t s) = rotationTime s \<and>
      satellite_rotation_y (animate t s) = satellite_rotation_y s \<and>
      light_positions (animate t s) = light_positions s \<and>
      (\<exists>mid. events (animate t s) = events s @ [RequestAnimationFrame, ControlsUpdate] @ mid @ [Render] \<and>
         (if selectedObject s \<noteq> None \<and> selectedIntersectionPoint s \<noteq> None \<and> overlay_open s
          then IndicatorPositioned \<in> set mid else mid = []))) \<and>
   (\<not> isRotationPaused s \<longrightarrow>
      satellite_rotation_y (animate t s)
        = map_option (\<lambda>_. sin (2 * pi * rotationTime (animate t s) / 80) * (pi / 4)) (satellite s) \<and>
      (\<forall>a. satellite_rotation_y (animate t s) = Some a \<longrightarrow> - 45 \<le> degrees a \<and> degrees a \<le> 45))"
proof (intro conjI impI allI)
  assume p: "isRotationPaused s"
  show "rotationTime (animate t s) = rotationTime s" using p by (rule animate_paused)
  show "satellite_rotation_y (animate t s) = satellite_rotation_y s"
    using animate_paused(2) [OF p] by (simp add: satellite_rotation_y_def)
  show "light_positions (animate t s) = light_positions s" using p by (rule animate_paused)
  show "\<exists>mid. events (animate t s) = events s @ [RequestAnimationFrame, ControlsUpdate] @ mid @ [Render] \<and>
         (if selectedObject s \<noteq> None \<and> selectedIntersectionPoint s \<noteq> None \<and> overlay_open s
          then IndicatorPositioned \<in> set mid else mid = [])"
    by (rule animate_events)
next
  assume r: "\<not> isRotationPaused s"
  have eq: "rotation_angle u = sin (2 * pi * u / 80) * (pi / 4)" for u
    by (simp add: rotation_angle_def mult.commute)
  show "satellite_rotation_y (animate t s)
        = map_option (\<lambda>_. sin (2 * pi * rotationTime (animate t s) / 80) * (pi / 4)) (satellite s)"
    using animate_running [OF r] by (simp add: eq)
next
  fix a
  assume r: "\<not> isRotationPaused s" and a: "satellite_rotation_y (animate t s) = Some a"
  from animate_running [OF r] a have "a = rotation_angle (rotationTime (animate t s))"
    by (cases "satellite s") auto
  then show "- 45 \<le> degrees a" "degrees a \<le> 45" using rotation_angle_bounds by simp_all
qed

theorem animate_oscillation_witness:
  "\<not> isRotationPaused example_viewer \<and>
   satellite_rotation_y (animate 16 example_viewer)
     = Some (sin (2 * pi * rotationTime (animate 16 example_viewer) / 80) * (pi / 4)) \<and>
   isRotationPaused (example_viewer\<lparr>isRotationPaused := True\<rparr>) \<and>
   rotationTime (animate 16 (example_viewer\<lparr>isRotationPaused := True\<rparr>))
     = rotationTime (example_viewer\<lparr>isRotationPaused := True\<rparr>) \<and>
   light_positions (animate 16 (example_viewer\<lparr>isRotationPaused := True\<rparr>))
     = light_positions (example_viewer\<lparr>isRotationPaused := True\<rparr>)"
proof -
  have r: "\<not> isRotationPaused example_viewer" "satellite example_viewer = Some example_model"
    by (simp_all add: example_viewer_def after_init_def)
  have p: "isRotationPaused (example_viewer\<lparr>isRotationPaused := True\<rparr>)" by simp
  from animate_oscillation [of example_viewer 16] r
    animate_oscillation [of "example_viewer\<lparr>isRotationPaused := True\<rparr>" 16] p
  show ?thesis by simp
qed

subsection \<open>Settings\<close>

lemma ambientLight_applyBackgroundType [simp]:
  "ambientLight (applyBackgroundType ty s) = ambientLight s"
  by (simp add: applyBackgroundType_def updateBackgroundColor_def updateStarFieldIntensity_def)

lemma ambientLight_applyEnvironmentType [simp]:
  "ambientLight (applyEnvironmentType ty s) = ambientLight s"
  by (simp add: applyEnvironmentType_def applyEnvironmentMap_def loadDefaultHDRI_def Let_def)

lemma dispatchEvent_other:
  assumes "el \<noteq> ''ambient-intensity''"
  shows "ambient_intensity (dispatchEvent el ty s) = ambient_intensity s"
  using assms
  by (simp add: dispatchEvent_def ambient_intensity_def Let_def updateBackgroundColor_def
      updateStarFieldIntensity_def set_light_color_def option.map_comp comp_def)

lemma dispatchEvent_ambient:
  "ambient_intensity (dispatchEvent ''ambient-intensity'' ''input'' s)
     = map_option (\<lambda>_. parseFloat (value_of (dom s) ''ambient-intensity'')) (ambientLight s)"
  by (simp add: dispatchEvent_def ambient_intensity_def Let_def set_intensity_def option.map_comp comp_def)


lemma apply_control_other:
  "el \<noteq> ''ambient-intensity'' \<Longrightarrow> ambient_intensity (apply_control el ty v s) = ambient_intensity s"
  by (simp add: apply_control_def dispatchEvent_other) (simp add: ambient_intensity_def)

lemma apply_if_truthy_other:
  "el \<noteq> ''ambient-intensity'' \<Longrightarrow> ambient_intensity (apply_if_truthy el ty v s) = ambient_intensity s"
  by (simp add: apply_if_truthy_def apply_control_other)

lemma apply_if_defined_other:
  "el \<noteq> ''ambient-intensity'' \<Longrightarrow> ambient_intensity (apply_if_defined el ty v s) = ambient_intensity s"
  by (simp add: apply_if_defined_def apply_control_other)

lemma apply_collapsed_other: "ambient_intensity (apply_collapsed el v s) = ambient_intensity s"
  by (simp add: apply_collapsed_def ambient_intensity_def)

lemma apply_rightPanelCollapsed_other:
  "ambient_intensity (apply_rightPanelCollapsed v s) = ambient_intensity s"
  by (simp add: apply_rightPanelCollapsed_def ambient_intensity_def)

lemma setTimeout_other: "ambient_intensity (setTimeout t d s) = ambient_intensity s"
  by (simp add: ambient_intensity_def)

lemma apply_control_ambient:
  "ambient_intensity (apply_control ''ambient-intensity'' ''input'' v s)
     = map_option (\<lambda>_. parseFloat (to_dom_string v)) (ambientLight s)"
  by (simp add: apply_control_def dispatchEvent_ambient) (simp add: set_value_def)

lemma apply_if_defined_ambient:
  "v \<noteq> JUndefined \<Longrightarrow>
   ambient_intensity (apply_if_defined ''ambient-intensity'' ''input'' v s)
     = map_option (\<lambda>_. parseFloat (to_dom_string v)) (ambientLight s)"
  by (simp add: apply_if_defined_def apply_control_ambient)

lemma applySettings_ambient:
  assumes "s_ambientIntensity st \<noteq> JUndefined"
  shows "ambient_intensity (applySettings (Some st) s)
           = map_option (\<lambda>_. parseFloat (to_dom_string (s_ambientIntensity st))) (ambientLight s)"
proof -
  let ?s3 = "apply_if_defined ''background-intensity'' ''input'' (s_backgroundIntensity st)
       (apply_if_truthy ''background-color'' ''input'' (s_backgroundColor st)
         (apply_if_truthy ''background-type'' ''change'' (s_backgroundType st) s))"
  have 3: "ambient_intensity ?s3 = ambient_intensity s"
    by (simp add: apply_if_truthy_other apply_if_defined_other)
  then have l3: "map_option (\<lambda>_. x) (ambientLight ?s3) = map_option (\<lambda>_. x) (ambientLight s)" for x :: jsnum
    by (cases "ambientLight ?s3"; cases "ambientLight s") (simp_all add: ambient_intensity_def)
  have 4: "ambient_intensity (apply_if_defined ''ambient-intensity'' ''input'' (s_ambientIntensity st) ?s3)
      = map_option (\<lambda>_. parseFloat (to_dom_string (s_ambientIntensity st))) (ambientLight s)"
    using apply_if_defined_ambient [OF assms, of ?s3] l3 by simp
  show ?thesis
    unfolding applySettings_def Let_def option.case
    by (simp add: apply_if_truthy_other apply_if_defined_other apply_collapsed_other
        apply_rightPanelCollapsed_other setTimeout_other apply_control_other 4
        split: option.split)
qed

lemma parseFloat_0_7:
  "parseFloat (to_dom_string (JNumber (Num 0.7))) = Num 0.7"
  "parseFloat (to_dom_string (JString ''0.7'')) = Num 0.7"
  by code_simp+

text \<open>
  C5. For every settings object whose field \<^verbatim>\<open>ambientIntensity\<close> is 0.7, the number or
  the string that \<^verbatim>\<open>saveSettings\<close> writes, the intensity of the ambient light reads 0.7
  after \<^verbatim>\<open>applySettings\<close>, whatever the other fields are, provided the viewer has
  its ambient light.
\<close>

theorem applySettings_ambientIntensity:
  assumes "s_ambientIntensity st = JNumber (Num 0.7) \<or> s_ambientIntensity st = JString ''0.7''"
    and "ambientLight s \<noteq> None"
  shows "map_option intensity (ambientLight (applySettings (Some st) s)) = Some (Num 0.7)"
proof -
  from assms(1) have d: "s_ambientIntensity st \<noteq> JUndefined" by auto
  from assms(1) have p: "parseFloat (to_dom_string (s_ambientIntensity st)) = Num 0.7"
    using parseFloat_0_7 by auto
  from applySettings_ambient [OF d, of s] assms(2) p show ?thesis
    by (auto simp: ambient_intensity_def)
qed

theorem applySettings_ambientIntensity_witness:
  "(s_ambientIntensity (no_settings\<lparr>s_ambientIntensity := JNumber (Num 0.7)\<rparr>) = JNumber (Num 0.7) \<or>
    s_ambientIntensity (no_settings\<lparr>s_ambientIntensity := JNumber (Num 0.7)\<rparr>) = JString ''0.7'') \<and>
   ambientLight example_viewer \<noteq> None \<and>
   map_option intensity
     (ambientLight (applySettings (Some (no_settings\<lparr>s_ambientIntensity := JNumber (Num 0.7)\<rparr>))
                      example_viewer)) = Some (Num 0.7)"
proof -
  have h1: "s_ambientIntensity (no_settings\<lparr>s_ambientIntensity := JNumber (Num 0.7)\<rparr>) = JNumber (Num 0.7) \<or>
    s_ambientIntensity (no_settings\<lparr>s_ambientIntensity := JNumber (Num 0.7)\<rparr>) = JString ''0.7''"
    by simp
  have h2: "ambientLight example_viewer \<noteq> None" by (simp add: example_viewer_def after_init_def)
  from applySettings_ambientIntensity [OF h1 h2] h1 h2 show ?thesis by blast
qed

subsection \<open>The model loader\<close>

lemma visit_all_append:
  "visit_all f st (xs @ ys) =
     (let (xs', st1) = visit_all f st xs; (ys', st2) = visit_all f st1 ys in (xs' @ ys', st2))"
  by (induction xs arbitrary: st) (simp_all add: split_def Let_def)

lemma traverse_st_visit_all:
  "traverse (fst (traverse_st f st t)) = fst (visit_all f st (traverse t)) \<and>
   snd (traverse_st f st t) = snd (visit_all f st (traverse t))"
  "concat (map traverse (fst (traverse_st_list f st ts))) = fst (visit_all f st (concat (map traverse ts))) \<and>
   snd (traverse_st_list f st ts) = snd (visit_all f st (concat (map traverse ts)))"
proof (induction f st t and f st ts rule: traverse_st_traverse_st_list.induct)
  case (1 f st d cs)
  have "concat (map traverse (fst (traverse_st_list f (snd (f st d)) cs)))
          = fst (visit_all f (snd (f st d)) (concat (map traverse cs))) \<and>
        snd (traverse_st_list f (snd (f st d)) cs)
          = snd (visit_all f (snd (f st d)) (concat (map traverse cs)))"
    using 1 [OF refl, of "fst (f st d)" "snd (f st d)"] by simp
  then show ?case by (simp add: split_def Let_def)
next
  case (2 f st)
  then show ?case by simp
next
  case (3 f st c cs)
  have "concat (map traverse (fst (traverse_st_list f (snd (traverse_st f st c)) cs)))
          = fst (visit_all f (snd (traverse_st f st c)) (concat (map traverse cs))) \<and>
        snd (traverse_st_list f (snd (traverse_st f st c)) cs)
          = snd (visit_all f (snd (traverse_st f st c)) (concat (map traverse cs)))"
    using 3(2) [OF refl, of "fst (traverse_st f st c)" "snd (traverse_st f st c)"] by simp
  with 3(1) show ?case by (simp add: split_def Let_def visit_all_append)
qed

lemma length_visit_all [simp]: "length (fst (visit_all f st ds)) = length ds"
  by (induction ds arbitrary: st) (simp_all add: split_def Let_def)


lemma is_canonical_optimizeMaterial [simp]: "is_canonical (optimizeMaterial mat) = is_canonical mat"
  by (simp add: optimizeMaterial_def is_canonical_def Let_def split: option.splits)

lemma is_canonical_convertToStandardMaterial [simp]:
  "is_canonical (convertToStandardMaterial u mat)"
  by (simp add: convertToStandardMaterial_def is_canonical_def)

lemma kind_optimizeMaterial [simp]: "kind (optimizeMaterial mat) = kind mat"
  by (simp add: optimizeMaterial_def Let_def split: option.splits)

lemma kind_convertToStandardMaterial [simp]:
  "kind (convertToStandardMaterial u mat) = MeshStandardMaterial"
  by (simp add: convertToStandardMaterial_def)

lemma is_canonical_standard: "kind mat = MeshStandardMaterial \<Longrightarrow> is_canonical mat"
  by (simp add: is_canonical_def)

lemma canon_le_refl [simp]: "canon_le m m"
  by (simp add: canon_le_def)

lemma canon_le_trans: "canon_le a b \<Longrightarrow> canon_le b c \<Longrightarrow> canon_le a c"
  unfolding canon_le_def by (metis is_canonical_standard)

lemma canon_le_optimize: "is_canonical (mats m) \<Longrightarrow> canon_le mats (mats(m := optimizeMaterial (mats m)))"
  by (simp add: canon_le_def)

lemma canon_le_convert: "canon_le mats (mats(n := convertToStandardMaterial u mat))"
  by (simp add: canon_le_def)

lemma convert_each_props:
  "canon_le mats0 mats \<Longrightarrow> convert_each_ok mats0 mats ms (convert_each gen ms (mats, next))"
proof (induction ms arbitrary: mats "next")
  case Nil
  then show ?case by (simp add: convert_each_ok_def)
next
  case (Cons m ms)
  show ?case
  proof (cases "is_canonical (mats m)")
    case True
    let ?mats1 = "mats(m := optimizeMaterial (mats m))"
    let ?r = "convert_each gen ms (?mats1, next)"
    have le1: "canon_le mats ?mats1" using True by (rule canon_le_optimize)
    then have "canon_le mats0 ?mats1" using Cons.prems canon_le_trans by blast
    then have IH: "convert_each_ok mats0 ?mats1 ms ?r" by (rule Cons.IH)
    then have le2: "canon_le ?mats1 (fst (snd ?r))" by (simp add: convert_each_ok_def)
    have res: "convert_each gen (m # ms) (mats, next) = (m # fst ?r, snd ?r)"
      using True by (simp add: split_def Let_def)
    have "is_canonical (?mats1 m)" using True by simp
    with le2 have can: "is_canonical (fst (snd ?r) m)" by (simp add: canon_le_def)
    have "kind (fst (snd ?r) m) = MeshStandardMaterial" if "\<not> is_canonical (mats0 m)"
    proof -
      from that True Cons.prems have "kind (mats m) = MeshStandardMaterial"
        by (simp add: canon_le_def)
      then have "kind (?mats1 m) = MeshStandardMaterial" by simp
      with le2 show ?thesis by (simp add: canon_le_def)
    qed
    then have "slot_converted mats0 (fst (snd ?r)) m m" by (simp add: slot_converted_def)
    with IH le1 le2 can show ?thesis
      unfolding res convert_each_ok_def by (auto intro: canon_le_trans)
  next
    case False
    let ?mats1 = "mats(next := convertToStandardMaterial (gen next) (mats m))"
    let ?r = "convert_each gen ms (?mats1, Suc next)"
    have le1: "canon_le mats ?mats1" by (rule canon_le_convert)
    then have "canon_le mats0 ?mats1" using Cons.prems canon_le_trans by blast
    then have IH: "convert_each_ok mats0 ?mats1 ms ?r" by (rule Cons.IH)
    then have le2: "canon_le ?mats1 (fst (snd ?r))" by (simp add: convert_each_ok_def)
    have res: "convert_each gen (m # ms) (mats, next) = (next # fst ?r, snd ?r)"
      using False by (simp add: split_def Let_def)
    have "kind (?mats1 next) = MeshStandardMaterial" by simp
    with le2 have std: "kind (fst (snd ?r) next) = MeshStandardMaterial" by (simp add: canon_le_def)
    then have can: "is_canonical (fst (snd ?r) next)" by (rule is_canonical_standard)
    have "\<not> is_canonical (mats0 m)" using False Cons.prems by (auto simp: canon_le_def)
    with std have "slot_converted mats0 (fst (snd ?r)) m next" by (simp add: slot_converted_def)
    with IH le1 le2 can show ?thesis
      unfolding res convert_each_ok_def by (auto intro: canon_le_trans)
  qed
qed


lemma slot_converted_le:
  "slot_converted mats0 m1 m m' \<Longrightarrow> canon_le m1 m2 \<Longrightarrow> slot_converted mats0 m2 m m'"
  by (simp add: slot_converted_def canon_le_def split: if_splits)

lemma mesh_converted_le:
  assumes "mesh_converted mats0 m1 b a" "canon_le m1 m2"
  shows "mesh_converted mats0 m2 b a"
  using assms(1) unfolding mesh_converted_def
  by (rule list_all2_mono) (rule slot_converted_le [OF _ assms(2)])

lemma converted_le: "converted mats0 m1 b a \<Longrightarrow> canon_le m1 m2 \<Longrightarrow> converted mats0 m2 b a"
  unfolding converted_def using mesh_converted_le by (auto simp: canon_le_def)

lemma materials_of_slot:
  "materials_of (if length r = 1 then SingleMaterial (hd r) else MaterialArray r) = r"
  by (cases r) auto

lemma convert_child_props:
  assumes "canon_le mats0 (fst st)"
  shows "canon_le (fst st) (fst (snd (convert_child gen st d))) \<and>
         converted mats0 (fst (snd (convert_child gen st d))) d (fst (convert_child gen st d))"
proof (cases "isMesh d \<and> material d \<noteq> NoMaterial")
  case True
  obtain mats nxt where st: "st = (mats, nxt)" by (cases st)
  let ?res = "convert_each gen (materials_of (material d)) (mats, nxt)"
  have ok: "convert_each_ok mats0 mats (materials_of (material d)) ?res"
    using assms st by (simp add: convert_each_props)
  define slot where "slot = (if length (fst ?res) = 1 then SingleMaterial (hd (fst ?res))
                          else MaterialArray (fst ?res))"
  have ms: "materials_of slot = fst ?res" unfolding slot_def by (rule materials_of_slot)
  have cc: "convert_child gen st d = (d\<lparr>material := slot\<rparr>, snd ?res)"
    using True st by (simp add: convert_child_def split_def Let_def slot_def)
  show ?thesis
    using ok unfolding cc convert_each_ok_def converted_def mesh_converted_def
    by (simp add: st ms)
next
  case False
  then have cc: "convert_child gen st d = (d, st)" by (auto simp: convert_child_def)
  from False have "isMesh d \<Longrightarrow> materials_of (material d) = []" by (cases "material d") auto
  then show ?thesis
    unfolding cc by (auto simp: converted_def mesh_converted_def)
qed

lemma visit_all_convert:
  assumes "canon_le mats0 (fst st)"
  shows "canon_le (fst st) (fst (snd (visit_all (convert_child gen) st ds))) \<and>
         list_all2 (converted mats0 (fst (snd (visit_all (convert_child gen) st ds))))
           ds (fst (visit_all (convert_child gen) st ds))"
  using assms
proof (induction ds arbitrary: st)
  case Nil
  then show ?case by simp
next
  case (Cons d ds)
  let ?c = "convert_child gen st d"
  let ?v = "visit_all (convert_child gen) (snd ?c) ds"
  have c: "canon_le (fst st) (fst (snd ?c))" "converted mats0 (fst (snd ?c)) d (fst ?c)"
    using convert_child_props [OF Cons.prems] by auto
  then have "canon_le mats0 (fst (snd ?c))" using Cons.prems canon_le_trans by blast
  then have IH: "canon_le (fst (snd ?c)) (fst (snd ?v))"
    "list_all2 (converted mats0 (fst (snd ?v))) ds (fst ?v)"
    using Cons.IH [of "snd ?c"] by auto
  have res: "visit_all (convert_child gen) st (d # ds) = (fst ?c # fst ?v, snd ?v)"
    by (simp add: split_def Let_def)
  show ?case
    unfolding res using c IH by (auto intro: canon_le_trans converted_le)
qed


lemma fst_tag_child: "fst (tag_child lower pd d) = tagged_obj lower d"
  by (simp add: tag_child_def tagged_obj_def nonblank_name_def Let_def)

lemma snd_tag_child:
  "snd (tag_child lower pd d) =
     (if isMesh d \<and> nonblank_name (name d) then pd(uuid d \<mapsto> part_info_for lower (name d)) else pd)"
  by (simp add: tag_child_def nonblank_name_def Let_def)

lemma visit_all_tag_fst: "fst (visit_all (tag_child lower) pd ds) = map (tagged_obj lower) ds"
  by (induction ds arbitrary: pd) (simp_all add: split_def Let_def fst_tag_child)

lemma visit_all_tag_other:
  "u \<notin> uuid ` set (filter isMesh ds) \<Longrightarrow> snd (visit_all (tag_child lower) pd ds) u = pd u"
proof (induction ds arbitrary: pd)
  case Nil
  then show ?case by simp
next
  case (Cons c ds)
  have res: "snd (visit_all (tag_child lower) pd (c # ds)) = snd (visit_all (tag_child lower) (snd (tag_child lower pd c)) ds)"
    by (simp add: split_def Let_def)
  from Cons.prems have "u \<notin> uuid ` set (filter isMesh ds)" by (auto split: if_splits)
  then have "snd (visit_all (tag_child lower) (snd (tag_child lower pd c)) ds) u = snd (tag_child lower pd c) u"
    by (rule Cons.IH)
  moreover have "snd (tag_child lower pd c) u = pd u"
    using Cons.prems by (auto simp: snd_tag_child)
  ultimately show ?case unfolding res by simp
qed

lemma visit_all_tag_snd:
  assumes "distinct (map uuid (filter isMesh ds))" "d \<in> set ds" "isMesh d" "nonblank_name (name d)"
  shows "snd (visit_all (tag_child lower) pd ds) (uuid d) = Some (part_info_for lower (name d))"
  using assms
proof (induction ds arbitrary: pd)
  case Nil
  then show ?case by simp
next
  case (Cons c ds)
  have res: "snd (visit_all (tag_child lower) pd (c # ds)) = snd (visit_all (tag_child lower) (snd (tag_child lower pd c)) ds)"
    by (simp add: split_def Let_def)
  show ?case
  proof (cases "d \<in> set ds")
    case True
    moreover have "distinct (map uuid (filter isMesh ds))" using Cons.prems(1) by (auto split: if_splits)
    ultimately show ?thesis unfolding res using Cons.IH Cons.prems(3,4) by blast
  next
    case False
    with Cons.prems(2) have dc: "d = c" by simp
    then have "uuid d \<notin> uuid ` set (filter isMesh ds)" using Cons.prems(1,3) by auto
    then have "snd (visit_all (tag_child lower) (snd (tag_child lower pd c)) ds) (uuid d) = snd (tag_child lower pd c) (uuid d)"
      by (rule visit_all_tag_other)
    then show ?thesis unfolding res using dc Cons.prems(3,4) by (simp add: snd_tag_child)
  qed
qed

lemma canon_le_fold_applyIntensity: "canon_le mats (fold (applyIntensity v) ms mats)"
proof (induction ms arbitrary: mats)
  case Nil
  then show ?case by simp
next
  case (Cons m ms)
  have "canon_le mats (applyIntensity v m mats)"
    by (auto simp: applyIntensity_def canon_le_def is_canonical_def)
  then show ?case using Cons.IH [of "applyIntensity v m mats"] by (auto intro: canon_le_trans)
qed

lemma canon_le_setEnvironmentIntensity: "canon_le (materials s) (materials (setEnvironmentIntensity v s))"
  by (simp add: setEnvironmentIntensity_def Let_def canon_le_fold_applyIntensity)

text \<open>The model, the store and the part data that the success callback leaves.\<close>

lemma model_loaded_result:
  fixes lib path gltf s
  defines "placed \<equiv> update_root (\<lambda>d. d\<lparr>position := neg_vec3 (box_center lib gltf),
                                        scale := \<lparr>vx = 40, vy = 40, vz = 40\<rparr>\<rparr>) gltf"
  defines "cv \<equiv> convertMaterials (generateUUID lib) placed (materials s, next_material s)"
  defines "tg \<equiv> traverse_st (tag_child (toLowerCase lib)) (partData s) (fst cv)"
  shows "satellite (model_loaded lib path gltf s) = Some (fst tg)"
    and "partData (model_loaded lib path gltf s) = snd tg"
    and "canon_le (fst (snd cv)) (materials (model_loaded lib path gltf s))"
proof -
  define s1 where "s1 = s\<lparr>satellite := Some (fst cv), materials := fst (snd cv), next_material := snd (snd cv)\<rparr>"
  define s2 where "s2 = applySolarPanelTexture s1"
  define tg' where "tg' = traverse_st (tag_child (toLowerCase lib)) (partData s2) (fst cv)"
  define s3 where "s3 = s2\<lparr>satellite := Some (fst tg'), partData := snd tg'\<rparr>"
  define s5 where "s5 = scene_add (model_ref (fst tg')) (setEnvironmentIntensity (currentEnvIntensity s3) s3)"
  define s8 where "s8 = updateLoadingProgress (Num 100) (emit [ControlsUpdate] (buildOutliner s5))"
  have ml: "model_loaded lib path gltf s =
      (case path of
           LoadModel \<Rightarrow> setTimeout HideLoadingIndicatorAndUpdatePanelHeight 300 s8
         | LoadModelByPath modelPath \<Rightarrow> setTimeout HideLoadingIndicator 300 s8
         | LoadModelFromFile file \<Rightarrow> emit [RevokeObjectURL file] (setTimeout HideLoadingIndicator 300 s8))"
    unfolding model_loaded_def Let_def split_def s8_def s5_def s3_def tg'_def s2_def s1_def cv_def placed_def
    by (rule refl)
  have tg: "tg' = tg" by (simp add: tg'_def tg_def s2_def s1_def)
  have 8: "satellite s8 = Some (fst tg)" "partData s8 = snd tg"
    "materials s8 = materials (setEnvironmentIntensity (currentEnvIntensity s3) s3)"
    by (simp_all add: s8_def s5_def s3_def tg)
  have "materials s3 = fst (snd cv)" by (simp add: s3_def s2_def s1_def)
  then have "canon_le (fst (snd cv)) (materials s8)"
    using canon_le_setEnvironmentIntensity [of s3 "currentEnvIntensity s3"] 8(3) by simp
  with 8 show "satellite (model_loaded lib path gltf s) = Some (fst tg)"
    and "partData (model_loaded lib path gltf s) = snd tg"
    and "canon_le (fst (snd cv)) (materials (model_loaded lib path gltf s))"
    unfolding ml by (cases path; simp)+
qed

lemma tagged_obj_fields [simp]:
  "isMesh (tagged_obj lower d) = isMesh d" "name (tagged_obj lower d) = name d" "uuid (tagged_obj lower d) = uuid d"
  "material (tagged_obj lower d) = material d" "position (tagged_obj lower d) = position d"
  "scale (tagged_obj lower d) = scale d"
  by (simp_all add: tagged_obj_def)

lemma converted_fields:
  assumes "converted mats0 mats' b a"
  shows "isMesh a = isMesh b" "name a = name b" "uuid a = uuid b"
    "position a = position b" "scale a = scale b"
proof -
  from assms have e: "a\<lparr>material := material b\<rparr> = b" by (simp add: converted_def)
  show "isMesh a = isMesh b" using arg_cong [OF e, of isMesh] by simp
  show "name a = name b" using arg_cong [OF e, of name] by simp
  show "uuid a = uuid b" using arg_cong [OF e, of uuid] by simp
  show "position a = position b" using arg_cong [OF e, of position] by simp
  show "scale a = scale b" using arg_cong [OF e, of scale] by simp
qed

lemma placed_same_shape:
  "list_all2 same_shape (traverse t) (traverse (update_root (\<lambda>d. d\<lparr>position := c, scale := sc\<rparr>) t))"
  by (cases t) (simp add: same_shape_def list_all2_refl list.rel_refl)

lemma mesh_uuids_rel:
  assumes "list_all2 (\<lambda>b a. isMesh a = isMesh b \<and> uuid a = uuid b) xs ys"
  shows "map uuid (filter isMesh ys) = map uuid (filter isMesh xs)"
  using assms by (induction rule: list_all2_induct) auto

lemma in_set_list_all2:
  assumes "list_all2 R xs ys" "y \<in> set ys"
  shows "\<exists>x \<in> set xs. R x y"
  using assms by (induction rule: list_all2_induct) auto

text \<open>
  C3. Every successful load of the satellite viewer, by \<^verbatim>\<open>loadModel\<close>, \<^verbatim>\<open>loadModelByPath\<close> or
  \<^verbatim>\<open>loadModelFromFile\<close>, of a scene whose meshes have identifiers that differ from one
  another, leaves a model whose position is the negation of the centre of its bounding
  box and whose scale is 40 on every axis. Every material of every mesh is then a
  MeshStandardMaterial or a MeshPhysicalMaterial: a material that was one of the two is
  kept, and every other material has given way to a MeshStandardMaterial. Every mesh
  whose name is not blank (not empty once white space is trimmed) carries the part
  record made of its formatted name and of the description of that name, and the part
  data hold the same record under the identifier of the mesh.
\<close>

theorem satellite_loader_contract:
  assumes "mesh_uuids_distinct gltf_scene"
  shows "loader_contract nonblank_name lib (materials s) gltf_scene
           (materials (model_loaded lib path gltf_scene s))
           (satellite (model_loaded lib path gltf_scene s))
           (partData (model_loaded lib path gltf_scene s))"
proof -
  define lower where "lower = toLowerCase lib"
  define c where "c = neg_vec3 (box_center lib gltf_scene)"
  define sc where "sc = \<lparr>vx = 40, vy = 40, vz = (40::real)\<rparr>"
  define placed where "placed = update_root (\<lambda>d. d\<lparr>position := c, scale := sc\<rparr>) gltf_scene"
  define st where "st = (materials s, next_material s)"
  define cv where "cv = convertMaterials (generateUUID lib) placed st"
  define tg where "tg = traverse_st (tag_child lower) (partData s) (fst cv)"
  define mats' where "mats' = materials (model_loaded lib path gltf_scene s)"
  have res: "satellite (model_loaded lib path gltf_scene s) = Some (fst tg)"
    "partData (model_loaded lib path gltf_scene s) = snd tg"
    "canon_le (fst (snd cv)) mats'"
    using model_loaded_result [where lib = lib and path = path and gltf = gltf_scene and s = s]
    by (simp_all add: tg_def cv_def placed_def st_def c_def sc_def mats'_def lower_def)
  \<comment> \<open>the three traversal lists\<close>
  have tcv: "traverse (fst cv) = fst (visit_all (convert_child (generateUUID lib)) st (traverse placed))"
    and scv: "snd cv = snd (visit_all (convert_child (generateUUID lib)) st (traverse placed))"
    using traverse_st_visit_all(1) [of "convert_child (generateUUID lib)" st placed]
    by (simp_all add: cv_def convertMaterials_def)
  have ttg: "traverse (fst tg) = map (tagged_obj lower) (traverse (fst cv))"
    and stg: "snd tg = snd (visit_all (tag_child lower) (partData s) (traverse (fst cv)))"
    using traverse_st_visit_all(1) [of "tag_child lower" "partData s" "fst cv"]
    by (simp_all add: tg_def visit_all_tag_fst)
  have "canon_le (materials s) (fst st)" by (simp add: st_def)
  from visit_all_convert [OF this, of "generateUUID lib" "traverse placed"]
  have conv: "list_all2 (converted (materials s) (fst (snd cv))) (traverse placed) (traverse (fst cv))"
    by (simp add: tcv scv)
  have shape: "list_all2 same_shape (traverse gltf_scene) (traverse placed)"
    unfolding placed_def by (rule placed_same_shape)
  \<comment> \<open>from the loaded scene to the converted model\<close>
  have rel: "list_all2 (\<lambda>b a. isMesh a = isMesh b \<and> uuid a = uuid b \<and> name a = name b \<and>
        (isMesh b \<longrightarrow> mesh_converted (materials s) mats' b a \<and>
           (\<forall>m \<in> set (materials_of (material a)). is_canonical (mats' m))))
      (traverse gltf_scene) (traverse (fst cv))"
  proof -
    have "list_all2 (\<lambda>p a. isMesh a = isMesh p \<and> uuid a = uuid p \<and> name a = name p \<and>
        (isMesh p \<longrightarrow> mesh_converted (materials s) mats' p a \<and>
           (\<forall>m \<in> set (materials_of (material a)). is_canonical (mats' m))))
      (traverse placed) (traverse (fst cv))"
      using conv
    proof (rule list_all2_mono)
      fix p a assume ca: "converted (materials s) (fst (snd cv)) p a"
      then have "converted (materials s) mats' p a" using res(3) by (rule converted_le)
      then show "isMesh a = isMesh p \<and> uuid a = uuid p \<and> name a = name p \<and>
        (isMesh p \<longrightarrow> mesh_converted (materials s) mats' p a \<and>
           (\<forall>m \<in> set (materials_of (material a)). is_canonical (mats' m)))"
        using converted_fields [OF ca] by (simp add: converted_def)
    qed
    with shape have "list_all2 (same_shape OO
        (\<lambda>p a. isMesh a = isMesh p \<and> uuid a = uuid p \<and> name a = name p \<and>
        (isMesh p \<longrightarrow> mesh_converted (materials s) mats' p a \<and>
           (\<forall>m \<in> set (materials_of (material a)). is_canonical (mats' m)))))
      (traverse gltf_scene) (traverse (fst cv))"
      by (auto simp: list.rel_compp)
    then show ?thesis
      by (rule list_all2_mono) (auto simp: same_shape_def mesh_converted_def)
  qed
  have len: "length (traverse (fst tg)) = length (traverse gltf_scene)"
    using list_all2_lengthD [OF rel] by (simp add: ttg)
  \<comment> \<open>centred and scaled\<close>
  have "root (fst tg) = tagged_obj lower (fst (convert_child (generateUUID lib) st (root placed)))"
    by (simp add: tg_def cv_def convertMaterials_def root_traverse_st fst_tag_child)
  moreover have "position (fst (convert_child gen st d)) = position d"
    "scale (fst (convert_child gen st d)) = scale d" for gen d
    by (simp_all add: convert_child_def split_def Let_def)
  ultimately have 1: "centred_and_scaled lib gltf_scene (fst tg)"
    by (simp add: centred_and_scaled_def placed_def c_def sc_def)
  \<comment> \<open>canonical materials\<close>
  have 2: "materials_canonical mats' (fst tg)"
    unfolding materials_canonical_def list_all_iff
  proof (intro ballI)
    fix child m
    assume "child \<in> set (filter isMesh (traverse (fst tg)))" and m: "m \<in> set (materials_of (material child))"
    then obtain a where a: "a \<in> set (traverse (fst cv))" "child = tagged_obj lower a" "isMesh a"
      by (auto simp: ttg)
    from in_set_list_all2 [OF rel a(1)] a(3) m a(2) show "is_canonical (mats' m)" by auto
  qed
  \<comment> \<open>canonical materials are kept, the others replaced\<close>
  have "list_all2 (\<lambda>b a. isMesh b \<longrightarrow> mesh_converted (materials s) mats' b a)
      (traverse gltf_scene) (map (tagged_obj lower) (traverse (fst cv)))"
    unfolding list_all2_map2 using rel
    by (rule list_all2_mono) (auto simp: mesh_converted_def)
  then have 3: "materials_converted (materials s) mats' gltf_scene (fst tg)"
    unfolding materials_converted_def ttg [symmetric] .
  \<comment> \<open>named parts are tagged\<close>
  have "map uuid (filter isMesh (traverse (fst cv))) = map uuid (filter isMesh (traverse gltf_scene))"
    by (rule mesh_uuids_rel, rule list_all2_mono [OF rel]) simp
  then have dist: "distinct (map uuid (filter isMesh (traverse (fst cv))))"
    using assms by (simp add: mesh_uuids_distinct_def)
  have 4: "parts_tagged lower nonblank_name (snd tg) (fst tg)"
    unfolding parts_tagged_def list_all_iff
  proof (intro ballI impI)
    fix child
    assume "child \<in> set (filter isMesh (traverse (fst tg)))" and nb: "nonblank_name (name child)"
    then obtain a where a: "a \<in> set (traverse (fst cv))" "child = tagged_obj lower a" "isMesh a"
      by (auto simp: ttg)
    from nb a(2) have nba: "nonblank_name (name a)" by simp
    have "userData_partInfo child = Some (part_info_for lower (name a))"
      using a(2,3) nba by (simp add: tagged_obj_def)
    moreover have "snd tg (uuid a) = Some (part_info_for lower (name a))"
      unfolding stg using dist a(1,3) nba by (rule visit_all_tag_snd)
    ultimately show "userData_partInfo child = Some (part_info_for lower (name child)) \<and>
        snd tg (uuid child) = Some (part_info_for lower (name child))"
      using a(2) by simp
  qed
  from 1 2 3 4 show ?thesis
    unfolding loader_contract_def res(1,2) mats'_def [symmetric] lower_def [symmetric] by simp
qed

text \<open>The theorem at the example model, loaded by \<^verbatim>\<open>loadModel\<close>.\<close>

theorem satellite_loader_contract_witness:
  "mesh_uuids_distinct example_model \<and>
   loader_contract nonblank_name example_lib example_materials example_model
     (materials example_loaded) (satellite example_loaded) (partData example_loaded)"
proof -
  have d: "mesh_uuids_distinct example_model"
    by (simp add: mesh_uuids_distinct_def example_model_def example_object_def)
  from satellite_loader_contract [OF d, of example_lib
      "(loadModel (after_init blank_page 0))\<lparr>materials := example_materials, next_material := 3\<rparr>" LoadModel]
  have "loader_contract nonblank_name example_lib example_materials example_model
     (materials example_loaded) (satellite example_loaded) (partData example_loaded)"
    by (simp add: example_loaded_def)
  with d show ?thesis by (rule conjI)
qed

text \<open>
  The second mesh of the example model is named by a single space: the loader leaves it
  without a part record.
\<close>

lemma example_loaded_blank:
  "\<exists>model. satellite example_loaded = Some model \<and>
     (\<exists>child \<in> set (filter isMesh (traverse model)). name child = units '' '' \<and> userData_partInfo child = None)"
proof -
  define s where "s = (loadModel (after_init blank_page 0))\<lparr>materials := example_materials, next_material := 3\<rparr>"
  define placed where "placed = update_root (\<lambda>d. d\<lparr>position := neg_vec3 (box_center example_lib example_model), scale := \<lparr>vx = 40, vy = 40, vz = 40\<rparr>\<rparr>) example_model"
  define cv where "cv = convertMaterials (generateUUID example_lib) placed (materials s, next_material s)"
  define tg where "tg = traverse_st (tag_child (toLowerCase example_lib)) (partData s) (fst cv)"
  have sat: "satellite example_loaded = Some (fst tg)"
    unfolding example_loaded_def s_def [symmetric]
    using model_loaded_result(1) [where lib = example_lib and path = LoadModel and gltf = example_model and s = s]
    by (simp add: tg_def cv_def placed_def)
  have ttg: "traverse (fst tg) = map (tagged_obj (toLowerCase example_lib)) (fst (visit_all (convert_child (generateUUID example_lib)) (materials s, next_material s) (traverse placed)))"
    using traverse_st_visit_all(1) [of "tag_child (toLowerCase example_lib)" "partData s" "fst cv"]
      traverse_st_visit_all(1) [of "convert_child (generateUUID example_lib)" "(materials s, next_material s)" placed]
    by (simp add: tg_def visit_all_tag_fst cv_def convertMaterials_def)
  have "\<exists>child \<in> set (filter isMesh (traverse (fst tg))). name child = units '' '' \<and> userData_partInfo child = None"
    unfolding ttg
    by (simp add: placed_def example_model_def example_object_def split_def Let_def convert_child_def
        tagged_obj_def nonblank_name_def trim_def is_white_space_def units_def)
  with sat show ?thesis by blast
qed

text \<open>
  The loader of the generic viewer on a scene without animation clips: for a project
  that is animated the callback ends with the exception of \<^verbatim>\<open>createModelActionsGUI\<close>,
  after the model was added to the scene and before shadows and floor; for a project
  that is not, it runs to its end.
\<close>

lemma load3dModel_loaded_no_clip:
  "load3dModel_loaded Monsters gltf_scene [] empty_project =
     \<lparr>project_scene = [model_ref gltf_scene], project_model = Some gltf_scene,
      mixer = Some MixerIdle, project_alerts = [],
      project_uncaught = [TypeError ''clipObject is undefined'']\<rparr>"
  "load3dModel_loaded Rings gltf_scene [] empty_project =
     \<lparr>project_scene = [model_ref gltf_scene], project_model = Some gltf_scene,
      mixer = None, project_alerts = [], project_uncaught = []\<rparr>"
  by (simp_all add: load3dModel_loaded_def createModelActionsGUI_def settingByProjectType_def
      empty_project_def Let_def)

text \<open>
  The property does not hold for every loading path, nor for every non-empty name. The
  loader of the generic viewer, \<^verbatim>\<open>load3dModel\<close>, here for a project of the type
  \<^verbatim>\<open>Rings\<close>, keeps the example model as it arrived:
  its root stays at the origin with scale 1, its second mesh keeps a MeshBasicMaterial,
  and its first mesh, named \<^verbatim>\<open>Panel_01\<close>, gets no part record. And the satellite viewer
  leaves the mesh whose name is a single space untagged, although that name is not empty.
\<close>

theorem loader_contract_not_general:
  "project_model (load3dModel_loaded Rings example_model [] empty_project) = Some example_model \<and>
   \<not> centred_and_scaled example_lib example_model example_model \<and>
   \<not> materials_canonical example_materials example_model \<and>
   \<not> parts_tagged (toLowerCase example_lib) nonblank_name Map.empty example_model \<and>
   \<not> loader_contract nonempty_name example_lib example_materials example_model example_materials
        (project_model (load3dModel_loaded Rings example_model [] empty_project)) Map.empty \<and>
   \<not> loader_contract nonempty_name example_lib example_materials example_model
        (materials example_loaded) (satellite example_loaded) (partData example_loaded)"
proof -
  have 1: "project_model (load3dModel_loaded Rings example_model [] empty_project) = Some example_model"
    by (simp add: load3dModel_loaded_def Let_def settingByProjectType_def empty_project_def)
  have 2: "\<not> centred_and_scaled example_lib example_model example_model"
    by (simp add: centred_and_scaled_def example_model_def example_object_def example_lib_def
        neg_vec3_def)
  have 3: "\<not> materials_canonical example_materials example_model"
    by (simp add: materials_canonical_def example_model_def example_object_def
        example_materials_def is_canonical_def)
  have "nonblank_name (units ''Panel_01'')"
    by (simp add: nonblank_name_def trim_def is_white_space_def units_def)
  then have 4: "\<not> parts_tagged (toLowerCase example_lib) nonblank_name Map.empty example_model"
    by (simp add: parts_tagged_def example_model_def example_object_def)
  from 2 have 5: "\<not> loader_contract nonempty_name example_lib example_materials example_model
        example_materials (project_model (load3dModel_loaded Rings example_model [] empty_project)) Map.empty"
    by (simp add: loader_contract_def 1)
  from example_loaded_blank obtain model child where
    m: "satellite example_loaded = Some model" and
    c: "child \<in> set (filter isMesh (traverse model))" "name child = units '' ''" "userData_partInfo child = None"
    by blast
  have "\<not> parts_tagged (toLowerCase example_lib) nonempty_name (partData example_loaded) model"
    unfolding parts_tagged_def list_all_iff using c by (auto simp: nonempty_name_def units_def)
  then have 6: "\<not> loader_contract nonempty_name example_lib example_materials example_model
        (materials example_loaded) (satellite example_loaded) (partData example_loaded)"
    by (simp add: loader_contract_def m)
  from 1 2 3 4 5 6 show ?thesis by blast
qed

subsection \<open>The scene data\<close>

lemma hex_chars:
  "\<forall>k \<in> set [0..<16]. hex_digit_of (''0123456789abcdef'' ! k) = Some k \<and>
                        \<not> is_space (''0123456789abcdef'' ! k)"
  by code_simp

lemma hex_digit_of_hex_char [simp]: "hex_digit_of (hex_char n) = Some (n mod 16)"
  using hex_chars by (simp add: hex_char_def)

lemma is_space_hex_char [simp]: "\<not> is_space (hex_char n)"
  using hex_chars by (simp add: hex_char_def)

lemma six_digits:
  fixes n :: nat
  assumes "n < 16777216"
  shows "((((n div 1048576 mod 16 * 16 + n div 65536 mod 16) * 16 + n div 4096 mod 16) * 16 +
            n div 256 mod 16) * 16 + n div 16 mod 16) * 16 + n mod 16 = n"
proof -
  define a1 where "a1 = n div 16"
  define a2 where "a2 = a1 div 16"
  define a3 where "a3 = a2 div 16"
  define a4 where "a4 = a3 div 16"
  define a5 where "a5 = a4 div 16"
  have d: "n div 256 = a2" "n div 4096 = a3" "n div 65536 = a4" "n div 1048576 = a5"
    by (simp_all add: a1_def a2_def a3_def a4_def a5_def div_mult2_eq [symmetric])
  have "a5 < 16" using assms unfolding d(4) [symmetric] by simp
  then have 5: "a5 mod 16 = a5" by simp
  have e: "n = a1 * 16 + n mod 16" "a1 = a2 * 16 + a1 mod 16" "a2 = a3 * 16 + a2 mod 16"
    "a3 = a4 * 16 + a3 mod 16" "a4 = a5 * 16 + a4 mod 16"
    by (simp_all add: a1_def a2_def a3_def a4_def a5_def)
  show ?thesis unfolding d 5 a1_def [symmetric]
    using e by simp
qed

lemma word_of_floor_unat: "word_of_int \<lfloor>real (unat (c::24 word))\<rfloor> = c"
proof -
  have "\<lfloor>real (unat c)\<rfloor> = int (unat c)" by (rule floor_of_nat)
  then show ?thesis by simp
qed

lemma read_hex_getHexString: "read_hex 0 (getHexString c) = Some (unat c)"
proof -
  have "unat c < 2 ^ LENGTH(24)" by (rule unsigned_less)
  then have "unat c < 16777216" by simp
  from six_digits [OF this] show ?thesis by (simp add: getHexString_def)
qed

lemma strip_white_space_no_space:
  assumes "\<forall>c \<in> set xs. \<not> is_space c"
  shows "strip_white_space xs = xs"
proof (cases xs)
  case Nil then show ?thesis by (simp add: strip_white_space_def)
next
  case (Cons a as)
  then have 1: "dropWhile is_space xs = xs" using assms by simp
  have "rev xs \<noteq> []" using Cons by simp
  moreover have "last xs \<in> set xs" using Cons by simp
  then have "\<not> is_space (hd (rev xs))" using assms by (simp add: hd_rev)
  ultimately have "dropWhile is_space (rev xs) = rev xs" by (cases "rev xs") simp_all
  with 1 show ?thesis by (simp add: strip_white_space_def)
qed

text \<open>The text that \<^verbatim>\<open>getHexString\<close> writes is read back by \<^verbatim>\<open>setHex\<close> to the same colour.\<close>

lemma setHex_from_css_css_color [simp]: "setHex_from_css (css_color c) = c"
proof -
  let ?t = "CHR ''0'' # CHR ''x'' # getHexString c"
  have "\<not> is_space CHR ''0''" "\<not> is_space CHR ''x''" by (simp_all add: is_space_def)
  moreover have "\<forall>ch \<in> set (getHexString c). \<not> is_space ch" by (simp add: getHexString_def)
  ultimately have "\<forall>ch \<in> set ?t. \<not> is_space ch" by simp
  then have t: "strip_white_space ?t = ?t" by (rule strip_white_space_no_space)
  have ne: "getHexString c \<noteq> []" by (simp add: getHexString_def)
  have "string_to_number ?t = Num (real (unat c))"
    unfolding string_to_number_def t Let_def using ne by (simp add: read_hex_getHexString)
  moreover have "replace_first CHR ''#'' ''0x'' (css_color c) = ?t" by (simp add: css_color_def)
  ultimately show ?thesis
    by (simp only: setHex_from_css_def setHex_def jsnum.case word_of_floor_unat)
qed

lemma nonempty_css_color [simp]:
  "nonempty (Some (css_color c)) = Some (css_color c)" "nonempty None = None"
  by (simp_all add: nonempty_def css_color_def)

text \<open>
  A loop that returns for every element, keeps an invariant \<open>I\<close>, establishes the
  properties \<open>K a\<close> of the element it visits and never undoes a property.
\<close>

lemma for_each_establishes:
  assumes "\<And>a st. a \<in> set as \<Longrightarrow> I st \<Longrightarrow>
             \<exists>st'. body a st = Inr st' \<and> I st' \<and> (\<forall>k \<in> K a. Q k st') \<and> (\<forall>k. Q k st \<longrightarrow> Q k st')"
    and "I st"
  shows "\<exists>st'. for_each body as st = Inr st' \<and> I st' \<and> (\<forall>a \<in> set as. \<forall>k \<in> K a. Q k st') \<and>
           (\<forall>k. Q k st \<longrightarrow> Q k st')"
  using assms
proof (induction as arbitrary: st)
  case Nil then show ?case by simp
next
  case (Cons a as)
  from Cons.prems(1) [of a st] Cons.prems(2)
  obtain st1 where 1: "body a st = Inr st1" "I st1" "\<forall>k \<in> K a. Q k st1" "\<forall>k. Q k st \<longrightarrow> Q k st1"
    by auto
  have "\<exists>st'. for_each body as st1 = Inr st' \<and> I st' \<and> (\<forall>a \<in> set as. \<forall>k \<in> K a. Q k st') \<and>
           (\<forall>k. Q k st1 \<longrightarrow> Q k st')"
    using Cons.prems(1) 1(2) by (intro Cons.IH) auto
  then obtain st2 where 2: "for_each body as st1 = Inr st2" "I st2" "\<forall>a \<in> set as. \<forall>k \<in> K a. Q k st2"
    "\<forall>k. Q k st1 \<longrightarrow> Q k st2" by blast
  from 1 2 show ?case by auto
qed


text \<open>What \<^verbatim>\<open>deserializeSceneData\<close> does to one material.\<close>

lemma field_restored_simps [simp]:
  "field_restored None now" "field_restored (Some v) now = (now = Some v)"
  by (simp_all add: field_restored_def)

lemma restore_material_step:
  fixes s st :: viewer
  assumes c: "color (materials s m) \<noteq> None"
    and keep: "\<forall>k. keeps_colour_objects (materials s k) (materials st k)"
  shows "\<exists>st'. restore_material m (serialize_material texs index (materials s m)) st = Inr st' \<and>
           satellite st' = satellite st \<and>
           (\<forall>k. keeps_colour_objects (materials s k) (materials st' k)) \<and>
           material_restored (materials s m) (materials st' m) \<and>
           (\<forall>k. material_restored (materials s k) (materials st k) \<longrightarrow>
                material_restored (materials s k) (materials st' k))"
proof -
  define w where "w = materials s m"
  define md where "md = serialize_material texs index w"
  define old where "old = materials st m"
  from c obtain col where col: "color w = Some col" by (auto simp: w_def)
  from keep have k: "keeps_colour_objects w old" by (simp add: w_def old_def)
  with col have oc: "color old \<noteq> None" by (simp add: keeps_colour_objects_def)
  from k have oe: "emissive w \<noteq> None \<Longrightarrow> emissive old \<noteq> None"
    by (simp add: keeps_colour_objects_def)
  define m1 where "m1 = old\<lparr>color := Some col\<rparr>"
  define m2 where "m2 = (case roughness w of Some r \<Rightarrow> m1\<lparr>roughness := Some r\<rparr> | None \<Rightarrow> m1)"
  define m3 where "m3 = (case metalness w of Some r \<Rightarrow> m2\<lparr>metalness := Some r\<rparr> | None \<Rightarrow> m2)"
  define m4 where "m4 = (case emissive w of Some e \<Rightarrow> m3\<lparr>emissive := Some e\<rparr> | None \<Rightarrow> m3)"
  define m5 where "m5 = (case emissiveIntensity w of Some r \<Rightarrow> m4\<lparr>emissiveIntensity := Some r\<rparr> | None \<Rightarrow> m4)"
  define m6 where "m6 = (case opacity w of
       Some opa \<Rightarrow> m5\<lparr>opacity := Some opa, transparent := (transparent w \<or> opa < 1)\<rparr> | None \<Rightarrow> m5)"
  define m7 where "m7 = (if texture_requests m md = [] then m6\<lparr>needsUpdate := True\<rparr> else m6)"
  define st' where "st' = emit (texture_requests m md) (st\<lparr>materials := (materials st)(m := m7)\<rparr>)"
  have res: "restore_material m md st = Inr st'"
    unfolding restore_material_def Let_def old_def [symmetric]
    using oc oe col
    by (cases "emissive w")
      (simp_all add: md_def serialize_material_def st'_def m7_def m6_def m5_def m4_def m3_def m2_def
        m1_def cong del: option.case_cong_weak if_weak_cong)
  have f: "color m7 = Some col" "field_restored (roughness w) (roughness m7)"
    "field_restored (metalness w) (metalness m7)" "field_restored (emissive w) (emissive m7)"
    "field_restored (emissiveIntensity w) (emissiveIntensity m7)"
    "field_restored (opacity w) (opacity m7)"
    by (simp_all add: m7_def m6_def m5_def m4_def m3_def m2_def m1_def split: option.splits)
  have e7: "emissive w \<noteq> None \<Longrightarrow> emissive m7 \<noteq> None"
    using f(4) by (cases "emissive w") simp_all
  have mats: "materials st' = (materials st)(m := m7)" by (simp add: st'_def)
  have 2: "satellite st' = satellite st" by (simp add: st'_def)
  have 3: "\<forall>k. keeps_colour_objects (materials s k) (materials st' k)"
    using keep f(1) e7 by (simp add: mats keeps_colour_objects_def w_def)
  have 4: "material_restored (materials s m) (materials st' m)"
    using f col by (simp add: mats material_restored_def w_def [symmetric])
  have 5: "\<forall>k. material_restored (materials s k) (materials st k) \<longrightarrow>
                material_restored (materials s k) (materials st' k)"
    using 4 by (simp add: mats)
  from res 2 3 4 5 show ?thesis unfolding md_def w_def by blast
qed

text \<open>What changing one visited object does to the traversal.\<close>

lemma traverse_update_nth:
  "n < length (traverse t) \<Longrightarrow> traverse (update_nth n f t) = (traverse t)[n := f (traverse t ! n)]"
  "n < length (concat (map traverse cs)) \<Longrightarrow>
     concat (map traverse (update_nth_list n f cs))
       = (concat (map traverse cs))[n := f (concat (map traverse cs) ! n)]"
proof (induction n f t and n f cs rule: update_nth_update_nth_list.induct)
  case (1 n f d cs)
  then show ?case by (cases n) simp_all
next
  case (2 n f)
  then show ?case by simp
next
  case (3 n f c cs)
  show ?case
  proof (cases "n < length (traverse c)")
    case True
    with 3(1) show ?thesis by (simp add: list_update_append nth_append)
  next
    case False
    with 3(2,3) show ?thesis by (simp add: list_update_append nth_append)
  qed
qed

text \<open>\<^verbatim>\<open>objectMap\<close> finds a mesh at its own place when the identifiers of the meshes differ.\<close>

lemma objectMap_snoc:
  "fold (\<lambda>(i, child) m. if isMesh child then m(uuid child \<mapsto> i) else m)
        (zip [0..<length (xs @ [x])] (xs @ [x])) Map.empty =
   (let m = fold (\<lambda>(i, child) m. if isMesh child then m(uuid child \<mapsto> i) else m)
              (zip [0..<length xs] xs) Map.empty
    in if isMesh x then m(uuid x \<mapsto> length xs) else m)"
  by (simp add: Let_def)

lemma objectMap_at_list:
  assumes "distinct (map uuid (filter isMesh xs))" "i < length xs" "isMesh (xs ! i)"
  shows "fold (\<lambda>(i, child) m. if isMesh child then m(uuid child \<mapsto> i) else m)
              (zip [0..<length xs] xs) Map.empty (uuid (xs ! i)) = Some i"
  using assms
proof (induction xs rule: rev_induct)
  case Nil then show ?case by simp
next
  case (snoc x xs)
  show ?case
  proof (cases "i < length xs")
    case True
    then have nth: "(xs @ [x]) ! i = xs ! i" by (simp add: nth_append)
    with snoc.prems have m: "isMesh (xs ! i)" by simp
    from snoc.prems(1) have d: "distinct (map uuid (filter isMesh xs))" by simp
    have "xs ! i \<in> set (filter isMesh xs)" using True m by simp
    then have "isMesh x \<Longrightarrow> uuid x \<noteq> uuid (xs ! i)" using snoc.prems(1) by force
    then have "isMesh x \<Longrightarrow> uuid (xs ! i) \<noteq> uuid x" by (rule not_sym)
    with snoc.IH [OF d True m] show ?thesis
      unfolding objectMap_snoc Let_def nth by auto
  next
    case False
    with snoc.prems(2) have i: "i = length xs" by simp
    with snoc.prems(3) show ?thesis unfolding objectMap_snoc Let_def by simp
  qed
qed

lemma mesh_uuids_same_objects:
  assumes "list_all2 (\<lambda>a b. uuid b = uuid a \<and> isMesh b = isMesh a \<and> material b = material a) xs ys"
  shows "map uuid (filter isMesh ys) = map uuid (filter isMesh xs)"
  using assms by (induction rule: list_all2_induct) auto

lemma objectMap_at:
  assumes "mesh_uuids_distinct model" "same_objects model model'"
    and "i < length (traverse model)" "isMesh (traverse model ! i)"
  shows "objectMap model' (uuid (traverse model ! i)) = Some i"
proof -
  from assms(2) have rel: "list_all2 (\<lambda>a b. uuid b = uuid a \<and> isMesh b = isMesh a \<and> material b = material a)
      (traverse model) (traverse model')" by (simp add: same_objects_def)
  then have len: "length (traverse model') = length (traverse model)"
    by (simp add: list_all2_lengthD)
  have at: "uuid (traverse model' ! i) = uuid (traverse model ! i)"
    "isMesh (traverse model' ! i) = isMesh (traverse model ! i)"
    using list_all2_nthD [OF rel assms(3)] by simp_all
  have "distinct (map uuid (filter isMesh (traverse model')))"
    using assms(1) mesh_uuids_same_objects [OF rel] by (simp add: mesh_uuids_distinct_def)
  from objectMap_at_list [OF this, of i] assms(3,4) len at
  show ?thesis by (simp add: objectMap_def)
qed


text \<open>What \<^verbatim>\<open>deserializeSceneData\<close> does to one object.\<close>

lemma restore_transform_restores:
  "position (restore_transform (serialize_object s child) obj) = position child"
  "rotation (restore_transform (serialize_object s child) obj) = rotation child"
  "scale (restore_transform (serialize_object s child) obj) = scale child"
  "visible (restore_transform (serialize_object s child) obj) = visible child"
  by (simp_all add: restore_transform_def serialize_object_def Let_def)

lemma restore_transform_keeps:
  "uuid (restore_transform objectData obj) = uuid obj"
  "isMesh (restore_transform objectData obj) = isMesh obj"
  "material (restore_transform objectData obj) = material obj"
  by (simp_all add: restore_transform_def Let_def split: option.splits)

lemma restore_object_step:
  fixes s st :: viewer
  assumes same: "same_objects model mdl" and sat: "satellite st = Some mdl"
    and i: "i < length (traverse model)" and mat: "material (traverse model ! i) \<noteq> NoMaterial"
    and idx: "index_of (uuid (traverse model ! i)) = Some i"
    and cols: "\<forall>m \<in> set (materials_of (material (traverse model ! i))). color (materials s m) \<noteq> None"
    and keep: "\<forall>k. keeps_colour_objects (materials s k) (materials st k)"
  shows "\<exists>st' mdl'. restore_object index_of (serialize_object s (traverse model ! i)) st = Inr st' \<and>
      satellite st' = Some mdl' \<and>
      traverse mdl' = (traverse mdl)
         [i := restore_transform (serialize_object s (traverse model ! i)) (traverse mdl ! i)] \<and>
      (\<forall>k. keeps_colour_objects (materials s k) (materials st' k)) \<and>
      (\<forall>m \<in> set (materials_of (material (traverse model ! i))).
          material_restored (materials s m) (materials st' m)) \<and>
      (\<forall>k. material_restored (materials s k) (materials st k) \<longrightarrow>
           material_restored (materials s k) (materials st' k))"
proof -
  define child where "child = traverse model ! i"
  define od where "od = serialize_object s child"
  define mats where "mats = materials_of (material child)"
  from same have rel: "list_all2 (\<lambda>a b. uuid b = uuid a \<and> isMesh b = isMesh a \<and> material b = material a)
      (traverse model) (traverse mdl)" by (simp add: same_objects_def)
  then have len: "length (traverse mdl) = length (traverse model)" by (simp add: list_all2_lengthD)
  have obj: "material (traverse mdl ! i) = material child"
    using list_all2_nthD [OF rel i] by (simp add: child_def)
  define mdl1 where "mdl1 = update_nth i (restore_transform od) mdl"
  define s1 where "s1 = st\<lparr>satellite := Some mdl1\<rparr>"
  have tr1: "traverse mdl1 = (traverse mdl)[i := restore_transform od (traverse mdl ! i)]"
    unfolding mdl1_def using i len by (intro traverse_update_nth(1)) simp
  define body where "body = (\<lambda>materialData (st::viewer).
      if md_index materialData < length mats
      then restore_material (mats ! md_index materialData) materialData st else Inr st)"
  have ou: "od_uuid od = uuid child" by (simp add: od_def serialize_object_def Let_def)
  have idx': "index_of (uuid child) = Some i" using idx by (simp add: child_def)
  have il: "i < length (traverse mdl)" using i len by simp
  have mat': "material child \<noteq> NoMaterial" using mat by (simp add: child_def)
  have ro: "restore_object index_of od st = for_each body (od_materials od) s1"
    unfolding restore_object_def Let_def body_def s1_def mdl1_def
    using mat' by (simp add: sat ou idx' il obj mats_def cong: if_cong)
  have mds: "od_materials od
      = map (\<lambda>(index, m). serialize_material (textures s) index (materials s m)) (zip [0..<length mats] mats)"
    by (simp add: od_def serialize_object_def Let_def mats_def)
  let ?I = "\<lambda>st::viewer. satellite st = Some mdl1 \<and>
              (\<forall>k. keeps_colour_objects (materials s k) (materials st k))"
  let ?Q = "\<lambda>k (st::viewer). material_restored (materials s k) (materials st k)"
  let ?K = "\<lambda>a. {mats ! md_index a}"
  have "\<exists>st'. for_each body (od_materials od) s1 = Inr st' \<and> ?I st' \<and>
      (\<forall>a \<in> set (od_materials od). \<forall>k \<in> ?K a. ?Q k st') \<and> (\<forall>k. ?Q k s1 \<longrightarrow> ?Q k st')"
  proof (rule for_each_establishes [where I = ?I and Q = ?Q and K = ?K])
    show "?I s1" using keep by (simp add: s1_def)
  next
    fix a and st0 :: viewer
    assume a: "a \<in> set (od_materials od)" and I0: "?I st0"
    from a obtain index where ix: "index < length mats"
      and a_def: "a = serialize_material (textures s) index (materials s (mats ! index))"
      unfolding mds by (auto simp: set_zip)
    have mi: "md_index a = index" by (simp add: a_def serialize_material_def)
    from cols ix have "color (materials s (mats ! index)) \<noteq> None"
      by (simp add: mats_def child_def)
    from restore_material_step [OF this, of st0 "textures s" index] I0
    show "\<exists>st'. body a st0 = Inr st' \<and> ?I st' \<and> (\<forall>k \<in> ?K a. ?Q k st') \<and> (\<forall>k. ?Q k st0 \<longrightarrow> ?Q k st')"
      unfolding body_def mi using ix by (auto simp: a_def)
  qed
  then obtain st' where st': "for_each body (od_materials od) s1 = Inr st'" "?I st'"
    "\<forall>a \<in> set (od_materials od). ?Q (mats ! md_index a) st'" "\<forall>k. ?Q k s1 \<longrightarrow> ?Q k st'"
    by auto
  have all: "\<forall>m \<in> set mats. ?Q m st'"
  proof
    fix m assume "m \<in> set mats"
    then obtain index where ix: "index < length mats" "mats ! index = m" by (auto simp: in_set_conv_nth)
    let ?a = "serialize_material (textures s) index (materials s (mats ! index))"
    have "?a \<in> set (od_materials od)"
      unfolding mds using ix(1) by (force simp: set_zip)
    moreover have "md_index ?a = index" by (simp add: serialize_material_def)
    ultimately show "?Q m st'" using st'(3) ix(2) by force
  qed
  have "materials s1 = materials st" by (simp add: s1_def)
  with st' all tr1 ro show ?thesis
    unfolding od_def child_def mats_def by auto
qed


lemma mesh_matches_serialize_object: "mesh_matches (materials s) child (serialize_object s child)"
proof -
  have "material_matches (materials s m) (serialize_material texs index (materials s m))" for m texs index
    by (simp add: material_matches_def serialize_material_def)
  then show ?thesis
    by (simp add: mesh_matches_def serialize_object_def Let_def list_all2_conv_all_nth)
qed

text \<open>
  C1. The scene data are written by \<^verbatim>\<open>serializeSceneData\<close> in a state \<open>s\<close> of the viewer
  and read by \<^verbatim>\<open>deserializeSceneData\<close> in a state \<open>s'\<close> (a JSON round trip gives the
  same data back). In between the model is left as it is: the same objects with the same
  identifiers and material lists, while their transforms and visibility and the fields of
  their materials may have changed. The identifiers of the meshes differ from one another,
  and a material that had a colour or an emissive colour object still has it. Then
  \<^verbatim>\<open>deserializeSceneData\<close> returns, and afterwards every mesh with a material has the
  position, rotation, scale and visibility of the time of the serialization, and for each
  of its materials every one of colour, roughness, metalness, emissive colour, emissive
  intensity and opacity that had a value then has that value again. The scene data hold
  exactly these values of the time of the serialization.
\<close>

theorem scene_data_round_trip:
  assumes ser: "serializeSceneData s = Inr (Some sceneData)"
    and sat: "satellite s = Some model"
    and sat': "satellite s' = Some model'"
    and same: "same_objects model model'"
    and d: "mesh_uuids_distinct model"
    and keep: "\<forall>m. keeps_colour_objects (materials s m) (materials s' m)"
  shows "\<exists>s''. deserializeSceneData (Some sceneData) s' = Inr s'' \<and>
           scene_restored s s'' \<and> scene_matches s sceneData"
proof -
  let ?objs = "map (serialize_object s) (serialized_meshes model)"
  from ser sat have cols: "\<not> list_ex (\<lambda>child. list_ex (\<lambda>m. color (materials s m) = None) (materials_of (material child)))
               (serialized_meshes model)"
    and sd: "sceneData = \<lparr>sd_objects = Some ?objs, sd_partData = Some (partData s)\<rparr>"
    by (auto simp: serializeSceneData_def split: if_splits)
  define index_of where "index_of = objectMap model'"
  define s1 where "s1 = s'\<lparr>partData := partData s' ++ partData s\<rparr>"
  define serialized where "serialized = (\<lambda>i. i < length (traverse model) \<and> isMesh (traverse model ! i) \<and>
      material (traverse model ! i) \<noteq> NoMaterial)"
  define I where "I = (\<lambda>st::viewer. \<exists>mdl. satellite st = Some mdl \<and> same_objects model mdl \<and>
      (\<forall>k. keeps_colour_objects (materials s k) (materials st k)))"
  define placed where "placed = (\<lambda>i (st::viewer). \<exists>mdl. satellite st = Some mdl \<and>
      position (traverse mdl ! i) = position (traverse model ! i) \<and>
      rotation (traverse mdl ! i) = rotation (traverse model ! i) \<and>
      scale (traverse mdl ! i) = scale (traverse model ! i) \<and>
      visible (traverse mdl ! i) = visible (traverse model ! i))"
  define Q where "Q = (\<lambda>k (st::viewer). case k of
      Inl i \<Rightarrow> placed i st
    | Inr m \<Rightarrow> material_restored (materials s m) (materials st m))"
  define K where "K = (\<lambda>objectData::object_data. case index_of (od_uuid objectData) of
      Some i \<Rightarrow> insert (Inl i) (Inr ` set (materials_of (material (traverse model ! i))))
    | None \<Rightarrow> {})"
  have lookup: "index_of (uuid (traverse model ! i)) = Some i" if "serialized i" for i
    unfolding index_of_def using d same that by (intro objectMap_at) (simp_all add: serialized_def)
  have in_objs: "\<exists>i. serialized i \<and> a = serialize_object s (traverse model ! i)" if "a \<in> set ?objs" for a
  proof -
    from that obtain child where "child \<in> set (traverse model)" "isMesh child"
      "material child \<noteq> NoMaterial" "a = serialize_object s child"
      by (auto simp: serialized_meshes_def)
    then show ?thesis by (auto simp: in_set_conv_nth serialized_def)
  qed
  have objs_in: "serialize_object s (traverse model ! i) \<in> set ?objs" if "serialized i" for i
    using that by (simp add: serialized_meshes_def serialized_def)
  have ou: "od_uuid (serialize_object s child) = uuid child" for child
    by (simp add: serialize_object_def Let_def)
  have "\<exists>s2. for_each (restore_object index_of) ?objs s1 = Inr s2 \<and> I s2 \<and>
      (\<forall>a \<in> set ?objs. \<forall>k \<in> K a. Q k s2) \<and> (\<forall>k. Q k s1 \<longrightarrow> Q k s2)"
  proof (rule for_each_establishes [where I = I and Q = Q and K = K])
    show "I s1" using sat' same keep by (auto simp: I_def s1_def)
  next
    fix a and st :: viewer
    assume a: "a \<in> set ?objs" and "I st"
    then obtain mdl where mdl: "satellite st = Some mdl" "same_objects model mdl"
      and kp: "\<forall>k. keeps_colour_objects (materials s k) (materials st k)"
      by (auto simp: I_def)
    from in_objs [OF a] obtain i where i: "serialized i" and a_def: "a = serialize_object s (traverse model ! i)"
      by blast
    let ?child = "traverse model ! i"
    from i have il: "i < length (traverse model)" and mat: "material ?child \<noteq> NoMaterial"
      and mesh: "isMesh ?child" by (simp_all add: serialized_def)
    have "?child \<in> set (serialized_meshes model)"
      using il mesh mat by (simp add: serialized_meshes_def)
    with cols have cm: "\<forall>m \<in> set (materials_of (material ?child)). color (materials s m) \<noteq> None"
      by (auto simp: list_ex_iff)
    from restore_object_step [where index_of = index_of and s = s, OF mdl(2) mdl(1) il mat lookup [OF i] cm kp]
    obtain st' mdl' where r: "restore_object index_of a st = Inr st'" "satellite st' = Some mdl'"
      "traverse mdl' = (traverse mdl)[i := restore_transform a (traverse mdl ! i)]"
      "\<forall>k. keeps_colour_objects (materials s k) (materials st' k)"
      "\<forall>m \<in> set (materials_of (material ?child)). material_restored (materials s m) (materials st' m)"
      "\<forall>k. material_restored (materials s k) (materials st k) \<longrightarrow>
           material_restored (materials s k) (materials st' k)"
      unfolding a_def by blast
    from mdl(2) have rel: "list_all2 (\<lambda>a b. uuid b = uuid a \<and> isMesh b = isMesh a \<and> material b = material a)
        (traverse model) (traverse mdl)" by (simp add: same_objects_def)
    then have len: "length (traverse mdl) = length (traverse model)" by (simp add: list_all2_lengthD)
    have same': "same_objects model mdl'"
      unfolding same_objects_def r(3) list_all2_conv_all_nth
      using rel il by (auto simp: list_all2_conv_all_nth nth_list_update restore_transform_keeps)
    have I': "I st'" using r(2,4) same' by (auto simp: I_def)
    have pi: "placed i st'"
      unfolding placed_def using r(2,3) il len
      by (simp add: a_def restore_transform_restores)
    have Ka: "K a = insert (Inl i) (Inr ` set (materials_of (material ?child)))"
      by (simp add: K_def a_def ou lookup [OF i])
    have est: "\<forall>k \<in> K a. Q k st'"
      unfolding Ka using pi r(5) by (auto simp: Q_def)
    have pres: "Q k st' " if "Q k st" for k
    proof (cases k)
      case (Inl j)
      with that have "placed j st" by (simp add: Q_def)
      then have "placed j st'"
        using pi mdl(1) r(2,3) by (cases "j = i") (auto simp: placed_def)
      with Inl show ?thesis by (simp add: Q_def)
    next
      case (Inr m)
      with that r(6) show ?thesis by (simp add: Q_def)
    qed
    from r(1) I' est pres
    show "\<exists>st'. restore_object index_of a st = Inr st' \<and> I st' \<and> (\<forall>k \<in> K a. Q k st') \<and>
        (\<forall>k. Q k st \<longrightarrow> Q k st')" by blast
  qed
  then obtain s2 where s2: "for_each (restore_object index_of) ?objs s1 = Inr s2" "I s2"
    "\<forall>a \<in> set ?objs. \<forall>k \<in> K a. Q k s2" by blast
  let ?s'' = "setTimeout BuildOutliner 500 s2"
  have 1: "deserializeSceneData (Some sceneData) s' = Inr ?s''"
    unfolding deserializeSceneData_def Let_def
    using sat' s2(1) by (simp add: sd index_of_def s1_def)
  from s2(2) obtain mdl2 where mdl2: "satellite s2 = Some mdl2" "same_objects model mdl2"
    by (auto simp: I_def)
  then have rel2: "list_all2 (\<lambda>a b. uuid b = uuid a \<and> isMesh b = isMesh a \<and> material b = material a)
      (traverse model) (traverse mdl2)" by (simp add: same_objects_def)
  have restored: "mesh_restored (materials s) (materials s2) (traverse model ! i) (traverse mdl2 ! i)"
    if "serialized i" for i
  proof -
    let ?a = "serialize_object s (traverse model ! i)"
    have Ka: "K ?a = insert (Inl i) (Inr ` set (materials_of (material (traverse model ! i))))"
      by (simp add: K_def ou lookup [OF that])
    from s2(3) objs_in [OF that] have "\<forall>k \<in> K ?a. Q k s2" by blast
    then have "placed i s2"
      and "\<forall>m \<in> set (materials_of (material (traverse model ! i))).
             material_restored (materials s m) (materials s2 m)"
      unfolding Ka by (auto simp: Q_def)
    then show ?thesis using mdl2(1) by (simp add: mesh_restored_def placed_def list_all_iff)
  qed
  have 2: "scene_restored s ?s''"
    unfolding scene_restored_def using sat mdl2(1) rel2 restored
    by (auto simp: list_all2_conv_all_nth serialized_def)
  have 3: "scene_matches s sceneData"
    using sat mesh_matches_serialize_object [of s]
    by (simp add: scene_matches_def sd list_all2_map2 list_all2_same)
  from 1 2 3 show ?thesis by blast
qed


text \<open>
  The theorem at the example viewer, whose scene data are read back after its meshes
  were moved and its materials changed: before the reading the scene is not in the
  state of the serialization, afterwards it is.
\<close>

theorem scene_data_round_trip_witness:
  "\<exists>sceneData model' s''.
     serializeSceneData example_viewer = Inr (Some sceneData) \<and>
     satellite example_viewer = Some example_model \<and>
     satellite example_moved = Some model' \<and>
     same_objects example_model model' \<and>
     mesh_uuids_distinct example_model \<and>
     (\<forall>m. keeps_colour_objects (materials example_viewer m) (materials example_moved m)) \<and>
     \<not> scene_restored example_viewer example_moved \<and>
     deserializeSceneData (Some sceneData) example_moved = Inr s'' \<and>
     scene_restored example_viewer s'' \<and> scene_matches example_viewer sceneData"
proof -
  let ?sd = "\<lparr>sd_objects = Some (map (serialize_object example_viewer) (serialized_meshes example_model)),
              sd_partData = Some (partData example_viewer)\<rparr>"
  let ?model' = "map_object3d (\<lambda>d. d\<lparr>position := \<lparr>vx = 9, vy = 8, vz = 7\<rparr>,
                                     rotation := \<lparr>vx = 1, vy = 1, vz = 1\<rparr>,
                                     scale := \<lparr>vx = 2, vy = 2, vz = 2\<rparr>,
                                     visible := \<not> visible d\<rparr>) example_model"
  have sat: "satellite example_viewer = Some example_model"
    by (simp add: example_viewer_def)
  have mats: "materials example_viewer = example_materials"
    by (simp add: example_viewer_def)
  have ser: "serializeSceneData example_viewer = Inr (Some ?sd)"
    unfolding serializeSceneData_def sat mats
    by (simp add: serialized_meshes_def example_model_def example_object_def example_materials_def
        default_material_def)
  have sat': "satellite example_moved = Some ?model'"
    by (simp add: example_moved_def)
  have same: "same_objects example_model ?model'"
    by (simp add: same_objects_def example_model_def example_object_def)
  have d: "mesh_uuids_distinct example_model"
    by (simp add: mesh_uuids_distinct_def example_model_def example_object_def)
  have keep: "\<forall>m. keeps_colour_objects (materials example_viewer m) (materials example_moved m)"
    by (simp add: keeps_colour_objects_def example_moved_def mats)
  have moved: "\<not> scene_restored example_viewer example_moved"
    unfolding scene_restored_def sat sat'
    by (simp add: example_model_def example_object_def mesh_restored_def)
  from scene_data_round_trip [OF ser sat sat' same d keep] ser sat sat' same d keep moved
  show ?thesis by blast
qed

end
